theory Spec2Isabelle
  imports Main "HOL-Library.Monad_Syntax"
begin

section \<open>Data model\<close>

text \<open>
  The generator object of \<^verbatim>\<open>services/groq_question_generator.py\<close>
  (class \<^verbatim>\<open>GroqQuestionGenerator\<close>). Only the attributes that the operations below read
  or write are fields: the ordered credential list, the index of the active credential and the three
  per-category sets of template indices already handed out. Python integers are unbounded; the
  index starts at 0 and is only ever assigned a remainder, so it is a natural number.
\<close>

record generator =
  api_keys :: "string list"
  current_key_index :: nat
  used_reading_templates :: "nat set"
  used_listening_templates :: "nat set"
  used_grammar_templates :: "nat set"

text \<open>Python exceptions that the modelled code can raise, as values.\<close>

datatype exn =
    IndexError
  | KeyError string
  | NameError string
  | TypeError
  | AttributeError
  | JSONDecodeError string
  | OtherError string

text \<open>
  A topic configuration is a Python dict with the key \<^verbatim>\<open>'topic'\<close> and optional integer
  keys \<^verbatim>\<open>'easy'\<close>, \<^verbatim>\<open>'medium'\<close>, \<^verbatim>\<open>'hard'\<close>,
  \<^verbatim>\<open>'total'\<close>. An absent key is \<open>None\<close>; \<^verbatim>\<open>d.get(k, 0)\<close> is \<open>get0\<close>.
\<close>

record topic_config =
  topic :: string
  easy :: "int option"
  medium :: "int option"
  hard :: "int option"
  total :: "int option"

definition get0 :: "int option \<Rightarrow> int" where
  "get0 v = (case v of None \<Rightarrow> 0 | Some n \<Rightarrow> n)"

text \<open>
  The per-topic counts already persisted, as \<^verbatim>\<open>_check_existing_questions\<close> builds them:
  every entry carries all three difficulty keys.
\<close>

record counts =
  c_easy :: int
  c_medium :: int
  c_hard :: int

type_synonym existing_counts = "string \<rightharpoonup> counts"

section \<open>Credential rotator\<close>

text \<open>
  \<^verbatim>\<open>get_current_api_key\<close>: \<open>None\<close> for an empty credential list, otherwise the credential at
  the current index; an index outside the list raises \<^verbatim>\<open>IndexError\<close>.
\<close>

definition get_current_api_key :: "generator \<Rightarrow> exn + string option" where
  "get_current_api_key g =
     (if api_keys g = [] then Inr None
      else if current_key_index g < length (api_keys g)
           then Inr (Some (api_keys g ! current_key_index g))
           else Inl IndexError)"

text \<open>
  \<^verbatim>\<open>rotate_api_key\<close>: returns whether rotation was possible, and the generator afterwards.
\<close>

definition rotate_api_key :: "generator \<Rightarrow> bool \<times> generator" where
  "rotate_api_key g =
     (if length (api_keys g) \<le> 1 then (False, g)
      else (True, g\<lparr>current_key_index := (current_key_index g + 1) mod length (api_keys g)\<rparr>))"

text \<open>\<open>n\<close> consecutive calls of \<^verbatim>\<open>rotate_api_key\<close>, results discarded.\<close>

fun rotate_times :: "nat \<Rightarrow> generator \<Rightarrow> generator" where
  "rotate_times 0 g = g"
| "rotate_times (Suc n) g = rotate_times n (snd (rotate_api_key g))"

section \<open>Batch planner: missing work\<close>

text \<open>
  \<^verbatim>\<open>_calculate_missing_questions\<close>. The loop appends to \<^verbatim>\<open>missing_configs\<close>; the
  accumulator is the list built so far. \<^verbatim>\<open>existing_counts.get(topic, {...zeros...})\<close> is
  \<open>existing_for\<close>.
\<close>

definition existing_for :: "existing_counts \<Rightarrow> string \<Rightarrow> counts" where
  "existing_for existing t =
     (case existing t of None \<Rightarrow> \<lparr>c_easy = 0, c_medium = 0, c_hard = 0\<rparr> | Some c \<Rightarrow> c)"

definition missing_config_of :: "existing_counts \<Rightarrow> topic_config \<Rightarrow> topic_config" where
  "missing_config_of existing tc =
     (let ex = existing_for existing (topic tc);
          e = max 0 (get0 (easy tc) - c_easy ex);
          m = max 0 (get0 (medium tc) - c_medium ex);
          h = max 0 (get0 (hard tc) - c_hard ex)
      in \<lparr>topic = topic tc, easy = Some e, medium = Some m, hard = Some h,
          total = Some (e + m + h)\<rparr>)"

fun calculate_missing_loop ::
  "existing_counts \<Rightarrow> topic_config list \<Rightarrow> topic_config list \<Rightarrow> topic_config list" where
  "calculate_missing_loop existing [] missing_configs = missing_configs"
| "calculate_missing_loop existing (tc # rest) missing_configs =
     (let missing_config = missing_config_of existing tc
      in if get0 (total missing_config) > 0
         then calculate_missing_loop existing rest (missing_configs @ [missing_config])
         else calculate_missing_loop existing rest missing_configs)"

definition calculate_missing_questions ::
  "topic_config list \<Rightarrow> existing_counts \<Rightarrow> topic_config list" where
  "calculate_missing_questions topic_configs existing =
     calculate_missing_loop existing topic_configs []"


section \<open>Python values and string helpers\<close>

text \<open>
  Python dicts and lists that flow through the generator as data (questions, results, parsed
  provider payloads) are JSON values; a dict is an association list in insertion order.
  \<open>JNum\<close> stands for every JSON number: each operation used below treats all numbers alike.
\<close>

datatype json =
    JNull
  | JBool bool
  | JNum int
  | JStr string
  | JArr "json list"
  | JObj "(string \<times> json) list"

definition dict_get :: "json \<Rightarrow> string \<Rightarrow> json option" where
  "dict_get d k = (case d of JObj kvs \<Rightarrow> map_of kvs k | _ \<Rightarrow> None)"

text \<open>\<^verbatim>\<open>str(n)\<close> for an integer, in decimal.\<close>

fun str_nat :: "nat \<Rightarrow> string" where
  "str_nat n =
     (if n < 10 then [char_of (48 + n)]
      else str_nat (n div 10) @ [char_of (48 + n mod 10)])"

declare str_nat.simps [simp del]

definition str_int :: "int \<Rightarrow> string" where
  "str_int i = (if i < 0 then ''-'' @ str_nat (nat (- i)) else str_nat (nat i))"

text \<open>\<^verbatim>\<open>s.replace("_", " ")\<close>.\<close>

definition replace_underscores :: "string \<Rightarrow> string" where
  "replace_underscores s = map (\<lambda>c. if c = CHR ''_'' then CHR '' '' else c) s"

section \<open>Template bank\<close>

text \<open>
  A template of the static table \<^verbatim>\<open>fallback_templates\<close>. The source's templates also carry
  \<^verbatim>\<open>'options'\<close> and \<^verbatim>\<open>'explanation'\<close>; both are copied unchanged into the emitted
  question and no branch looks at them, so the table below keeps the question text and the
  answer label. Characters outside ASCII are written as their UTF-8 bytes.
\<close>

record template =
  t_question :: string
  t_correct_answer :: string

type_synonym pools = "string \<rightharpoonup> template list"
type_synonym bank = "string \<rightharpoonup> pools"

text \<open>The table inside \<^verbatim>\<open>GroqQuestionGenerator._get_fallback_aptitude_questions\<close>.\<close>

definition bank_logical_reasoning_easy :: "template list" where
  "bank_logical_reasoning_easy = [
     \<lparr>t_question = ''If all developers use Git and John is a developer, what can we conclude?'',
      t_correct_answer = ''A''\<rparr>,
     \<lparr>t_question = ''In a sequence: 2, 4, 8, 16, ?, what comes next?'',
      t_correct_answer = ''B''\<rparr>,
     \<lparr>t_question = ''If it takes 5 developers 10 days to complete a project, how many days would it take 10 developers?'',
      t_correct_answer = ''B''\<rparr>,
     \<lparr>t_question = ''Which number does not belong: 3, 5, 7, 9, 11?'',
      t_correct_answer = ''C''\<rparr>,
     \<lparr>t_question = ''Complete the pattern: AB, CD, EF, ?'',
      t_correct_answer = ''A''\<rparr>,
     \<lparr>t_question = ''What comes next: 1, 1, 2, 3, 5, 8, ?'',
      t_correct_answer = ''B''\<rparr>,
     \<lparr>t_question = ''Which is the odd one out: HTTP, FTP, TCP, HTML?'',
      t_correct_answer = ''D''\<rparr>,
     \<lparr>t_question = ''Complete the series: 5, 10, 20, 40, ?'',
      t_correct_answer = ''B''\<rparr>,
     \<lparr>t_question = ''If A > B and B > C, what is the relationship between A and C?'',
      t_correct_answer = ''A''\<rparr>,
     \<lparr>t_question = ''What is the next number: 1, 4, 9, 16, ?'',
      t_correct_answer = ''B''\<rparr>,
     \<lparr>t_question = ''In binary, what is 1010 + 1100?'',
      t_correct_answer = ''A''\<rparr>,
     \<lparr>t_question = ''If every bug has a cause and this error is a bug, then:'',
      t_correct_answer = ''A''\<rparr>,
     \<lparr>t_question = ''If no developers work on weekends and today is Saturday, then:'',
      t_correct_answer = ''A''\<rparr>,
     \<lparr>t_question = ''Complete: Circle is to Round as Square is to ?'',
      t_correct_answer = ''B''\<rparr>,
     \<lparr>t_question = ''In the pattern X, Y, Z, A, B, what comes next?'',
      t_correct_answer = ''A''\<rparr>,
     \<lparr>t_question = ''If all APIs return JSON and this endpoint is an API, then:'',
      t_correct_answer = ''A''\<rparr>,
     \<lparr>t_question = ''What number is missing: 2, 3, 5, 7, 11, ?'',
      t_correct_answer = ''A''\<rparr>,
     \<lparr>t_question = ''If debugging takes twice as long as coding, and coding takes 4 hours, how long is debugging?'',
      t_correct_answer = ''B''\<rparr>,
     \<lparr>t_question = ''Complete the analogy: Function is to Code as Chapter is to ?'',
      t_correct_answer = ''A''\<rparr>,
     \<lparr>t_question = ''If some programmers are testers and all testers are analysts, then:'',
      t_correct_answer = ''A''\<rparr>]"

definition bank_logical_reasoning_medium :: "template list" where
  "bank_logical_reasoning_medium = [
     \<lparr>t_question = ''In a coding interview, if 40% pass the technical round and 60% of those pass the final round, what percentage pass both?'',
      t_correct_answer = ''A''\<rparr>,
     \<lparr>t_question = ''If ALGORITHM is coded as DOJRULWKP, how is FUNCTION coded?'',
      t_correct_answer = ''A''\<rparr>,
     \<lparr>t_question = ''A software team has 8 members. In how many ways can they form a subteam of 3 members?'',
      t_correct_answer = ''A''\<rparr>,
     \<lparr>t_question = ''Complete the series: 2, 6, 12, 20, 30, ?'',
      t_correct_answer = ''A''\<rparr>,
     \<lparr>t_question = ''If a hash table has load factor 0.75 and 12 elements, what is the table size?'',
      t_correct_answer = ''A''\<rparr>]"

definition bank_logical_reasoning_hard :: "template list" where
  "bank_logical_reasoning_hard = [
     \<lparr>t_question = ''In a distributed system with 5 nodes, if each node can fail independently with probability 0.1, what is the probability that exactly 2 nodes fail?'',
      t_correct_answer = ''A''\<rparr>,
     \<lparr>t_question = ''A recursive algorithm has time complexity T(n) = 2T(n/2) + n. What is its Big O complexity?'',
      t_correct_answer = ''A''\<rparr>]"

definition bank_quantitative_aptitude_easy :: "template list" where
  "bank_quantitative_aptitude_easy = [
     \<lparr>t_question = ''What is 25% of 80?'',
      t_correct_answer = ''A''\<rparr>,
     \<lparr>t_question = ''If a software license costs $100 and there is a 15% discount, what is the final price?'',
      t_correct_answer = ''A''\<rparr>,
     \<lparr>t_question = ''A team completes 3 features per sprint. How many features in 4 sprints?'',
      t_correct_answer = ''A''\<rparr>,
     \<lparr>t_question = ''If 60% of tests pass, and there are 50 tests, how many fail?'',
      t_correct_answer = ''A''\<rparr>,
     \<lparr>t_question = ''What is 3/4 expressed as a percentage?'',
      t_correct_answer = ''A''\<rparr>]"

definition bank_quantitative_aptitude_medium :: "template list" where
  "bank_quantitative_aptitude_medium = [
     \<lparr>t_question = ''A server processes 1200 requests per minute. How many requests in 2.5 hours?'',
      t_correct_answer = ''A''\<rparr>,
     \<lparr>t_question = ''If API response time increases by 20% from 100ms, what is the new response time?'',
      t_correct_answer = ''A''\<rparr>]"

definition bank_quantitative_aptitude_hard :: "template list" where
  "bank_quantitative_aptitude_hard = [
     \<lparr>t_question = ''A system has 99.9% uptime. In a year (365 days), how many minutes of downtime is this?'',
      t_correct_answer = ''A''\<rparr>]"

definition bank_verbal_reasoning_easy :: "template list" where
  "bank_verbal_reasoning_easy = [
     \<lparr>t_question = ''Choose the word most similar to '' @ [CHR 0x22] @ ''Debug'' @ [CHR 0x22] @ '':'',
      t_correct_answer = ''A''\<rparr>,
     \<lparr>t_question = ''What is the opposite of '' @ [CHR 0x22] @ ''Compile'' @ [CHR 0x22] @ ''?'',
      t_correct_answer = ''A''\<rparr>]"

definition bank_verbal_reasoning_medium :: "template list" where
  "bank_verbal_reasoning_medium = [
     \<lparr>t_question = ''Complete the analogy: Code is to Program as Ingredient is to ?'',
      t_correct_answer = ''A''\<rparr>]"

definition bank_verbal_reasoning_hard :: "template list" where
  "bank_verbal_reasoning_hard = [
     \<lparr>t_question = ''If '' @ [CHR 0x22] @ ''Optimization improves performance'' @ [CHR 0x22] @ '' is true, and '' @ [CHR 0x22] @ ''Performance affects user experience'' @ [CHR 0x22] @ '' is true, what can we conclude?'',
      t_correct_answer = ''A''\<rparr>]"


definition fallback_templates :: bank where
  "fallback_templates =
     [''logical_reasoning'' \<mapsto>
        [''easy'' \<mapsto> bank_logical_reasoning_easy,
         ''medium'' \<mapsto> bank_logical_reasoning_medium,
         ''hard'' \<mapsto> bank_logical_reasoning_hard],
      ''quantitative_aptitude'' \<mapsto>
        [''easy'' \<mapsto> bank_quantitative_aptitude_easy,
         ''medium'' \<mapsto> bank_quantitative_aptitude_medium,
         ''hard'' \<mapsto> bank_quantitative_aptitude_hard],
      ''verbal_reasoning'' \<mapsto>
        [''easy'' \<mapsto> bank_verbal_reasoning_easy,
         ''medium'' \<mapsto> bank_verbal_reasoning_medium,
         ''hard'' \<mapsto> bank_verbal_reasoning_hard]]"

text \<open>The table of the copy of the function in \<^verbatim>\<open>services/aptitude_fallback.py\<close>.\<close>

definition module_bank_logical_reasoning_easy :: "template list" where
  "module_bank_logical_reasoning_easy = [
     \<lparr>t_question = ''If all developers use Git and John is a developer, what can we conclude?'',
      t_correct_answer = ''A''\<rparr>,
     \<lparr>t_question = ''In a sequence: 2, 4, 8, 16, ?, what comes next?'',
      t_correct_answer = ''B''\<rparr>,
     \<lparr>t_question = ''If it takes 5 developers 10 days to complete a project, how many days would it take 10 developers?'',
      t_correct_answer = ''B''\<rparr>,
     \<lparr>t_question = ''Which number does not belong: 3, 5, 7, 9, 11?'',
      t_correct_answer = ''C''\<rparr>,
     \<lparr>t_question = ''Complete the pattern: AB, CD, EF, ?'',
      t_correct_answer = ''A''\<rparr>,
     \<lparr>t_question = ''If some programmers are testers and all testers are analysts, then:'',
      t_correct_answer = ''A''\<rparr>,
     \<lparr>t_question = ''What comes next: 1, 1, 2, 3, 5, 8, ?'',
      t_correct_answer = ''B''\<rparr>,
     \<lparr>t_question = ''Which is the odd one out: HTTP, FTP, TCP, HTML?'',
      t_correct_answer = ''D''\<rparr>,
     \<lparr>t_question = ''If A > B and B > C, what is the relationship between A and C?'',
      t_correct_answer = ''A''\<rparr>,
     \<lparr>t_question = ''Complete the series: 5, 10, 20, 40, ?'',
      t_correct_answer = ''B''\<rparr>,
     \<lparr>t_question = ''In binary, what is 1010 + 1100?'',
      t_correct_answer = ''A''\<rparr>,
     \<lparr>t_question = ''If every bug has a cause and this error is a bug, then:'',
      t_correct_answer = ''A''\<rparr>,
     \<lparr>t_question = ''What is the next number: 1, 4, 9, 16, ?'',
      t_correct_answer = ''B''\<rparr>,
     \<lparr>t_question = ''If no developers work on weekends and today is Saturday, then:'',
      t_correct_answer = ''A''\<rparr>,
     \<lparr>t_question = ''Complete: Circle is to Round as Square is to ?'',
      t_correct_answer = ''B''\<rparr>,
     \<lparr>t_question = ''In the pattern X, Y, Z, A, B, what comes next?'',
      t_correct_answer = ''A''\<rparr>,
     \<lparr>t_question = ''If all APIs return JSON and this endpoint is an API, then:'',
      t_correct_answer = ''A''\<rparr>,
     \<lparr>t_question = ''What number is missing: 2, 3, 5, 7, 11, ?'',
      t_correct_answer = ''A''\<rparr>,
     \<lparr>t_question = ''If debugging takes twice as long as coding, and coding takes 4 hours, how long is debugging?'',
      t_correct_answer = ''B''\<rparr>,
     \<lparr>t_question = ''Complete the analogy: Function is to Code as Chapter is to ?'',
      t_correct_answer = ''A''\<rparr>]"

definition module_bank_logical_reasoning_medium :: "template list" where
  "module_bank_logical_reasoning_medium = [
     \<lparr>t_question = ''In a coding interview, if 40% pass the technical round and 60% of those pass the final round, what percentage pass both?'',
      t_correct_answer = ''A''\<rparr>,
     \<lparr>t_question = ''If ALGORITHM is coded as DOJRULWKP, how is FUNCTION coded?'',
      t_correct_answer = ''A''\<rparr>,
     \<lparr>t_question = ''A software team has 8 members. In how many ways can they form a subteam of 3 members?'',
      t_correct_answer = ''A''\<rparr>,
     \<lparr>t_question = ''Complete the series: 2, 6, 12, 20, 30, ?'',
      t_correct_answer = ''A''\<rparr>,
     \<lparr>t_question = ''If a hash table has load factor 0.75 and 12 elements, what is the table size?'',
      t_correct_answer = ''A''\<rparr>,
     \<lparr>t_question = ''A recursive function calls itself n times. If each call takes 2ms, how long for n=50?'',
      t_correct_answer = ''A''\<rparr>,
     \<lparr>t_question = ''If 3 out of 4 code reviews find bugs, what is the probability that 2 consecutive reviews both find bugs?'',
      t_correct_answer = ''A''\<rparr>,
     \<lparr>t_question = ''Complete: 1, 8, 27, 64, ?'',
      t_correct_answer = ''A''\<rparr>,
     \<lparr>t_question = ''If a sorting algorithm has O(n log n) complexity, how many operations for 1000 elements?'',
      t_correct_answer = ''A''\<rparr>,
     \<lparr>t_question = ''In a binary tree with height h, what is the maximum number of nodes?'',
      t_correct_answer = ''A''\<rparr>]"

definition module_bank_logical_reasoning_hard :: "template list" where
  "module_bank_logical_reasoning_hard = [
     \<lparr>t_question = ''In a distributed system with 5 nodes, if each node can fail independently with probability 0.1, what is the probability that exactly 2 nodes fail?'',
      t_correct_answer = ''A''\<rparr>,
     \<lparr>t_question = ''A recursive algorithm has time complexity T(n) = 2T(n/2) + n. What is its Big O complexity?'',
      t_correct_answer = ''A''\<rparr>,
     \<lparr>t_question = ''In a consistent hashing ring with 4 nodes, if one node fails, what percentage of keys need to be redistributed?'',
      t_correct_answer = ''A''\<rparr>,
     \<lparr>t_question = ''A B-tree of order m has minimum degree t = '' @ [CHR 0xE2, CHR 0x8C, CHR 0x88] @ ''m/2'' @ [CHR 0xE2, CHR 0x8C, CHR 0x89] @ ''. For m=5, what is the minimum number of keys in a non-root node?'',
      t_correct_answer = ''A''\<rparr>,
     \<lparr>t_question = ''In a load balancer using weighted round-robin with weights [3,1,2], what percentage of requests go to the first server?'',
      t_correct_answer = ''A''\<rparr>]"

definition module_bank_quantitative_aptitude_easy :: "template list" where
  "module_bank_quantitative_aptitude_easy = [
     \<lparr>t_question = ''What is 25% of 80?'',
      t_correct_answer = ''A''\<rparr>,
     \<lparr>t_question = ''If a software license costs $100 and there is a 15% discount, what is the final price?'',
      t_correct_answer = ''A''\<rparr>,
     \<lparr>t_question = ''A team completes 3 features per sprint. How many features in 4 sprints?'',
      t_correct_answer = ''A''\<rparr>,
     \<lparr>t_question = ''If 60% of tests pass, and there are 50 tests, how many fail?'',
      t_correct_answer = ''A''\<rparr>,
     \<lparr>t_question = ''What is 3/4 expressed as a percentage?'',
      t_correct_answer = ''A''\<rparr>,
     \<lparr>t_question = ''If a developer works 8 hours per day for 5 days, how many total hours?'',
      t_correct_answer = ''A''\<rparr>,
     \<lparr>t_question = ''What is 12 '' @ [CHR 0xC3, CHR 0x97] @ '' 15?'',
      t_correct_answer = ''A''\<rparr>,
     \<lparr>t_question = ''If there are 24 hours in a day, how many minutes is that?'',
      t_correct_answer = ''A''\<rparr>,
     \<lparr>t_question = ''What is 50% of 200?'',
      t_correct_answer = ''A''\<rparr>,
     \<lparr>t_question = ''If a project has 10 tasks and 3 are completed, what percentage is done?'',
      t_correct_answer = ''A''\<rparr>]"

definition module_bank_quantitative_aptitude_medium :: "template list" where
  "module_bank_quantitative_aptitude_medium = [
     \<lparr>t_question = ''A server processes 1200 requests per minute. How many requests in 2.5 hours?'',
      t_correct_answer = ''A''\<rparr>,
     \<lparr>t_question = ''If API response time increases by 20% from 100ms, what is the new response time?'',
      t_correct_answer = ''A''\<rparr>,
     \<lparr>t_question = ''A database query returns 500 records. If we paginate with 25 records per page, how many pages?'',
      t_correct_answer = ''A''\<rparr>,
     \<lparr>t_question = ''If memory usage grows by 5% each day, starting at 100MB, what is it after 2 days?'',
      t_correct_answer = ''A''\<rparr>,
     \<lparr>t_question = ''A team of 6 developers can complete a project in 8 weeks. How long for 4 developers?'',
      t_correct_answer = ''A''\<rparr>]"

definition module_bank_quantitative_aptitude_hard :: "template list" where
  "module_bank_quantitative_aptitude_hard = [
     \<lparr>t_question = ''A system has 99.9% uptime. In a year (365 days), how many minutes of downtime is this?'',
      t_correct_answer = ''A''\<rparr>,
     \<lparr>t_question = ''If a cache has 95% hit rate and each miss costs 100ms while hits cost 1ms, what is average response time?'',
      t_correct_answer = ''A''\<rparr>]"

definition module_bank_verbal_reasoning_easy :: "template list" where
  "module_bank_verbal_reasoning_easy = [
     \<lparr>t_question = ''Choose the word most similar to '' @ [CHR 0x22] @ ''Debug'' @ [CHR 0x22] @ '':'',
      t_correct_answer = ''A''\<rparr>,
     \<lparr>t_question = ''What is the opposite of '' @ [CHR 0x22] @ ''Compile'' @ [CHR 0x22] @ ''?'',
      t_correct_answer = ''A''\<rparr>,
     \<lparr>t_question = ''Choose the synonym for '' @ [CHR 0x22] @ ''Implement'' @ [CHR 0x22] @ '':'',
      t_correct_answer = ''A''\<rparr>,
     \<lparr>t_question = ''What does '' @ [CHR 0x22] @ ''Optimize'' @ [CHR 0x22] @ '' mean?'',
      t_correct_answer = ''A''\<rparr>,
     \<lparr>t_question = ''Choose the antonym of '' @ [CHR 0x22] @ ''Secure'' @ [CHR 0x22] @ '':'',
      t_correct_answer = ''A''\<rparr>]"

definition module_bank_verbal_reasoning_medium :: "template list" where
  "module_bank_verbal_reasoning_medium = [
     \<lparr>t_question = ''Complete the analogy: Code is to Program as Ingredient is to ?'',
      t_correct_answer = ''A''\<rparr>,
     \<lparr>t_question = ''Choose the word that best completes: '' @ [CHR 0x22] @ ''The API is _____ because it handles errors gracefully.'' @ [CHR 0x22],
      t_correct_answer = ''A''\<rparr>]"

definition module_bank_verbal_reasoning_hard :: "template list" where
  "module_bank_verbal_reasoning_hard = [
     \<lparr>t_question = ''If '' @ [CHR 0x22] @ ''Optimization improves performance'' @ [CHR 0x22] @ '' is true, and '' @ [CHR 0x22] @ ''Performance affects user experience'' @ [CHR 0x22] @ '' is true, what can we conclude?'',
      t_correct_answer = ''A''\<rparr>]"


definition module_fallback_templates :: bank where
  "module_fallback_templates =
     [''logical_reasoning'' \<mapsto>
        [''easy'' \<mapsto> module_bank_logical_reasoning_easy,
         ''medium'' \<mapsto> module_bank_logical_reasoning_medium,
         ''hard'' \<mapsto> module_bank_logical_reasoning_hard],
      ''quantitative_aptitude'' \<mapsto>
        [''easy'' \<mapsto> module_bank_quantitative_aptitude_easy,
         ''medium'' \<mapsto> module_bank_quantitative_aptitude_medium,
         ''hard'' \<mapsto> module_bank_quantitative_aptitude_hard],
      ''verbal_reasoning'' \<mapsto>
        [''easy'' \<mapsto> module_bank_verbal_reasoning_easy,
         ''medium'' \<mapsto> module_bank_verbal_reasoning_medium,
         ''hard'' \<mapsto> module_bank_verbal_reasoning_hard]]"

text \<open>
  The generic pool synthesised for a topic the table does not know: two templates built from the
  topic's display name, repeated ten times, under the single key \<^verbatim>\<open>'easy'\<close>.
\<close>

definition base_templates :: "string \<Rightarrow> pools" where
  "base_templates t =
     [''easy'' \<mapsto> concat (replicate 10
        [\<lparr>t_question = ''What is a fundamental concept in '' @ replace_underscores t @ ''?'',
          t_correct_answer = ''A''\<rparr>,
         \<lparr>t_question = ''Which is most important in '' @ replace_underscores t @ ''?'',
          t_correct_answer = ''A''\<rparr>])]"

section \<open>Fallback composer (aptitude)\<close>

text \<open>
  \<^verbatim>\<open>topic_templates.get(difficulty, topic_templates.get('easy', []))\<close>: the key under which
  the returned list is stored, if it is stored at all, and the list.
\<close>

definition pool_key :: "pools \<Rightarrow> string \<Rightarrow> string option" where
  "pool_key topic_templates difficulty =
     (case topic_templates difficulty of
        Some _ \<Rightarrow> Some difficulty
      | None \<Rightarrow> (case topic_templates ''easy'' of Some _ \<Rightarrow> Some ''easy'' | None \<Rightarrow> None))"

definition pool_get :: "pools \<Rightarrow> string \<Rightarrow> template list" where
  "pool_get topic_templates difficulty =
     (case topic_templates difficulty of
        Some p \<Rightarrow> p
      | None \<Rightarrow> (case topic_templates ''easy'' of Some p \<Rightarrow> p | None \<Rightarrow> []))"

text \<open>
  \<^verbatim>\<open>while len(available_templates) < count: available_templates.extend(<the same lookup>)\<close>.
  The lookup returns the very list being extended, so each round doubles it in place; on an empty
  list the loop never ends, which is the value \<open>None\<close>.
\<close>

partial_function (option) extend_templates :: "template list \<Rightarrow> int \<Rightarrow> template list option" where
  "extend_templates available_templates count =
     (if int (length available_templates) < count
      then extend_templates (available_templates @ available_templates) count
      else Some available_templates)"

declare extend_templates.simps [code]

text \<open>
  The body of \<^verbatim>\<open>for i in range(count)\<close>. After the loop above the list is at least
  \<open>count\<close> long, so the index is in range and the remainder is by a positive length.
\<close>

definition make_question ::
  "template list \<Rightarrow> string \<Rightarrow> string \<Rightarrow> int \<Rightarrow> nat \<Rightarrow> json" where
  "make_question available_templates t difficulty time_per_question i =
     (let template_index = i mod length available_templates;
          template = available_templates ! template_index;
          question_text =
            (if i \<ge> length available_templates
             then ''[Variation '' @ str_nat (i div length available_templates + 1) @ ''] ''
                  @ t_question template
             else t_question template)
      in JObj [(''topic'', JStr t),
               (''question'', JStr question_text),
               (''correct_answer'', JStr (t_correct_answer template)),
               (''difficulty'', JStr difficulty),
               (''time_limit'', JNum time_per_question)])"

text \<open>
  One round of \<^verbatim>\<open>for difficulty in ['easy', 'medium', 'hard']\<close>: the pools of the topic (the
  extension is written back into them, as the in-place \<^verbatim>\<open>extend\<close> does) and the questions
  so far.
\<close>

definition difficulty_step ::
  "string \<Rightarrow> int \<Rightarrow> string \<Rightarrow> int \<Rightarrow> pools \<times> json list \<Rightarrow> (pools \<times> json list) option" where
  "difficulty_step t time_per_question difficulty count st =
     (case st of (topic_templates, all_questions) \<Rightarrow>
        if count > 0 then
          (case extend_templates (pool_get topic_templates difficulty) count of
             None \<Rightarrow> None
           | Some available_templates \<Rightarrow>
               Some ((case pool_key topic_templates difficulty of
                        None \<Rightarrow> topic_templates
                      | Some k \<Rightarrow> topic_templates(k \<mapsto> available_templates)),
                     all_questions
                       @ map (make_question available_templates t difficulty time_per_question)
                           [0..<nat count]))
        else Some st)"

definition topic_step ::
  "int \<Rightarrow> topic_config \<Rightarrow> bank \<times> json list \<Rightarrow> (bank \<times> json list) option" where
  "topic_step time_per_question tc st =
     (case st of (templates, all_questions) \<Rightarrow>
        (let topic_templates =
               (case templates (topic tc) of None \<Rightarrow> base_templates (topic tc) | Some p \<Rightarrow> p)
         in case difficulty_step (topic tc) time_per_question ''easy'' (get0 (easy tc))
                   (topic_templates, all_questions) of
              None \<Rightarrow> None
            | Some st1 \<Rightarrow>
               (case difficulty_step (topic tc) time_per_question ''medium'' (get0 (medium tc)) st1 of
                  None \<Rightarrow> None
                | Some st2 \<Rightarrow>
                   (case difficulty_step (topic tc) time_per_question ''hard'' (get0 (hard tc)) st2 of
                      None \<Rightarrow> None
                    | Some (topic_templates', all_questions') \<Rightarrow>
                        Some ((case templates (topic tc) of
                                 None \<Rightarrow> templates
                               | Some _ \<Rightarrow> templates(topic tc \<mapsto> topic_templates')),
                              all_questions')))))"

fun topics_loop ::
  "int \<Rightarrow> topic_config list \<Rightarrow> bank \<times> json list \<Rightarrow> (bank \<times> json list) option" where
  "topics_loop time_per_question [] st = Some st"
| "topics_loop time_per_question (tc # rest) st =
     (case topic_step time_per_question tc st of
        None \<Rightarrow> None
      | Some st' \<Rightarrow> topics_loop time_per_question rest st')"

text \<open>
  The result dict. \<^verbatim>\<open>job_title\<close> is a parameter the function never reads. The function is the
  same text in both files; it is modelled once, over the table it starts from.
\<close>

definition compose_fallback ::
  "bank \<Rightarrow> topic_config list \<Rightarrow> int \<Rightarrow> string \<Rightarrow> json option" where
  "compose_fallback templates topic_configs time_per_question job_title =
     (case topics_loop time_per_question topic_configs (templates, []) of
        None \<Rightarrow> None
      | Some (_, all_questions) \<Rightarrow>
          Some (JObj [(''success'', JBool True),
                      (''questions'', JArr all_questions),
                      (''total_questions'', JNum (int (length all_questions))),
                      (''metadata'', JObj [(''generated_by'', JStr ''fallback_templates''),
                                           (''type'', JStr ''aptitude_fallback'')])]))"

definition get_fallback_aptitude_questions ::
  "topic_config list \<Rightarrow> int \<Rightarrow> string \<Rightarrow> json option" where
  "get_fallback_aptitude_questions = compose_fallback fallback_templates"

definition module_get_fallback_aptitude_questions ::
  "topic_config list \<Rightarrow> int \<Rightarrow> string \<Rightarrow> json option" where
  "module_get_fallback_aptitude_questions = compose_fallback module_fallback_templates"

text \<open>The requested total of a list of topic configurations.\<close>

definition requested_total :: "topic_config list \<Rightarrow> int" where
  "requested_total topic_configs =
     (\<Sum>tc\<leftarrow>topic_configs. get0 (easy tc) + get0 (medium tc) + get0 (hard tc))"

section \<open>Python string and sequence operations\<close>

text \<open>\<^verbatim>\<open>s.startswith(p)\<close>, \<^verbatim>\<open>s.endswith(p)\<close>, \<^verbatim>\<open>p in s\<close>.\<close>

fun startswith :: "string \<Rightarrow> string \<Rightarrow> bool" where
  "startswith s [] = True"
| "startswith [] (p # ps) = False"
| "startswith (c # cs) (p # ps) = (c = p \<and> startswith cs ps)"

definition endswith :: "string \<Rightarrow> string \<Rightarrow> bool" where
  "endswith s p = startswith (rev s) (rev p)"

fun str_contains :: "string \<Rightarrow> string \<Rightarrow> bool" where
  "str_contains [] p = (p = [])"
| "str_contains (c # cs) p = (startswith (c # cs) p \<or> str_contains cs p)"

text \<open>
  A Python \<^verbatim>\<open>str\<close> is kept as its UTF-8 encoding, one \<open>char\<close> for each byte. A byte from
  \<open>0x80\<close> to \<open>0xBF\<close> continues a code point, so \<open>str_chars\<close> cuts a string into its code
  points; \<^verbatim>\<open>len(s)\<close> is their number and \<^verbatim>\<open>s[:n]\<close> the first \<open>n\<close> of them.
\<close>

definition is_continuation :: "char \<Rightarrow> bool" where
  "is_continuation c = (128 \<le> (of_char c :: nat) \<and> (of_char c :: nat) < 192)"

function str_chars :: "string \<Rightarrow> string list" where
  "str_chars [] = []"
| "str_chars (c # cs) =
     (c # takeWhile is_continuation cs) # str_chars (dropWhile is_continuation cs)"
  by pat_completeness auto
termination
  by (relation "measure length") (auto simp: less_Suc_eq_le length_dropWhile_le)

definition str_take :: "nat \<Rightarrow> string \<Rightarrow> string" where
  "str_take n s = concat (take n (str_chars s))"

text \<open>
  \<^verbatim>\<open>s.strip()\<close> removes the leading and the trailing whitespace. The whitespace of
  \<^verbatim>\<open>str.strip\<close> is the 29 code points that \<^verbatim>\<open>str.isspace\<close> accepts: U+0009 to U+000D,
  U+001C to U+0020, U+0085, U+00A0, U+1680, U+2000 to U+200A, U+2028, U+2029, U+202F, U+205F and
  U+3000, listed here by their encodings. No encoding is a prefix of another, and at the end of
  a well-formed string the bytes of an encoding are a code point of their own.
\<close>

definition whitespace :: "string list" where
  "whitespace =
     [[CHR 0x09], [CHR 0x0A], [CHR 0x0B], [CHR 0x0C], [CHR 0x0D], [CHR 0x1C], [CHR 0x1D],
      [CHR 0x1E], [CHR 0x1F], [CHR 0x20], [CHR 0xC2, CHR 0x85], [CHR 0xC2, CHR 0xA0],
      [CHR 0xE1, CHR 0x9A, CHR 0x80], [CHR 0xE2, CHR 0x80, CHR 0x80],
      [CHR 0xE2, CHR 0x80, CHR 0x81], [CHR 0xE2, CHR 0x80, CHR 0x82],
      [CHR 0xE2, CHR 0x80, CHR 0x83], [CHR 0xE2, CHR 0x80, CHR 0x84],
      [CHR 0xE2, CHR 0x80, CHR 0x85], [CHR 0xE2, CHR 0x80, CHR 0x86],
      [CHR 0xE2, CHR 0x80, CHR 0x87], [CHR 0xE2, CHR 0x80, CHR 0x88],
      [CHR 0xE2, CHR 0x80, CHR 0x89], [CHR 0xE2, CHR 0x80, CHR 0x8A],
      [CHR 0xE2, CHR 0x80, CHR 0xA8], [CHR 0xE2, CHR 0x80, CHR 0xA9],
      [CHR 0xE2, CHR 0x80, CHR 0xAF], [CHR 0xE2, CHR 0x81, CHR 0x9F],
      [CHR 0xE3, CHR 0x80, CHR 0x80]]"

text \<open>
  \<open>strip_prefixes pats s\<close> removes from the front of \<open>s\<close>, as long as there is one, a
  non-empty member of \<open>pats\<close> that \<open>s\<close> starts with (\<open>drop (length p - 1) cs\<close> is
  \<open>c # cs\<close> without its first \<open>length p\<close> bytes).
\<close>

fun strip_prefixes :: "string list \<Rightarrow> string \<Rightarrow> string" where
  "strip_prefixes pats [] = []"
| "strip_prefixes pats (c # cs) =
     (case find (\<lambda>p. p \<noteq> [] \<and> startswith (c # cs) p) pats of
        None \<Rightarrow> c # cs
      | Some p \<Rightarrow> strip_prefixes pats (drop (length p - 1) cs))"

definition py_lstrip :: "string \<Rightarrow> string" where
  "py_lstrip s = strip_prefixes whitespace s"

definition py_rstrip :: "string \<Rightarrow> string" where
  "py_rstrip s = rev (strip_prefixes (map rev whitespace) (rev s))"

definition py_strip :: "string \<Rightarrow> string" where
  "py_strip s = py_rstrip (py_lstrip s)"

text \<open>The part of \<open>s\<close> after the first occurrence of \<open>p\<close>, if \<open>p\<close> occurs.\<close>

fun after_first :: "string \<Rightarrow> string \<Rightarrow> string option" where
  "after_first [] p = (if p = [] then Some [] else None)"
| "after_first (c # cs) p =
     (if startswith (c # cs) p then Some (drop (length p) (c # cs)) else after_first cs p)"

text \<open>\<^verbatim>\<open>s.rsplit(p, 1)[0]\<close>: the part of \<open>s\<close> before the last occurrence of \<open>p\<close>, or all of \<open>s\<close>.\<close>

definition before_last :: "string \<Rightarrow> string \<Rightarrow> string" where
  "before_last s p = (case after_first (rev s) (rev p) of None \<Rightarrow> s | Some r \<Rightarrow> rev r)"

definition newline :: string where
  "newline = [CHR 0x0A]"

definition fence :: string where
  "fence = replicate 3 (CHR 0x60)"

text \<open>
  The removal of a surrounding Markdown code fence, as both aptitude paths do it:
  \<^verbatim>\<open>if content.startswith(F): content = content.split('\n', 1)[1] if '\n' in content else content[3:]\<close>
  and
  \<^verbatim>\<open>if content.endswith(F): content = content.rsplit('\n' + F, 1)[0] if '\n' + F in content else content[:-3]\<close>,
  where \<open>F\<close> is three backquotes.
\<close>

definition clean_code_fences :: "string \<Rightarrow> string" where
  "clean_code_fences content =
     (let content1 =
            (if startswith content fence
             then (case after_first content newline of Some r \<Rightarrow> r | None \<Rightarrow> drop 3 content)
             else content)
      in if endswith content1 fence
         then (if str_contains content1 (newline @ fence)
               then before_last content1 (newline @ fence)
               else take (length content1 - 3) content1)
         else content1)"

text \<open>
  \<^verbatim>\<open>len(x)\<close>, \<^verbatim>\<open>x[:n]\<close> and iteration over \<open>x\<close> for a parsed JSON value \<open>x\<close>. Lists and
  strings have all three (a string by code points); a dict has a length and iterates over its
  keys but cannot be sliced; numbers, booleans and \<^verbatim>\<open>None\<close> raise \<^verbatim>\<open>TypeError\<close>.
\<close>

fun py_len :: "json \<Rightarrow> exn + nat" where
  "py_len (JArr xs) = Inr (length xs)"
| "py_len (JStr s) = Inr (length (str_chars s))"
| "py_len (JObj kvs) = Inr (length kvs)"
| "py_len _ = Inl TypeError"

definition slice_to :: "'a list \<Rightarrow> int \<Rightarrow> 'a list" where
  "slice_to xs n = (if n \<ge> 0 then take (nat n) xs else take (nat (int (length xs) + n)) xs)"

fun py_slice_to :: "json \<Rightarrow> int \<Rightarrow> exn + json" where
  "py_slice_to (JArr xs) n = Inr (JArr (slice_to xs n))"
| "py_slice_to (JStr s) n = Inr (JStr (concat (slice_to (str_chars s) n)))"
| "py_slice_to _ n = Inl TypeError"

fun py_iter :: "json \<Rightarrow> exn + json list" where
  "py_iter (JArr xs) = Inr xs"
| "py_iter (JStr s) = Inr (map JStr (str_chars s))"
| "py_iter (JObj kvs) = Inr (map (\<lambda>kv. JStr (fst kv)) kvs)"
| "py_iter _ = Inl TypeError"

text \<open>
  \<^verbatim>\<open>str(e)\<close> of the exceptions the model raises itself. The text of a \<^verbatim>\<open>TypeError\<close> or an
  \<^verbatim>\<open>AttributeError\<close> names the types of the operands; the name of the exception stands for it
  here.
\<close>

fun str_exn :: "exn \<Rightarrow> string" where
  "str_exn IndexError = ''list index out of range''"
| "str_exn (KeyError k) = [CHR 0x27] @ k @ [CHR 0x27]"
| "str_exn (NameError n) = ''name '' @ [CHR 0x27] @ n @ [CHR 0x27] @ '' is not defined''"
| "str_exn TypeError = ''TypeError''"
| "str_exn AttributeError = ''AttributeError''"
| "str_exn (JSONDecodeError m) = m"
| "str_exn (OtherError m) = m"

text \<open>\<^verbatim>\<open>range(0, n, step)\<close>.\<close>

definition range_step :: "nat \<Rightarrow> nat \<Rightarrow> nat list" where
  "range_step n step = filter (\<lambda>i. i mod step = 0) [0..<n]"

section \<open>The world outside: provider, parser, store, clock\<close>

text \<open>
  What a request is about. The prompt text itself is a function of these parameters and of
  \<^verbatim>\<open>job_title\<close>; the provider's answer is arbitrary, so the text is not modelled.
\<close>

datatype prompt =
    TopicPrompt "topic_config list" int
  | BatchPrompt "topic_config list" int
  | DifficultyPrompt int
  | AptitudePrompt int
  | ReadingBatchPrompt int
  | ListeningBatchPrompt int
  | GrammarBatchPrompt int
  | SmallReadingPrompt int
  | SmallListeningPrompt int
  | SmallGrammarPrompt int

text \<open>
  An observable effect: a chat-completion request with the credential it carries (\<open>None\<close> is
  Python's \<^verbatim>\<open>None\<close>), a \<^verbatim>\<open>time.sleep\<close> of so many seconds, or a \<^verbatim>\<open>requests.get\<close> to
  the backend for the stored questions of an application.
\<close>

datatype event = Post "string option" prompt | Sleep int | Get string

record world =
  calls :: nat
  trace :: "event list"

text \<open>
  What \<^verbatim>\<open>requests.post\<close> gives back: it raises (timeout, connection error; the string is
  \<^verbatim>\<open>str(e)\<close>), or it returns a response with a status code. The second component of a response
  is the outcome of \<^verbatim>\<open>response.json()['choices'][0]['message']['content']\<close>: the text, or
  \<^verbatim>\<open>str(e)\<close> of the exception that the extraction raises on a body of another shape (a
  content that is not a string raises at the next operation on it, in the same \<^verbatim>\<open>try\<close>).
\<close>

datatype post_result = PostRaises string | PostResponse int "string + string"

text \<open>
  The collaborators: the provider answers the \<open>n\<close>-th request of a run; \<^verbatim>\<open>json.loads\<close>
  returns a value or raises \<^verbatim>\<open>JSONDecodeError\<close> (\<open>Inl\<close> of its message);
  \<^verbatim>\<open>_check_existing_questions\<close> reads the store and returns the existing counts (the empty
  map when there is no store or the query fails).
\<close>

record env =
  provider :: "nat \<Rightarrow> post_result"
  json_loads :: "string \<Rightarrow> string + json"
  check_existing_questions :: "topic_config list \<Rightarrow> existing_counts"

definition post :: "env \<Rightarrow> string option \<Rightarrow> prompt \<Rightarrow> world \<Rightarrow> post_result \<times> world" where
  "post e key p w = (provider e (calls w), w\<lparr>calls := calls w + 1, trace := trace w @ [Post key p]\<rparr>)"

definition sleep :: "int \<Rightarrow> world \<Rightarrow> world" where
  "sleep n w = w\<lparr>trace := trace w @ [Sleep n]\<rparr>"

section \<open>Result dicts of the aptitude paths\<close>

definition error_question :: "string \<Rightarrow> string \<Rightarrow> string \<Rightarrow> string \<Rightarrow> json" where
  "error_question q b c d =
     JObj [(''topic'', JStr ''error''),
           (''question'', JStr q),
           (''options'', JObj [(''A'', JStr ''ERROR''), (''B'', JStr b), (''C'', JStr c), (''D'', JStr d)]),
           (''correct_answer'', JStr ''A''),
           (''difficulty'', JStr ''error''),
           (''time_limit'', JNum 60),
           (''error'', JBool True)]"

definition error_result :: "string \<Rightarrow> string \<Rightarrow> string \<Rightarrow> string \<Rightarrow> string \<Rightarrow> json" where
  "error_result q b c d ty =
     JObj [(''success'', JBool False),
           (''questions'', JArr [error_question q b c d]),
           (''total_questions'', JNum 1),
           (''metadata'', JObj [(''generated_by'', JStr ''error''), (''type'', JStr ty)])]"

definition empty_response_result :: json where
  "empty_response_result =
     error_result ''ERROR: AI returned empty response'' ''Empty'' ''AI response'' ''received''
       ''empty_response_error''"

definition truncated_result :: json where
  "truncated_result =
     error_result ''ERROR: AI response was truncated. Try generating fewer questions.''
       ''Response'' ''truncated'' ''reduce count'' ''truncated_response_error''"

definition parse_error_result :: "string \<Rightarrow> json" where
  "parse_error_result msg =
     error_result (''ERROR: AI response parsing failed. '' @ msg)
       ''JSON parsing'' ''failed'' ''invalid format'' ''json_parse_error''"

definition exception_result :: "string \<Rightarrow> json" where
  "exception_result msg =
     error_result (''ERROR: Exception during generation - '' @ msg)
       ''Exception'' ''occurred'' ''Try again'' ''exception_error''"

definition all_batches_failed_result :: json where
  "all_batches_failed_result =
     error_result ''ERROR: All batches failed to generate questions''
       ''All batches'' ''failed'' ''Try again'' ''all_batches_failed''"

definition api_error_result :: "int \<Rightarrow> json" where
  "api_error_result status =
     error_result (''ERROR: AI generation failed. API returned status '' @ str_int status)
       ''AI failed'' ''to generate'' ''questions'' ''aptitude_api_error''"

definition none_needed_result :: json where
  "none_needed_result =
     JObj [(''success'', JBool True),
           (''questions'', JArr []),
           (''total_questions'', JNum 0),
           (''metadata'', JObj [(''generated_by'', JStr ''none_needed''),
                                (''type'', JStr ''all_questions_exist''),
                                (''message'', JStr ''All required questions already exist'')])]"

definition ai_result :: "json \<Rightarrow> nat \<Rightarrow> string \<Rightarrow> json" where
  "ai_result generated_questions n tag =
     JObj [(''success'', JBool True),
           (''questions'', generated_questions),
           (''total_questions'', JNum (int n)),
           (''metadata'', JObj [(''generated_by'', JStr tag), (''type'', JStr ''aptitude_by_topic'')])]"

text \<open>\<^verbatim>\<open>sum(tc['total'] for tc in topic_configs)\<close>; a configuration without the key raises.\<close>

fun sum_totals :: "topic_config list \<Rightarrow> exn + int" where
  "sum_totals [] = Inr 0"
| "sum_totals (tc # rest) =
     (case total tc of
        None \<Rightarrow> Inl (KeyError ''total'')
      | Some n \<Rightarrow> (case sum_totals rest of Inl e \<Rightarrow> Inl e | Inr s \<Rightarrow> Inr (n + s)))"

text \<open>
  Cardinality validation shared by the single call and the sub-batch: the value under
  \<^verbatim>\<open>'questions'\<close> (default the empty list) is trimmed to the first \<open>n\<close> items when it is
  longer than \<open>n\<close> and kept as it is otherwise. A payload that is not a dict has no \<^verbatim>\<open>get\<close>.
  The outcome is the list and its length, or the exception raised.
\<close>

definition validate_count :: "json \<Rightarrow> int \<Rightarrow> exn + (json \<times> nat)" where
  "validate_count questions_data n =
     (case questions_data of
        JObj kvs \<Rightarrow>
          (let generated_questions = (case map_of kvs ''questions'' of None \<Rightarrow> JArr [] | Some v \<Rightarrow> v)
           in case py_len generated_questions of
                Inl e \<Rightarrow> Inl e
              | Inr len \<Rightarrow>
                  if int len > n
                  then (case py_slice_to generated_questions n of
                          Inl e \<Rightarrow> Inl e
                        | Inr trimmed \<Rightarrow>
                            (case py_len trimmed of Inl e \<Rightarrow> Inl e | Inr len' \<Rightarrow> Inr (trimmed, len')))
                  else Inr (generated_questions, len))
      | _ \<Rightarrow> Inl AttributeError)"

section \<open>Generation orchestrator: aptitude by topic\<close>

text \<open>
  The inner loop \<^verbatim>\<open>for retry in range(max_retries_per_key)\<close> of
  \<^verbatim>\<open>generate_aptitude_questions_by_topic\<close>, over the remaining values of \<open>retry\<close>. It carries
  the variable \<^verbatim>\<open>response\<close> (unbound before the first request). \<open>Inl\<close> is an exception raised
  by the request.
\<close>

fun retry_loop ::
  "env \<Rightarrow> prompt \<Rightarrow> string option \<Rightarrow> int \<Rightarrow> nat list \<Rightarrow> (int \<times> (string + string)) option
   \<Rightarrow> generator \<Rightarrow> world \<Rightarrow> (string + (int \<times> (string + string)) option) \<times> generator \<times> world" where
  "retry_loop e p current_api_key max_retries_per_key [] response g w = (Inr response, g, w)"
| "retry_loop e p current_api_key max_retries_per_key (retry # rest) response g w =
     (case post e current_api_key p w of
        (PostRaises msg, w') \<Rightarrow> (Inl msg, g, w')
      | (PostResponse status_code content, w') \<Rightarrow>
          if status_code = 429 then
            if int retry < max_retries_per_key - 1
            then retry_loop e p current_api_key max_retries_per_key rest
                   (Some (status_code, content)) g (sleep (5 * (int retry + 1)) w')
            else (Inr (Some (status_code, content)), snd (rotate_api_key g), w')
          else (Inr (Some (status_code, content)), g, w'))"

text \<open>The outer loop \<^verbatim>\<open>for key_attempt in range(max_key_attempts)\<close>.\<close>

fun key_loop ::
  "env \<Rightarrow> prompt \<Rightarrow> nat list \<Rightarrow> (int \<times> (string + string)) option
   \<Rightarrow> generator \<Rightarrow> world \<Rightarrow> (string + (int \<times> (string + string)) option) \<times> generator \<times> world" where
  "key_loop e p [] response g w = (Inr response, g, w)"
| "key_loop e p (key_attempt # rest) response g w =
     (case get_current_api_key g of
        Inl ex \<Rightarrow> (Inl (str_exn ex), g, w)
      | Inr current_api_key \<Rightarrow>
          (case retry_loop e p current_api_key 2 [0..<2] response g w of
             (Inl msg, g', w') \<Rightarrow> (Inl msg, g', w')
           | (Inr None, g', w') \<Rightarrow> (Inl (str_exn (NameError ''response'')), g', w')
           | (Inr (Some (status_code, content)), g', w') \<Rightarrow>
               if status_code \<noteq> 429 then (Inr (Some (status_code, content)), g', w')
               else key_loop e p rest (Some (status_code, content)) g' w'))"

text \<open>
  The handling of a 200 response in the single call: strip, the empty-content error, the code
  fences, the parse with its two \<^verbatim>\<open>JSONDecodeError\<close> results, the cardinality validation.
  Any other exception reaches the outer handler and becomes the exception result.
\<close>

definition handle_ok_response :: "env \<Rightarrow> (string + string) \<Rightarrow> int \<Rightarrow> json" where
  "handle_ok_response e raw total_questions =
     (case raw of
        Inl msg \<Rightarrow> exception_result msg
      | Inr text \<Rightarrow>
          (let content = py_strip text
           in if content = [] then empty_response_result
              else (let cleaned = py_strip (clean_code_fences content)
                    in case json_loads e cleaned of
                         Inl msg \<Rightarrow>
                           if str_contains msg ''Unterminated string'' \<or> \<not> endswith cleaned ''}''
                           then truncated_result
                           else parse_error_result msg
                       | Inr questions_data \<Rightarrow>
                           (case validate_count questions_data total_questions of
                              Inl ex \<Rightarrow> exception_result (str_exn ex)
                            | Inr (generated_questions, n) \<Rightarrow>
                                ai_result generated_questions n ''groq_ai_single''))))"

text \<open>
  \<^verbatim>\<open>_generate_single_batch\<close>: one request with the current credential, no retry. The result
  dicts of this helper have no metadata, and the failed one has no \<^verbatim>\<open>total_questions\<close>.
\<close>

definition failed_batch :: json where
  "failed_batch = JObj [(''success'', JBool False), (''questions'', JArr [])]"

definition generate_single_batch ::
  "env \<Rightarrow> topic_config list \<Rightarrow> int \<Rightarrow> string \<Rightarrow> generator \<Rightarrow> world
   \<Rightarrow> (exn + json) \<times> generator \<times> world" where
  "generate_single_batch e topic_configs time_per_question job_title g w =
     (case sum_totals topic_configs of
        Inl ex \<Rightarrow> (Inl ex, g, w)
      | Inr batch_total \<Rightarrow>
          (case get_current_api_key g of
             Inl ex \<Rightarrow> (Inr failed_batch, g, w)
           | Inr current_api_key \<Rightarrow>
               (case post e current_api_key (BatchPrompt topic_configs batch_total) w of
                  (PostRaises msg, w') \<Rightarrow> (Inr failed_batch, g, w')
                | (PostResponse status_code raw, w') \<Rightarrow>
                    if status_code = 200 then
                      (case raw of
                         Inl msg \<Rightarrow> (Inr failed_batch, g, w')
                       | Inr text \<Rightarrow>
                           (case json_loads e (py_strip (clean_code_fences (py_strip text))) of
                              Inl msg \<Rightarrow> (Inr failed_batch, g, w')
                            | Inr questions_data \<Rightarrow>
                                (case validate_count questions_data batch_total of
                                   Inl ex \<Rightarrow> (Inr failed_batch, g, w')
                                 | Inr (generated_questions, n) \<Rightarrow>
                                     (Inr (JObj [(''success'', JBool True),
                                                 (''questions'', generated_questions),
                                                 (''total_questions'', JNum (int n))]),
                                      g, w'))))
                    else if status_code = 429 then (Inr failed_batch, snd (rotate_api_key g), w')
                    else (Inr failed_batch, g, w'))))"

text \<open>
  \<^verbatim>\<open>_generate_aptitude_in_batches\<close>: the loop \<^verbatim>\<open>for i in range(0, len(topic_configs), 2)\<close>
  over the remaining values of \<open>i\<close>, with the list \<^verbatim>\<open>all_questions\<close>. A sub-batch result always
  has the keys \<^verbatim>\<open>'success'\<close> and \<^verbatim>\<open>'questions'\<close>.
\<close>

definition batch_contribution :: "json \<Rightarrow> json list" where
  "batch_contribution batch_result =
     (if dict_get batch_result ''success'' = Some (JBool True)
      then (case dict_get batch_result ''questions'' of
              Some qs \<Rightarrow> (case py_iter qs of Inr items \<Rightarrow> items | Inl _ \<Rightarrow> [])
            | None \<Rightarrow> [])
      else [])"

fun batches_loop ::
  "env \<Rightarrow> topic_config list \<Rightarrow> int \<Rightarrow> string \<Rightarrow> nat list \<Rightarrow> json list \<Rightarrow> generator \<Rightarrow> world
   \<Rightarrow> (exn + json list) \<times> generator \<times> world" where
  "batches_loop e topic_configs time_per_question job_title [] all_questions g w =
     (Inr all_questions, g, w)"
| "batches_loop e topic_configs time_per_question job_title (i # rest) all_questions g w =
     (let batch_topics = take 2 (drop i topic_configs)
      in case generate_single_batch e batch_topics time_per_question job_title g w of
           (Inl ex, g', w') \<Rightarrow> (Inl ex, g', w')
         | (Inr batch_result, g', w') \<Rightarrow>
             batches_loop e topic_configs time_per_question job_title rest
               (all_questions @ batch_contribution batch_result) g'
               (if i + 2 < length topic_configs then sleep 3 w' else w'))"

definition generate_aptitude_in_batches ::
  "env \<Rightarrow> topic_config list \<Rightarrow> int \<Rightarrow> string \<Rightarrow> generator \<Rightarrow> world
   \<Rightarrow> (exn + json) \<times> generator \<times> world" where
  "generate_aptitude_in_batches e topic_configs time_per_question job_title g w =
     (case batches_loop e topic_configs time_per_question job_title
             (range_step (length topic_configs) 2) [] g w of
        (Inl ex, g', w') \<Rightarrow> (Inl ex, g', w')
      | (Inr all_questions, g', w') \<Rightarrow>
          if all_questions \<noteq> []
          then (Inr (ai_result (JArr all_questions) (length all_questions) ''groq_ai_batched''), g', w')
          else (Inr all_batches_failed_result, g', w'))"

text \<open>
  \<^verbatim>\<open>generate_aptitude_questions_by_topic\<close>. \<open>None\<close> would be a fallback composition that does not
  return; \<open>Inl\<close> is an exception that leaves the function (only the \<^verbatim>\<open>KeyError\<close> of a
  configuration without \<^verbatim>\<open>'total'\<close>, raised before the \<^verbatim>\<open>try\<close>).
\<close>

definition single_call ::
  "env \<Rightarrow> topic_config list \<Rightarrow> int \<Rightarrow> int \<Rightarrow> string \<Rightarrow> generator \<Rightarrow> world
   \<Rightarrow> ((exn + json) \<times> generator \<times> world) option" where
  "single_call e topic_configs total_questions time_per_question job_title g w =
     (case key_loop e (TopicPrompt topic_configs total_questions) [0..<length (api_keys g)] None g w of
        (Inl msg, g', w') \<Rightarrow> Some (Inr (exception_result msg), g', w')
      | (Inr None, g', w') \<Rightarrow> Some (Inr (exception_result (str_exn (NameError ''response''))), g', w')
      | (Inr (Some (status_code, raw)), g', w') \<Rightarrow>
          if status_code = 429
          then map_option (\<lambda>r. (Inr r, g', w'))
                 (get_fallback_aptitude_questions topic_configs time_per_question job_title)
          else if status_code = 200
          then Some (Inr (handle_ok_response e raw total_questions), g', w')
          else map_option (\<lambda>r. (Inr r, g', w'))
                 (get_fallback_aptitude_questions topic_configs time_per_question job_title))"

definition generate_aptitude_questions_by_topic ::
  "env \<Rightarrow> topic_config list \<Rightarrow> int \<Rightarrow> string \<Rightarrow> generator \<Rightarrow> world
   \<Rightarrow> ((exn + json) \<times> generator \<times> world) option" where
  "generate_aptitude_questions_by_topic e topic_configs time_per_question job_title g w =
     (if api_keys g = []
      then map_option (\<lambda>r. (Inr r, g, w))
             (get_fallback_aptitude_questions topic_configs time_per_question job_title)
      else
        (case sum_totals topic_configs of
           Inl ex \<Rightarrow> Some (Inl ex, g, w)
         | Inr total_questions \<Rightarrow>
             (let existing = check_existing_questions e topic_configs;
                  missing_configs = calculate_missing_questions topic_configs existing
              in if missing_configs = [] then Some (Inr none_needed_result, g, w)
                 else
                   (case sum_totals missing_configs of
                      Inl ex \<Rightarrow> Some (Inl ex, g, w)
                    | Inr missing_total \<Rightarrow>
                        if missing_total > 30
                        then Some (generate_aptitude_in_batches e missing_configs
                                     time_per_question job_title g w)
                        else single_call e missing_configs missing_total
                               time_per_question job_title g w))))"

section \<open>Name resolution in the two older aptitude entry points\<close>

text \<open>
  \<^verbatim>\<open>generate_aptitude_questions_by_difficulty\<close> and \<^verbatim>\<open>generate_aptitude_questions\<close> call the
  fallback composer with the argument expressions \<^verbatim>\<open>topic_configs\<close>,
  \<^verbatim>\<open>time_per_question\<close>, \<^verbatim>\<open>job_title\<close>. A name is looked up among the local variables
  of the running function, then among the names bound at module level; a name found in neither
  raises \<^verbatim>\<open>NameError\<close> (no argument name here is a builtin). The local scope of a function is
  its parameter list with the values passed; the names assigned inside the two bodies
  (\<^verbatim>\<open>total_questions\<close>, \<^verbatim>\<open>prompt\<close>, \<^verbatim>\<open>response\<close>, \<^verbatim>\<open>e\<close> and so on) are never
  among the three argument names, so they are left out of the scope.
\<close>

record level_info =
  level :: "string option"
  count :: "int option"

record topic_info =
  ti_topic :: "string option"
  ti_count :: "int option"
  ti_difficulty :: "string option"

datatype pyval =
    VSelf
  | VNone
  | VInt int
  | VStr string
  | VStrs "string list"
  | VLevels "level_info list"
  | VInfos "topic_info list"
  | VConfigs "topic_config list"
  | VGlobal string

type_synonym scope = "(string \<times> pyval) list"

definition module_globals :: "string list" where
  "module_globals =
     [''os'', ''json'', ''requests'', ''logging'', ''time'', ''List'', ''Dict'', ''Any'',
      ''create_client'', ''Client'', ''logger'', ''GroqQuestionGenerator'']"

definition lookup_name :: "scope \<Rightarrow> string \<Rightarrow> exn + pyval" where
  "lookup_name locals n =
     (case map_of locals n of
        Some v \<Rightarrow> Inr v
      | None \<Rightarrow> if n \<in> set module_globals then Inr (VGlobal n) else Inl (NameError n))"

text \<open>
  \<^verbatim>\<open>return self._get_fallback_aptitude_questions(topic_configs, time_per_question, job_title)\<close>
  evaluated in a scope: the arguments left to right, then the call.
\<close>

definition call_fallback_from :: "scope \<Rightarrow> (exn + json) option" where
  "call_fallback_from locals =
     (case lookup_name locals ''topic_configs'' of
        Inl ex \<Rightarrow> Some (Inl ex)
      | Inr a \<Rightarrow>
         (case lookup_name locals ''time_per_question'' of
            Inl ex \<Rightarrow> Some (Inl ex)
          | Inr b \<Rightarrow>
             (case lookup_name locals ''job_title'' of
                Inl ex \<Rightarrow> Some (Inl ex)
              | Inr c \<Rightarrow>
                 (case (a, b, c) of
                    (VConfigs tcs, VInt t, VStr j) \<Rightarrow>
                      map_option Inr (get_fallback_aptitude_questions tcs t j)
                  | _ \<Rightarrow> Some (Inl TypeError)))))"

text \<open>\<^verbatim>\<open>d[k] = v\<close> and \<^verbatim>\<open>{**base, **d}\<close> on insertion-ordered dicts.\<close>

definition dict_set :: "(string \<times> json) list \<Rightarrow> string \<Rightarrow> json \<Rightarrow> (string \<times> json) list" where
  "dict_set kvs k v =
     (if k \<in> fst ` set kvs then map (\<lambda>kv. if fst kv = k then (k, v) else kv) kvs
      else kvs @ [(k, v)])"

definition dict_merge :: "(string \<times> json) list \<Rightarrow> (string \<times> json) list \<Rightarrow> (string \<times> json) list" where
  "dict_merge base kvs = foldl (\<lambda>d kv. dict_set d (fst kv) (snd kv)) base kvs"

text \<open>
  The success branch both functions share: \<^verbatim>\<open>len(questions_data.get('questions', []))\<close> is
  evaluated for the log line, then \<^verbatim>\<open>{'success': True, **questions_data}\<close> is returned. Nothing
  is trimmed.
\<close>

definition untrimmed_success :: "json \<Rightarrow> exn + json" where
  "untrimmed_success questions_data =
     (case questions_data of
        JObj kvs \<Rightarrow>
          (case py_len (case map_of kvs ''questions'' of None \<Rightarrow> JArr [] | Some v \<Rightarrow> v) of
             Inl ex \<Rightarrow> Inl ex
           | Inr generated_count \<Rightarrow> Inr (JObj (dict_merge [(''success'', JBool True)] kvs)))
      | _ \<Rightarrow> Inl AttributeError)"

text \<open>\<^verbatim>\<open>sum(level_info['count'] for level_info in difficulty_levels)\<close> and the loop after it.\<close>

fun sum_counts :: "level_info list \<Rightarrow> exn + int" where
  "sum_counts [] = Inr 0"
| "sum_counts (li # rest) =
     (case count li of
        None \<Rightarrow> Inl (KeyError ''count'')
      | Some n \<Rightarrow> (case sum_counts rest of Inl e \<Rightarrow> Inl e | Inr s \<Rightarrow> Inr (n + s)))"

fun difficulty_details :: "level_info list \<Rightarrow> exn + unit" where
  "difficulty_details [] = Inr ()"
| "difficulty_details (li # rest) =
     (case count li of
        None \<Rightarrow> Inl (KeyError ''count'')
      | Some n \<Rightarrow>
          if n > 0 \<and> level li = None then Inl (KeyError ''level'') else difficulty_details rest)"

text \<open>
  \<^verbatim>\<open>generate_aptitude_questions_by_difficulty\<close>. Every exception inside the \<^verbatim>\<open>try\<close> lands in
  the handler, which makes the fallback call in the scope of the function.
\<close>

definition by_difficulty_scope :: "string list \<Rightarrow> level_info list \<Rightarrow> int \<Rightarrow> string \<Rightarrow> scope" where
  "by_difficulty_scope topics difficulty_levels time_per_question job_title =
     [(''self'', VSelf), (''topics'', VStrs topics), (''difficulty_levels'', VLevels difficulty_levels),
      (''time_per_question'', VInt time_per_question), (''job_title'', VStr job_title)]"

definition generate_aptitude_questions_by_difficulty ::
  "env \<Rightarrow> string list \<Rightarrow> level_info list \<Rightarrow> int \<Rightarrow> string \<Rightarrow> generator \<Rightarrow> world
   \<Rightarrow> ((exn + json) \<times> world) option" where
  "generate_aptitude_questions_by_difficulty e topics difficulty_levels time_per_question job_title g w =
     (let locals = by_difficulty_scope topics difficulty_levels time_per_question job_title;
          handler = (\<lambda>w'. map_option (\<lambda>r. (r, w')) (call_fallback_from locals))
      in if api_keys g = [] then handler w
         else
           (case sum_counts difficulty_levels of
              Inl ex \<Rightarrow> handler w
            | Inr total_questions \<Rightarrow>
               (case difficulty_details difficulty_levels of
                  Inl ex \<Rightarrow> handler w
                | Inr _ \<Rightarrow>
                   (case get_current_api_key g of
                      Inl ex \<Rightarrow> handler w
                    | Inr key \<Rightarrow>
                       (case post e key (DifficultyPrompt total_questions) w of
                          (PostRaises msg, w') \<Rightarrow> handler w'
                        | (PostResponse status_code raw, w') \<Rightarrow>
                            if status_code = 200 then
                              (case raw of
                                 Inl msg \<Rightarrow> handler w'
                               | Inr text \<Rightarrow>
                                  (case json_loads e (py_strip text) of
                                     Inl msg \<Rightarrow> handler w'
                                   | Inr questions_data \<Rightarrow>
                                      (case untrimmed_success questions_data of
                                         Inl ex \<Rightarrow> handler w'
                                       | Inr r \<Rightarrow> Some (Inr r, w'))))
                            else Some (Inr (api_error_result status_code), w'))))))"

text \<open>
  \<^verbatim>\<open>generate_aptitude_questions\<close>. The total is computed before the \<^verbatim>\<open>try\<close>, so a
  \<^verbatim>\<open>topic_info\<close> without one of its keys raises to the caller. The default for \<^verbatim>\<open>topics\<close> and
  \<^verbatim>\<open>topics_with_difficulty\<close> is \<^verbatim>\<open>None\<close>.
\<close>

fun sum_topic_infos :: "topic_info list \<Rightarrow> exn + int" where
  "sum_topic_infos [] = Inr 0"
| "sum_topic_infos (ti # rest) =
     (if ti_topic ti = None then Inl (KeyError ''topic'')
      else case ti_count ti of
             None \<Rightarrow> Inl (KeyError ''count'')
           | Some n \<Rightarrow>
               if ti_difficulty ti = None then Inl (KeyError ''difficulty'')
               else (case sum_topic_infos rest of Inl e \<Rightarrow> Inl e | Inr s \<Rightarrow> Inr (n + s)))"

definition aptitude_scope ::
  "string list option \<Rightarrow> int \<Rightarrow> string \<Rightarrow> string \<Rightarrow> topic_info list option \<Rightarrow> scope" where
  "aptitude_scope topics questions_per_topic difficulty job_title topics_with_difficulty =
     [(''self'', VSelf),
      (''topics'', (case topics of None \<Rightarrow> VNone | Some ts \<Rightarrow> VStrs ts)),
      (''questions_per_topic'', VInt questions_per_topic),
      (''difficulty'', VStr difficulty),
      (''job_title'', VStr job_title),
      (''topics_with_difficulty'',
         (case topics_with_difficulty of None \<Rightarrow> VNone | Some tis \<Rightarrow> VInfos tis))]"

definition aptitude_total :: "string list option \<Rightarrow> int \<Rightarrow> topic_info list option \<Rightarrow> exn + int" where
  "aptitude_total topics questions_per_topic topics_with_difficulty =
     (if topics_with_difficulty \<noteq> None \<and> topics_with_difficulty \<noteq> Some []
      then sum_topic_infos (case topics_with_difficulty of None \<Rightarrow> [] | Some tis \<Rightarrow> tis)
      else (let ts = (if topics = None \<or> topics = Some []
                      then [''logical_reasoning'', ''quantitative_aptitude'', ''verbal_ability'']
                      else (case topics of None \<Rightarrow> [] | Some ts \<Rightarrow> ts))
            in Inr (int (length ts) * questions_per_topic)))"

definition generate_aptitude_questions ::
  "env \<Rightarrow> string list option \<Rightarrow> int \<Rightarrow> string \<Rightarrow> string \<Rightarrow> topic_info list option
   \<Rightarrow> generator \<Rightarrow> world \<Rightarrow> ((exn + json) \<times> world) option" where
  "generate_aptitude_questions e topics questions_per_topic difficulty job_title
       topics_with_difficulty g w =
     (let locals = aptitude_scope topics questions_per_topic difficulty job_title
                     topics_with_difficulty;
          handler = (\<lambda>w'. map_option (\<lambda>r. (r, w')) (call_fallback_from locals))
      in if api_keys g = [] then handler w
         else
           (case aptitude_total topics questions_per_topic topics_with_difficulty of
              Inl ex \<Rightarrow> Some (Inl ex, w)
            | Inr total_questions \<Rightarrow>
               (case get_current_api_key g of
                  Inl ex \<Rightarrow> handler w
                | Inr key \<Rightarrow>
                   (case post e key (AptitudePrompt total_questions) w of
                      (PostRaises msg, w') \<Rightarrow> handler w'
                    | (PostResponse status_code raw, w') \<Rightarrow>
                        if status_code = 200 then
                          (case raw of
                             Inl msg \<Rightarrow> handler w'
                           | Inr text \<Rightarrow>
                              (case json_loads e text of
                                 Inl msg \<Rightarrow> handler w'
                               | Inr questions_data \<Rightarrow>
                                  (case untrimmed_success questions_data of
                                     Inl ex \<Rightarrow> handler w'
                                   | Inr r \<Rightarrow> Some (Inr r, w'))))
                        else Some (Inr (api_error_result status_code), w')))))"

section \<open>Communication questions: batch generation and its template fallback\<close>

text \<open>
  \<^verbatim>\<open>s.lower()\<close>, \<^verbatim>\<open>s.upper()\<close> and \<^verbatim>\<open>s.title()\<close> on the ASCII letters, which is all
  that the template texts, the skill names and the difficulty names of the code contain. Bytes
  of code points outside ASCII are left as they are.
\<close>

definition is_upper :: "char \<Rightarrow> bool" where
  "is_upper c = (65 \<le> (of_char c :: nat) \<and> (of_char c :: nat) \<le> 90)"

definition is_lower :: "char \<Rightarrow> bool" where
  "is_lower c = (97 \<le> (of_char c :: nat) \<and> (of_char c :: nat) \<le> 122)"

definition lower_char :: "char \<Rightarrow> char" where
  "lower_char c = (if is_upper c then char_of ((of_char c :: nat) + 32) else c)"

definition upper_char :: "char \<Rightarrow> char" where
  "upper_char c = (if is_lower c then char_of ((of_char c :: nat) - 32) else c)"

definition py_lower :: "string \<Rightarrow> string" where
  "py_lower s = map lower_char s"

fun title_from :: "bool \<Rightarrow> string \<Rightarrow> string" where
  "title_from in_word [] = []"
| "title_from in_word (c # cs) =
     (if is_upper c \<or> is_lower c
      then (if in_word then lower_char c else upper_char c) # title_from True cs
      else c # title_from False cs)"

definition py_title :: "string \<Rightarrow> string" where
  "py_title s = title_from False s"

text \<open>A dict with the optional integer keys \<^verbatim>\<open>'easy'\<close>, \<^verbatim>\<open>'medium'\<close>, \<^verbatim>\<open>'hard'\<close>.\<close>

record counts_config =
  cfg_easy :: "int option"
  cfg_medium :: "int option"
  cfg_hard :: "int option"


definition cfg_total :: "counts_config \<Rightarrow> int" where
  "cfg_total c = get0 (cfg_easy c) + get0 (cfg_medium c) + get0 (cfg_hard c)"

definition empty_cfg :: counts_config where
  "empty_cfg = \<lparr>cfg_easy = None, cfg_medium = None, cfg_hard = None\<rparr>"

text \<open>
  \<^verbatim>\<open>listening_config\<close> has the optional key \<^verbatim>\<open>'sentences'\<close>: absent (\<open>None\<close>), present with
  a value that is not a dict, such as JSON \<^verbatim>\<open>null\<close> (\<open>Some None\<close>), or present with a dict
  of counts. \<^verbatim>\<open>grammar_config\<close> has the optional keys \<^verbatim>\<open>'topics'\<close> (a list of names) and
  \<^verbatim>\<open>'topicQuestions'\<close> (per-topic counts, a dict in insertion order with distinct keys).
\<close>

record listening_config =
  sentences :: "counts_config option option"

record grammar_config =
  gc_topics :: "string list option"
  gc_topicQuestions :: "(string \<times> counts_config) list option"

text \<open>
  \<^verbatim>\<open>sentences_config = listening_config.get('sentences', {})\<close> followed by
  \<^verbatim>\<open>sentences_config.get(...)\<close>: a value that is not a dict has no \<^verbatim>\<open>get\<close>.
\<close>

definition sentences_of :: "listening_config \<Rightarrow> exn + counts_config" where
  "sentences_of lc =
     (case sentences lc of
        None \<Rightarrow> Inr empty_cfg
      | Some None \<Rightarrow> Inl AttributeError
      | Some (Some c) \<Rightarrow> Inr c)"

definition topics_of :: "grammar_config \<Rightarrow> string list" where
  "topics_of gc = (case gc_topics gc of None \<Rightarrow> [] | Some ts \<Rightarrow> ts)"

definition topic_questions_of :: "grammar_config \<Rightarrow> string \<Rightarrow> counts_config" where
  "topic_questions_of gc t =
     (case gc_topicQuestions gc of
        None \<Rightarrow> empty_cfg
      | Some m \<Rightarrow> (case map_of m t of None \<Rightarrow> empty_cfg | Some c \<Rightarrow> c))"

text \<open>Mapping a step that may raise over a list, stopping at the first exception.\<close>

fun map_exn :: "('a \<Rightarrow> exn + 'b) \<Rightarrow> 'a list \<Rightarrow> exn + 'b list" where
  "map_exn f [] = Inr []"
| "map_exn f (x # xs) =
     (case f x of
        Inl e \<Rightarrow> Inl e
      | Inr y \<Rightarrow> (case map_exn f xs of Inl e \<Rightarrow> Inl e | Inr ys \<Rightarrow> Inr (y # ys)))"

definition time_limit_long :: "string \<Rightarrow> int" where
  "time_limit_long d = (if d = ''easy'' then 120 else if d = ''medium'' then 180 else 240)"

definition time_limit_short :: "string \<Rightarrow> int" where
  "time_limit_short d = (if d = ''easy'' then 60 else if d = ''medium'' then 90 else 120)"

definition reading_question :: "string \<Rightarrow> json \<Rightarrow> string \<Rightarrow> int \<Rightarrow> string \<Rightarrow> json" where
  "reading_question title passage difficulty time_limit instructions =
     JObj [(''title'', JStr title),
           (''content'', JStr ''Please read the following passage aloud clearly and naturally.''),
           (''passage'', passage),
           (''skill'', JStr ''reading''),
           (''type'', JStr ''reading_aloud''),
           (''difficulty'', JStr difficulty),
           (''time_limit'', JNum time_limit),
           (''evaluation_criteria'',
              JArr [JStr ''pronunciation'', JStr ''fluency'', JStr ''pace'', JStr ''clarity'']),
           (''instructions'', JStr instructions)]"

definition listening_question :: "string \<Rightarrow> json \<Rightarrow> string \<Rightarrow> int \<Rightarrow> string \<Rightarrow> json" where
  "listening_question title audio_text difficulty time_limit instructions =
     JObj [(''title'', JStr title),
           (''content'', JStr ''Listen to the sentence and repeat it exactly as you heard it.''),
           (''audio_text'', audio_text),
           (''skill'', JStr ''listening''),
           (''subtype'', JStr ''sentence''),
           (''type'', JStr ''listening''),
           (''difficulty'', JStr difficulty),
           (''time_limit'', JNum time_limit),
           (''evaluation_criteria'', JArr [JStr ''accuracy'', JStr ''pronunciation'', JStr ''fluency'']),
           (''instructions'', JStr instructions)]"

text \<open>The template tables of the three \<^verbatim>\<open>_generate_*_from_templates\<close> functions.\<close>

definition reading_templates_easy :: "string \<Rightarrow> string list" where
  "reading_templates_easy job_title =
     [''Software development is a collaborative process that requires clear communication between team members. In '' @ job_title @ '' roles, professionals must effectively convey technical concepts to both technical and non-technical stakeholders.'',
      ''Modern '' @ job_title @ '' work involves continuous learning and adaptation to new technologies. Professionals in this field must stay updated with industry trends and programming languages.'',
      ''Quality assurance and testing are integral parts of the '' @ job_title @ '' workflow. Developers must communicate effectively with QA teams and document bug reports clearly.'']"

definition reading_templates_medium :: "string \<Rightarrow> string list" where
  "reading_templates_medium job_title =
     [''Project management in '' @ job_title @ '' roles requires excellent communication skills to coordinate with cross-functional teams. Developers must participate in daily standups, sprint planning meetings, and retrospectives. They need to clearly communicate progress, blockers, and technical challenges to ensure project success.'',
      ''Code review processes in '' @ job_title @ '' positions demand constructive communication and feedback skills. Developers must provide clear, actionable comments on code quality, suggest improvements, and explain best practices to colleagues. This collaborative approach helps maintain code standards.'']"

definition reading_templates_hard :: "string \<Rightarrow> string list" where
  "reading_templates_hard job_title =
     [''Performance optimization requires '' @ job_title @ '' professionals to analyze system bottlenecks and communicate findings effectively. They must present technical solutions to both technical and business stakeholders, explaining the impact of optimizations on user experience and system reliability while considering trade-offs between performance, maintainability, and development time.'']"

definition listening_templates_easy :: "string \<Rightarrow> string list" where
  "listening_templates_easy job_title =
     [''Effective '' @ job_title @ '' professionals collaborate with teams.'',
      ''Modern '' @ job_title @ '' roles require continuous learning.'',
      ''Code reviews help maintain quality standards.'']"

definition listening_templates_medium :: "string \<Rightarrow> string list" where
  "listening_templates_medium job_title =
     [''Agile methodologies enable '' @ job_title @ '' teams to respond quickly to changing requirements.'',
      ''Technical documentation is essential for '' @ job_title @ '' professionals to communicate concepts clearly.'',
      ''Version control systems help '' @ job_title @ '' teams track changes and collaborate efficiently.'']"

definition listening_templates_hard :: "string \<Rightarrow> string list" where
  "listening_templates_hard job_title =
     [''Performance optimization is a critical skill for '' @ job_title @ '' professionals working on large-scale applications with complex architectural requirements.'']"


text \<open>
  The grammar table; as for the aptitude table, a template keeps its question and answer label
  (the \<^verbatim>\<open>'options'\<close> dict is copied unchanged into the question and read by no branch).
\<close>

definition grammar_templates_tenses_easy :: "template list" where
  "grammar_templates_tenses_easy = [
     \<lparr>t_question = ''Which sentence uses the correct present tense?'',
      t_correct_answer = ''A''\<rparr>,
     \<lparr>t_question = ''Select the correct present tense form:'',
      t_correct_answer = ''A''\<rparr>,
     \<lparr>t_question = ''Which sentence is in the correct present tense?'',
      t_correct_answer = ''B''\<rparr>,
     \<lparr>t_question = ''Choose the correct present tense:'',
      t_correct_answer = ''B''\<rparr>,
     \<lparr>t_question = ''Which is the correct present tense?'',
      t_correct_answer = ''C''\<rparr>,
     \<lparr>t_question = ''Select the proper present tense:'',
      t_correct_answer = ''A''\<rparr>,
     \<lparr>t_question = ''Which sentence shows correct present tense?'',
      t_correct_answer = ''A''\<rparr>,
     \<lparr>t_question = ''Choose the right present tense form:'',
      t_correct_answer = ''A''\<rparr>,
     \<lparr>t_question = ''Which uses correct present tense?'',
      t_correct_answer = ''C''\<rparr>,
     \<lparr>t_question = ''Select correct present tense:'',
      t_correct_answer = ''A''\<rparr>,
     \<lparr>t_question = ''Which is in present tense?'',
      t_correct_answer = ''C''\<rparr>,
     \<lparr>t_question = ''Choose present tense form:'',
      t_correct_answer = ''A''\<rparr>,
     \<lparr>t_question = ''Which shows present tense?'',
      t_correct_answer = ''C''\<rparr>,
     \<lparr>t_question = ''Select the present tense:'',
      t_correct_answer = ''A''\<rparr>,
     \<lparr>t_question = ''Which is correct present tense?'',
      t_correct_answer = ''A''\<rparr>]"

definition grammar_templates_tenses_medium :: "template list" where
  "grammar_templates_tenses_medium = [
     \<lparr>t_question = ''Which sentence uses the correct present perfect tense?'',
      t_correct_answer = ''C''\<rparr>,
     \<lparr>t_question = ''Select the correct present continuous tense:'',
      t_correct_answer = ''B''\<rparr>,
     \<lparr>t_question = ''Choose the right present perfect:'',
      t_correct_answer = ''A''\<rparr>,
     \<lparr>t_question = ''Which uses present continuous correctly?'',
      t_correct_answer = ''B''\<rparr>,
     \<lparr>t_question = ''Select correct present perfect:'',
      t_correct_answer = ''B''\<rparr>,
     \<lparr>t_question = ''Which shows present continuous?'',
      t_correct_answer = ''B''\<rparr>,
     \<lparr>t_question = ''Choose present perfect form:'',
      t_correct_answer = ''A''\<rparr>,
     \<lparr>t_question = ''Which is present continuous?'',
      t_correct_answer = ''B''\<rparr>,
     \<lparr>t_question = ''Select present perfect tense:'',
      t_correct_answer = ''B''\<rparr>,
     \<lparr>t_question = ''Which uses present continuous?'',
      t_correct_answer = ''B''\<rparr>,
     \<lparr>t_question = ''Choose correct present perfect:'',
      t_correct_answer = ''B''\<rparr>,
     \<lparr>t_question = ''Which is present continuous tense?'',
      t_correct_answer = ''B''\<rparr>,
     \<lparr>t_question = ''Select present perfect form:'',
      t_correct_answer = ''B''\<rparr>,
     \<lparr>t_question = ''Which shows present continuous?'',
      t_correct_answer = ''B''\<rparr>,
     \<lparr>t_question = ''Choose present perfect tense:'',
      t_correct_answer = ''B''\<rparr>]"

definition grammar_templates_tenses_hard :: "template list" where
  "grammar_templates_tenses_hard = [
     \<lparr>t_question = ''Which sentence uses the past perfect tense correctly?'',
      t_correct_answer = ''A''\<rparr>,
     \<lparr>t_question = ''Select the correct past perfect continuous:'',
      t_correct_answer = ''A''\<rparr>,
     \<lparr>t_question = ''Which uses future perfect correctly?'',
      t_correct_answer = ''B''\<rparr>,
     \<lparr>t_question = ''Choose the right past perfect:'',
      t_correct_answer = ''B''\<rparr>,
     \<lparr>t_question = ''Which shows future perfect tense?'',
      t_correct_answer = ''C''\<rparr>,
     \<lparr>t_question = ''Select past perfect continuous:'',
      t_correct_answer = ''A''\<rparr>,
     \<lparr>t_question = ''Which uses conditional perfect?'',
      t_correct_answer = ''B''\<rparr>,
     \<lparr>t_question = ''Choose future perfect form:'',
      t_correct_answer = ''C''\<rparr>,
     \<lparr>t_question = ''Which is past perfect tense?'',
      t_correct_answer = ''A''\<rparr>,
     \<lparr>t_question = ''Select correct conditional perfect:'',
      t_correct_answer = ''B''\<rparr>,
     \<lparr>t_question = ''Which shows past perfect continuous?'',
      t_correct_answer = ''A''\<rparr>,
     \<lparr>t_question = ''Choose future perfect tense:'',
      t_correct_answer = ''C''\<rparr>,
     \<lparr>t_question = ''Which uses past perfect correctly?'',
      t_correct_answer = ''B''\<rparr>,
     \<lparr>t_question = ''Select past perfect continuous form:'',
      t_correct_answer = ''A''\<rparr>,
     \<lparr>t_question = ''Which is future perfect tense?'',
      t_correct_answer = ''C''\<rparr>]"

definition grammar_templates_articles_easy :: "template list" where
  "grammar_templates_articles_easy = [
     \<lparr>t_question = ''Choose the correct article: '' @ [CHR 0x27] @ ''She is ___ developer.'' @ [CHR 0x27],
      t_correct_answer = ''A''\<rparr>,
     \<lparr>t_question = ''Select the right article: '' @ [CHR 0x27] @ ''He works as ___ engineer.'' @ [CHR 0x27],
      t_correct_answer = ''B''\<rparr>,
     \<lparr>t_question = ''Which article fits: '' @ [CHR 0x27] @ ''I need ___ computer for work.'' @ [CHR 0x27],
      t_correct_answer = ''A''\<rparr>,
     \<lparr>t_question = ''Choose the article: '' @ [CHR 0x27] @ ''We hired ___ new programmer.'' @ [CHR 0x27],
      t_correct_answer = ''A''\<rparr>,
     \<lparr>t_question = ''Select correct article: '' @ [CHR 0x27] @ ''She bought ___ iPhone.'' @ [CHR 0x27],
      t_correct_answer = ''B''\<rparr>,
     \<lparr>t_question = ''Which article: '' @ [CHR 0x27] @ ''He is ___ software architect.'' @ [CHR 0x27],
      t_correct_answer = ''A''\<rparr>,
     \<lparr>t_question = ''Choose article: '' @ [CHR 0x27] @ ''I work at ___ startup company.'' @ [CHR 0x27],
      t_correct_answer = ''A''\<rparr>,
     \<lparr>t_question = ''Select article: '' @ [CHR 0x27] @ ''She uses ___ Android phone.'' @ [CHR 0x27],
      t_correct_answer = ''B''\<rparr>,
     \<lparr>t_question = ''Which fits: '' @ [CHR 0x27] @ ''We need ___ database administrator.'' @ [CHR 0x27],
      t_correct_answer = ''A''\<rparr>,
     \<lparr>t_question = ''Choose: '' @ [CHR 0x27] @ ''He is ___ UI/UX designer.'' @ [CHR 0x27],
      t_correct_answer = ''A''\<rparr>,
     \<lparr>t_question = ''Select: '' @ [CHR 0x27] @ ''I bought ___ laptop yesterday.'' @ [CHR 0x27],
      t_correct_answer = ''A''\<rparr>,
     \<lparr>t_question = ''Which: '' @ [CHR 0x27] @ ''She is ___ excellent coder.'' @ [CHR 0x27],
      t_correct_answer = ''B''\<rparr>,
     \<lparr>t_question = ''Choose: '' @ [CHR 0x27] @ ''We use ___ agile methodology.'' @ [CHR 0x27],
      t_correct_answer = ''B''\<rparr>,
     \<lparr>t_question = ''Select: '' @ [CHR 0x27] @ ''He drives ___ electric car.'' @ [CHR 0x27],
      t_correct_answer = ''B''\<rparr>,
     \<lparr>t_question = ''Which: '' @ [CHR 0x27] @ ''I am ___ full-stack developer.'' @ [CHR 0x27],
      t_correct_answer = ''A''\<rparr>]"

definition grammar_templates_articles_medium :: "template list" where
  "grammar_templates_articles_medium = [
     \<lparr>t_question = ''Select the correct article usage: '' @ [CHR 0x27] @ ''We need ___ experienced programmer.'' @ [CHR 0x27],
      t_correct_answer = ''B''\<rparr>,
     \<lparr>t_question = ''Choose the appropriate article: '' @ [CHR 0x27] @ ''This is ___ best solution.'' @ [CHR 0x27],
      t_correct_answer = ''C''\<rparr>,
     \<lparr>t_question = ''Which article: '' @ [CHR 0x27] @ ''___ Internet has changed everything.'' @ [CHR 0x27],
      t_correct_answer = ''C''\<rparr>,
     \<lparr>t_question = ''Select article: '' @ [CHR 0x27] @ ''She is ___ most skilled developer.'' @ [CHR 0x27],
      t_correct_answer = ''C''\<rparr>,
     \<lparr>t_question = ''Choose: '' @ [CHR 0x27] @ ''We work in ___ same building.'' @ [CHR 0x27],
      t_correct_answer = ''C''\<rparr>,
     \<lparr>t_question = ''Which: '' @ [CHR 0x27] @ ''He is ___ only one who knows Python.'' @ [CHR 0x27],
      t_correct_answer = ''C''\<rparr>,
     \<lparr>t_question = ''Select: '' @ [CHR 0x27] @ ''___ first version was released yesterday.'' @ [CHR 0x27],
      t_correct_answer = ''C''\<rparr>,
     \<lparr>t_question = ''Choose: '' @ [CHR 0x27] @ ''She works for ___ largest tech company.'' @ [CHR 0x27],
      t_correct_answer = ''C''\<rparr>,
     \<lparr>t_question = ''Which: '' @ [CHR 0x27] @ ''We use ___ latest technology.'' @ [CHR 0x27],
      t_correct_answer = ''C''\<rparr>,
     \<lparr>t_question = ''Select: '' @ [CHR 0x27] @ ''He is ___ second person to join.'' @ [CHR 0x27],
      t_correct_answer = ''C''\<rparr>,
     \<lparr>t_question = ''Choose: '' @ [CHR 0x27] @ ''___ next meeting is on Monday.'' @ [CHR 0x27],
      t_correct_answer = ''C''\<rparr>,
     \<lparr>t_question = ''Which: '' @ [CHR 0x27] @ ''She has ___ unique approach to coding.'' @ [CHR 0x27],
      t_correct_answer = ''A''\<rparr>,
     \<lparr>t_question = ''Select: '' @ [CHR 0x27] @ ''We found ___ perfect candidate.'' @ [CHR 0x27],
      t_correct_answer = ''C''\<rparr>,
     \<lparr>t_question = ''Choose: '' @ [CHR 0x27] @ ''He works at ___ top-rated company.'' @ [CHR 0x27],
      t_correct_answer = ''A''\<rparr>,
     \<lparr>t_question = ''Which: '' @ [CHR 0x27] @ ''___ final decision will be made tomorrow.'' @ [CHR 0x27],
      t_correct_answer = ''C''\<rparr>]"

definition grammar_templates_articles_hard :: "template list" where
  "grammar_templates_articles_hard = [
     \<lparr>t_question = ''Choose the appropriate article: '' @ [CHR 0x27] @ ''___ software industry requires constant learning.'' @ [CHR 0x27],
      t_correct_answer = ''C''\<rparr>,
     \<lparr>t_question = ''Select article: '' @ [CHR 0x27] @ ''___ artificial intelligence will transform ___ future.'' @ [CHR 0x27],
      t_correct_answer = ''A''\<rparr>,
     \<lparr>t_question = ''Which: '' @ [CHR 0x27] @ ''She has ___ PhD in ___ computer science.'' @ [CHR 0x27],
      t_correct_answer = ''B''\<rparr>,
     \<lparr>t_question = ''Choose: '' @ [CHR 0x27] @ ''___ machine learning is ___ subset of AI.'' @ [CHR 0x27],
      t_correct_answer = ''C''\<rparr>,
     \<lparr>t_question = ''Select: '' @ [CHR 0x27] @ ''He works in ___ field of ___ cybersecurity.'' @ [CHR 0x27],
      t_correct_answer = ''B''\<rparr>,
     \<lparr>t_question = ''Which: '' @ [CHR 0x27] @ ''___ blockchain technology has ___ potential to revolutionize finance.'' @ [CHR 0x27],
      t_correct_answer = ''C''\<rparr>,
     \<lparr>t_question = ''Choose: '' @ [CHR 0x27] @ ''She specializes in ___ development of ___ mobile applications.'' @ [CHR 0x27],
      t_correct_answer = ''B''\<rparr>,
     \<lparr>t_question = ''Select: '' @ [CHR 0x27] @ ''___ cloud computing has changed ___ way we store data.'' @ [CHR 0x27],
      t_correct_answer = ''C''\<rparr>,
     \<lparr>t_question = ''Which: '' @ [CHR 0x27] @ ''He earned ___ master'' @ [CHR 0x27] @ ''s degree in ___ data science.'' @ [CHR 0x27],
      t_correct_answer = ''B''\<rparr>,
     \<lparr>t_question = ''Choose: '' @ [CHR 0x27] @ ''___ Internet of Things connects ___ everyday objects.'' @ [CHR 0x27],
      t_correct_answer = ''B''\<rparr>,
     \<lparr>t_question = ''Select: '' @ [CHR 0x27] @ ''She works on ___ cutting-edge research in ___ quantum computing.'' @ [CHR 0x27],
      t_correct_answer = ''D''\<rparr>,
     \<lparr>t_question = ''Which: '' @ [CHR 0x27] @ ''___ virtual reality is transforming ___ entertainment industry.'' @ [CHR 0x27],
      t_correct_answer = ''C''\<rparr>,
     \<lparr>t_question = ''Choose: '' @ [CHR 0x27] @ ''He has ___ expertise in ___ field of robotics.'' @ [CHR 0x27],
      t_correct_answer = ''B''\<rparr>,
     \<lparr>t_question = ''Select: '' @ [CHR 0x27] @ ''___ big data analytics requires ___ understanding of statistics.'' @ [CHR 0x27],
      t_correct_answer = ''C''\<rparr>,
     \<lparr>t_question = ''Which: '' @ [CHR 0x27] @ ''She leads ___ team working on ___ next generation of processors.'' @ [CHR 0x27],
      t_correct_answer = ''C''\<rparr>]"

definition grammar_templates_prepositions_easy :: "template list" where
  "grammar_templates_prepositions_easy = [
     \<lparr>t_question = ''Complete: '' @ [CHR 0x27] @ ''I work ___ a tech company.'' @ [CHR 0x27],
      t_correct_answer = ''B''\<rparr>,
     \<lparr>t_question = ''Fill in the blank: '' @ [CHR 0x27] @ ''The meeting is ___ 3 PM.'' @ [CHR 0x27],
      t_correct_answer = ''B''\<rparr>,
     \<lparr>t_question = ''Choose the right preposition: '' @ [CHR 0x27] @ ''She works ___ the development team.'' @ [CHR 0x27],
      t_correct_answer = ''D''\<rparr>,
     \<lparr>t_question = ''Select: '' @ [CHR 0x27] @ ''We'' @ [CHR 0x27] @ ''ll meet ___ the office.'' @ [CHR 0x27],
      t_correct_answer = ''B''\<rparr>,
     \<lparr>t_question = ''Which: '' @ [CHR 0x27] @ ''The project starts ___ Monday.'' @ [CHR 0x27],
      t_correct_answer = ''C''\<rparr>,
     \<lparr>t_question = ''Choose: '' @ [CHR 0x27] @ ''I live ___ New York.'' @ [CHR 0x27],
      t_correct_answer = ''A''\<rparr>,
     \<lparr>t_question = ''Select: '' @ [CHR 0x27] @ ''She sits ___ her desk.'' @ [CHR 0x27],
      t_correct_answer = ''B''\<rparr>,
     \<lparr>t_question = ''Which: '' @ [CHR 0x27] @ ''The book is ___ the table.'' @ [CHR 0x27],
      t_correct_answer = ''C''\<rparr>,
     \<lparr>t_question = ''Choose: '' @ [CHR 0x27] @ ''We travel ___ car.'' @ [CHR 0x27],
      t_correct_answer = ''D''\<rparr>,
     \<lparr>t_question = ''Select: '' @ [CHR 0x27] @ ''The meeting is ___ the morning.'' @ [CHR 0x27],
      t_correct_answer = ''A''\<rparr>,
     \<lparr>t_question = ''Which: '' @ [CHR 0x27] @ ''She works ___ Google.'' @ [CHR 0x27],
      t_correct_answer = ''B''\<rparr>,
     \<lparr>t_question = ''Choose: '' @ [CHR 0x27] @ ''The code runs ___ the server.'' @ [CHR 0x27],
      t_correct_answer = ''C''\<rparr>,
     \<lparr>t_question = ''Select: '' @ [CHR 0x27] @ ''I'' @ [CHR 0x27] @ ''ll call you ___ the evening.'' @ [CHR 0x27],
      t_correct_answer = ''A''\<rparr>,
     \<lparr>t_question = ''Which: '' @ [CHR 0x27] @ ''The app works ___ mobile devices.'' @ [CHR 0x27],
      t_correct_answer = ''C''\<rparr>,
     \<lparr>t_question = ''Choose: '' @ [CHR 0x27] @ ''We collaborate ___ other teams.'' @ [CHR 0x27],
      t_correct_answer = ''D''\<rparr>]"

definition grammar_templates_prepositions_medium :: "template list" where
  "grammar_templates_prepositions_medium = [
     \<lparr>t_question = ''Which preposition fits: '' @ [CHR 0x27] @ ''The team worked ___ the deadline.'' @ [CHR 0x27],
      t_correct_answer = ''D''\<rparr>,
     \<lparr>t_question = ''Select the correct preposition: '' @ [CHR 0x27] @ ''We focus ___ quality code.'' @ [CHR 0x27],
      t_correct_answer = ''B''\<rparr>,
     \<lparr>t_question = ''Choose: '' @ [CHR 0x27] @ ''She specializes ___ web development.'' @ [CHR 0x27],
      t_correct_answer = ''A''\<rparr>,
     \<lparr>t_question = ''Which: '' @ [CHR 0x27] @ ''The project depends ___ client approval.'' @ [CHR 0x27],
      t_correct_answer = ''C''\<rparr>,
     \<lparr>t_question = ''Select: '' @ [CHR 0x27] @ ''We'' @ [CHR 0x27] @ ''re working ___ a tight schedule.'' @ [CHR 0x27],
      t_correct_answer = ''A''\<rparr>,
     \<lparr>t_question = ''Choose: '' @ [CHR 0x27] @ ''The team consists ___ five developers.'' @ [CHR 0x27],
      t_correct_answer = ''B''\<rparr>,
     \<lparr>t_question = ''Which: '' @ [CHR 0x27] @ ''She'' @ [CHR 0x27] @ ''s responsible ___ testing.'' @ [CHR 0x27],
      t_correct_answer = ''C''\<rparr>,
     \<lparr>t_question = ''Select: '' @ [CHR 0x27] @ ''We'' @ [CHR 0x27] @ ''re looking ___ a solution.'' @ [CHR 0x27],
      t_correct_answer = ''C''\<rparr>,
     \<lparr>t_question = ''Choose: '' @ [CHR 0x27] @ ''The code is based ___ Python.'' @ [CHR 0x27],
      t_correct_answer = ''C''\<rparr>,
     \<lparr>t_question = ''Which: '' @ [CHR 0x27] @ ''She'' @ [CHR 0x27] @ ''s interested ___ machine learning.'' @ [CHR 0x27],
      t_correct_answer = ''A''\<rparr>,
     \<lparr>t_question = ''Select: '' @ [CHR 0x27] @ ''We'' @ [CHR 0x27] @ ''re dealing ___ a complex issue.'' @ [CHR 0x27],
      t_correct_answer = ''D''\<rparr>,
     \<lparr>t_question = ''Choose: '' @ [CHR 0x27] @ ''The system runs ___ Linux.'' @ [CHR 0x27],
      t_correct_answer = ''C''\<rparr>,
     \<lparr>t_question = ''Which: '' @ [CHR 0x27] @ ''She'' @ [CHR 0x27] @ ''s good ___ problem solving.'' @ [CHR 0x27],
      t_correct_answer = ''B''\<rparr>,
     \<lparr>t_question = ''Select: '' @ [CHR 0x27] @ ''We'' @ [CHR 0x27] @ ''re working ___ the latest version.'' @ [CHR 0x27],
      t_correct_answer = ''D''\<rparr>,
     \<lparr>t_question = ''Choose: '' @ [CHR 0x27] @ ''The feature is available ___ premium users.'' @ [CHR 0x27],
      t_correct_answer = ''A''\<rparr>]"

definition grammar_templates_prepositions_hard :: "template list" where
  "grammar_templates_prepositions_hard = [
     \<lparr>t_question = ''Select the correct preposition: '' @ [CHR 0x27] @ ''Success depends ___ effective communication.'' @ [CHR 0x27],
      t_correct_answer = ''B''\<rparr>,
     \<lparr>t_question = ''Choose: '' @ [CHR 0x27] @ ''The algorithm is capable ___ processing large datasets.'' @ [CHR 0x27],
      t_correct_answer = ''C''\<rparr>,
     \<lparr>t_question = ''Which: '' @ [CHR 0x27] @ ''She'' @ [CHR 0x27] @ ''s proficient ___ multiple programming languages.'' @ [CHR 0x27],
      t_correct_answer = ''A''\<rparr>,
     \<lparr>t_question = ''Select: '' @ [CHR 0x27] @ ''The system is vulnerable ___ security attacks.'' @ [CHR 0x27],
      t_correct_answer = ''C''\<rparr>,
     \<lparr>t_question = ''Choose: '' @ [CHR 0x27] @ ''We'' @ [CHR 0x27] @ ''re committed ___ delivering quality software.'' @ [CHR 0x27],
      t_correct_answer = ''C''\<rparr>,
     \<lparr>t_question = ''Which: '' @ [CHR 0x27] @ ''The framework is compatible ___ various platforms.'' @ [CHR 0x27],
      t_correct_answer = ''D''\<rparr>,
     \<lparr>t_question = ''Select: '' @ [CHR 0x27] @ ''She'' @ [CHR 0x27] @ ''s experienced ___ agile methodologies.'' @ [CHR 0x27],
      t_correct_answer = ''A''\<rparr>,
     \<lparr>t_question = ''Choose: '' @ [CHR 0x27] @ ''The code is susceptible ___ memory leaks.'' @ [CHR 0x27],
      t_correct_answer = ''C''\<rparr>,
     \<lparr>t_question = ''Which: '' @ [CHR 0x27] @ ''We'' @ [CHR 0x27] @ ''re striving ___ excellence in development.'' @ [CHR 0x27],
      t_correct_answer = ''C''\<rparr>,
     \<lparr>t_question = ''Select: '' @ [CHR 0x27] @ ''The application is optimized ___ mobile devices.'' @ [CHR 0x27],
      t_correct_answer = ''D''\<rparr>,
     \<lparr>t_question = ''Choose: '' @ [CHR 0x27] @ ''She'' @ [CHR 0x27] @ ''s adept ___ handling complex algorithms.'' @ [CHR 0x27],
      t_correct_answer = ''B''\<rparr>,
     \<lparr>t_question = ''Which: '' @ [CHR 0x27] @ ''The system is resilient ___ failures.'' @ [CHR 0x27],
      t_correct_answer = ''C''\<rparr>,
     \<lparr>t_question = ''Select: '' @ [CHR 0x27] @ ''We'' @ [CHR 0x27] @ ''re focused ___ improving user experience.'' @ [CHR 0x27],
      t_correct_answer = ''C''\<rparr>,
     \<lparr>t_question = ''Choose: '' @ [CHR 0x27] @ ''The database is optimized ___ performance.'' @ [CHR 0x27],
      t_correct_answer = ''D''\<rparr>,
     \<lparr>t_question = ''Which: '' @ [CHR 0x27] @ ''She'' @ [CHR 0x27] @ ''s knowledgeable ___ cloud computing technologies.'' @ [CHR 0x27],
      t_correct_answer = ''B''\<rparr>]"


definition grammar_templates :: "string \<rightharpoonup> (string \<rightharpoonup> template list)" where
  "grammar_templates =
     [''tenses'' \<mapsto>
        [''easy'' \<mapsto> grammar_templates_tenses_easy,
         ''medium'' \<mapsto> grammar_templates_tenses_medium,
         ''hard'' \<mapsto> grammar_templates_tenses_hard],
      ''articles'' \<mapsto>
        [''easy'' \<mapsto> grammar_templates_articles_easy,
         ''medium'' \<mapsto> grammar_templates_articles_medium,
         ''hard'' \<mapsto> grammar_templates_articles_hard],
      ''prepositions'' \<mapsto>
        [''easy'' \<mapsto> grammar_templates_prepositions_easy,
         ''medium'' \<mapsto> grammar_templates_prepositions_medium,
         ''hard'' \<mapsto> grammar_templates_prepositions_hard]]"

text \<open>\<^verbatim>\<open>_generate_reading_from_templates\<close>: three loops \<^verbatim>\<open>for i in range(count)\<close>.\<close>

definition reading_level ::
  "string \<Rightarrow> string \<Rightarrow> int \<Rightarrow> string list \<Rightarrow> int \<Rightarrow> json list" where
  "reading_level label difficulty time_limit templates cnt =
     map (\<lambda>i. reading_question
                 (''Reading Assessment - '' @ label @ '' Level '' @ str_nat (i + 1))
                 (JStr (templates ! (i mod length templates))) difficulty time_limit
                 ''Read the paragraph aloud at a natural pace.'')
       [0..<nat cnt]"

definition generate_reading_from_templates :: "counts_config \<Rightarrow> string \<Rightarrow> json list" where
  "generate_reading_from_templates reading_config job_title =
     reading_level ''Easy'' ''easy'' 120 (reading_templates_easy job_title)
         (get0 (cfg_easy reading_config))
     @ reading_level ''Medium'' ''medium'' 180 (reading_templates_medium job_title)
         (get0 (cfg_medium reading_config))
     @ reading_level ''Hard'' ''hard'' 240 (reading_templates_hard job_title)
         (get0 (cfg_hard reading_config))"

text \<open>
  \<^verbatim>\<open>_generate_listening_from_templates\<close>: the lookup of \<^verbatim>\<open>'sentences'\<close>, then three loops
  over the counts found (\<open>listening_from_templates\<close>).
\<close>

definition listening_level ::
  "string \<Rightarrow> string \<Rightarrow> int \<Rightarrow> string list \<Rightarrow> int \<Rightarrow> json list" where
  "listening_level label difficulty time_limit templates cnt =
     map (\<lambda>i. listening_question
                 (''Sentence Repetition - '' @ label @ '' Level '' @ str_nat (i + 1))
                 (JStr (templates ! (i mod length templates))) difficulty time_limit
                 ''Listen carefully, then repeat exactly as you heard it.'')
       [0..<nat cnt]"

definition listening_from_templates :: "counts_config \<Rightarrow> string \<Rightarrow> json list" where
  "listening_from_templates sentences_config job_title =
     listening_level ''Easy'' ''easy'' 60 (listening_templates_easy job_title)
         (get0 (cfg_easy sentences_config))
     @ listening_level ''Medium'' ''medium'' 90 (listening_templates_medium job_title)
         (get0 (cfg_medium sentences_config))
     @ listening_level ''Hard'' ''hard'' 120 (listening_templates_hard job_title)
         (get0 (cfg_hard sentences_config))"

definition generate_listening_from_templates ::
  "listening_config \<Rightarrow> string \<Rightarrow> exn + json list" where
  "generate_listening_from_templates lc job_title =
     (case sentences_of lc of
        Inl ex \<Rightarrow> Inl ex
      | Inr sentences_config \<Rightarrow> Inr (listening_from_templates sentences_config job_title))"

text \<open>
  \<^verbatim>\<open>_generate_grammar_from_templates\<close>: topics the table does not know are skipped, and so is
  a difficulty whose pool is missing or empty.
\<close>

definition grammar_template_question :: "string \<Rightarrow> string \<Rightarrow> template \<Rightarrow> nat \<Rightarrow> json" where
  "grammar_template_question t difficulty template i =
     JObj [(''title'', JStr (''Grammar Assessment - '' @ py_title t @ '' '' @ py_title difficulty
                              @ '' '' @ str_nat (i + 1))),
           (''content'', JStr (t_question template)),
           (''correct_answer'', JStr (t_correct_answer template)),
           (''skill'', JStr ''grammar''),
           (''type'', JStr ''grammar''),
           (''topic'', JStr t),
           (''difficulty'', JStr difficulty),
           (''time_limit'', JNum (time_limit_short difficulty)),
           (''evaluation_criteria'', JArr [JStr ''grammatical_accuracy'', JStr ''language_knowledge'']),
           (''instructions'', JStr ''Select the most grammatically correct option.'')]"

definition grammar_level :: "string \<Rightarrow> (string \<rightharpoonup> template list) \<Rightarrow> string \<Rightarrow> int \<Rightarrow> json list" where
  "grammar_level t pools difficulty cnt =
     (let templates = (case pools difficulty of None \<Rightarrow> [] | Some p \<Rightarrow> p)
      in if templates = [] then []
         else map (\<lambda>i. grammar_template_question t difficulty
                          (templates ! (i mod length templates)) i)
                [0..<nat cnt])"

definition grammar_topic :: "grammar_config \<Rightarrow> string \<Rightarrow> json list" where
  "grammar_topic gc t =
     (case grammar_templates t of
        None \<Rightarrow> []
      | Some pools \<Rightarrow>
          grammar_level t pools ''easy'' (get0 (cfg_easy (topic_questions_of gc t)))
          @ grammar_level t pools ''medium'' (get0 (cfg_medium (topic_questions_of gc t)))
          @ grammar_level t pools ''hard'' (get0 (cfg_hard (topic_questions_of gc t))))"

definition generate_grammar_from_templates :: "grammar_config \<Rightarrow> string \<Rightarrow> json list" where
  "generate_grammar_from_templates gc job_title = concat (map (grammar_topic gc) (topics_of gc))"

text \<open>
  The conversion of one item of the provider's array, per category. Subscripting an item that is
  not a dict, a missing key and \<^verbatim>\<open>.title()\<close> on a value that is not a string all raise.
\<close>

fun reading_item :: "json \<Rightarrow> exn + json" where
  "reading_item (JObj kvs) =
     (case map_of kvs ''difficulty'' of
        None \<Rightarrow> Inl (KeyError ''difficulty'')
      | Some d \<Rightarrow>
         (case map_of kvs ''passage'' of
            None \<Rightarrow> Inl (KeyError ''passage'')
          | Some passage \<Rightarrow>
             (case d of
                JStr difficulty \<Rightarrow>
                  Inr (reading_question (''Reading Assessment - '' @ py_title difficulty @ '' Level'')
                         passage difficulty (time_limit_long difficulty)
                         ''Read the paragraph aloud at a natural pace. Focus on clear pronunciation and proper intonation.'')
              | _ \<Rightarrow> Inl AttributeError)))"
| "reading_item _ = Inl TypeError"

fun listening_item :: "json \<Rightarrow> exn + json" where
  "listening_item (JObj kvs) =
     (case map_of kvs ''difficulty'' of
        None \<Rightarrow> Inl (KeyError ''difficulty'')
      | Some d \<Rightarrow>
         (case map_of kvs ''sentence'' of
            None \<Rightarrow> Inl (KeyError ''sentence'')
          | Some sentence \<Rightarrow>
             (case d of
                JStr difficulty \<Rightarrow>
                  Inr (listening_question (''Sentence Repetition - '' @ py_title difficulty @ '' Level'')
                         sentence difficulty (time_limit_short difficulty)
                         ''Listen carefully to the sentence, then repeat it exactly as you heard it.'')
              | _ \<Rightarrow> Inl AttributeError)))"
| "listening_item _ = Inl TypeError"

fun grammar_item :: "json \<Rightarrow> exn + json" where
  "grammar_item (JObj kvs) =
     (case map_of kvs ''topic'' of
        None \<Rightarrow> Inl (KeyError ''topic'')
      | Some t \<Rightarrow>
         (case map_of kvs ''difficulty'' of
            None \<Rightarrow> Inl (KeyError ''difficulty'')
          | Some d \<Rightarrow>
             (case (d, t) of
                (JStr difficulty, JStr tname) \<Rightarrow>
                  (case map_of kvs ''question'' of
                     None \<Rightarrow> Inl (KeyError ''question'')
                   | Some q \<Rightarrow>
                      (case map_of kvs ''options'' of
                         None \<Rightarrow> Inl (KeyError ''options'')
                       | Some opts \<Rightarrow>
                          (case map_of kvs ''correct_answer'' of
                             None \<Rightarrow> Inl (KeyError ''correct_answer'')
                           | Some ans \<Rightarrow>
                               Inr (JObj [(''title'', JStr (''Grammar Assessment - '' @ py_title difficulty
                                                           @ '' '' @ py_title tname)),
                                          (''content'', q),
                                          (''options'', opts),
                                          (''correct_answer'', ans),
                                          (''explanation'',
                                             (case map_of kvs ''explanation'' of
                                                None \<Rightarrow> JStr [] | Some x \<Rightarrow> x)),
                                          (''skill'', JStr ''grammar''),
                                          (''type'', JStr ''grammar''),
                                          (''topic'', JStr tname),
                                          (''difficulty'', JStr difficulty),
                                          (''time_limit'', JNum (time_limit_short difficulty)),
                                          (''evaluation_criteria'',
                                             JArr [JStr ''grammatical_accuracy'',
                                                   JStr ''language_knowledge'']),
                                          (''instructions'',
                                             JStr ''Select the most grammatically correct option.'')]))))
              | _ \<Rightarrow> Inl AttributeError)))"
| "grammar_item _ = Inl TypeError"

text \<open>
  The part the three \<^verbatim>\<open>_batch_generate_*_questions\<close> functions share after their early
  returns: one request inside \<^verbatim>\<open>try\<close>; on status 200 the stripped content is parsed and every
  item converted, with no check of how many items there are; any other status, and any exception
  (the parse failure among them), returns the template fallback \<open>templates\<close>.
\<close>

definition batch_request ::
  "env \<Rightarrow> prompt \<Rightarrow> (json \<Rightarrow> exn + json) \<Rightarrow> json list \<Rightarrow> generator \<Rightarrow> world
   \<Rightarrow> json list \<times> world" where
  "batch_request e p item templates g w =
     (case get_current_api_key g of
        Inl ex \<Rightarrow> (templates, w)
      | Inr key \<Rightarrow>
         (case post e key p w of
            (PostRaises msg, w') \<Rightarrow> (templates, w')
          | (PostResponse status_code raw, w') \<Rightarrow>
              if status_code = 200 then
                (case raw of
                   Inl msg \<Rightarrow> (templates, w')
                 | Inr text \<Rightarrow>
                    (case json_loads e (py_strip text) of
                       Inl msg \<Rightarrow> (templates, w')
                     | Inr data \<Rightarrow>
                        (case py_iter data of
                           Inl ex \<Rightarrow> (templates, w')
                         | Inr items \<Rightarrow>
                            (case map_exn item items of
                               Inl ex \<Rightarrow> (templates, w')
                             | Inr questions \<Rightarrow> (questions, w')))))
              else (templates, w')))"

definition batch_generate_reading_questions ::
  "env \<Rightarrow> counts_config \<Rightarrow> string \<Rightarrow> generator \<Rightarrow> world \<Rightarrow> json list \<times> world" where
  "batch_generate_reading_questions e reading_config job_title g w =
     (if api_keys g = [] then ([], w)
      else if cfg_total reading_config = 0 then ([], w)
      else batch_request e (ReadingBatchPrompt (cfg_total reading_config)) reading_item
             (generate_reading_from_templates reading_config job_title) g w)"

text \<open>
  In \<^verbatim>\<open>_batch_generate_listening_questions\<close> the lookup of \<^verbatim>\<open>'sentences'\<close> and the sum of
  its counts come before the \<^verbatim>\<open>try\<close>, so a value without \<^verbatim>\<open>get\<close> raises to the caller.
  The template fallback repeats the lookup, which has succeeded by then.
\<close>

definition batch_generate_listening_questions ::
  "env \<Rightarrow> listening_config \<Rightarrow> string \<Rightarrow> generator \<Rightarrow> world
   \<Rightarrow> (exn + json list) \<times> world" where
  "batch_generate_listening_questions e lc job_title g w =
     (if api_keys g = [] then (Inr [], w)
      else
        (case sentences_of lc of
           Inl ex \<Rightarrow> (Inl ex, w)
         | Inr sentences_config \<Rightarrow>
             if cfg_total sentences_config = 0 then (Inr [], w)
             else (case batch_request e (ListeningBatchPrompt (cfg_total sentences_config))
                          listening_item (listening_from_templates sentences_config job_title) g w of
                     (questions, w') \<Rightarrow> (Inr questions, w'))))"

definition grammar_total :: "grammar_config \<Rightarrow> int" where
  "grammar_total gc =
     (\<Sum>t\<leftarrow>topics_of gc.
        if cfg_total (topic_questions_of gc t) > 0 then cfg_total (topic_questions_of gc t) else 0)"

definition batch_generate_grammar_questions ::
  "env \<Rightarrow> grammar_config \<Rightarrow> string \<Rightarrow> generator \<Rightarrow> world \<Rightarrow> json list \<times> world" where
  "batch_generate_grammar_questions e gc job_title g w =
     (if api_keys g = [] then ([], w)
      else if topics_of gc = [] then ([], w)
      else if grammar_total gc = 0 then ([], w)
      else batch_request e (GrammarBatchPrompt (grammar_total gc)) grammar_item
             (generate_grammar_from_templates gc job_title) g w)"

section \<open>Structured communication assessment and its error fallback\<close>









section \<open>Incremental communication batches: templates, usage sets, variations\<close>

text \<open>Truthiness of a JSON value, as \<^verbatim>\<open>if x:\<close> and \<^verbatim>\<open>a and b\<close> test it.\<close>

fun truthy :: "json \<Rightarrow> bool" where
  "truthy JNull = False"
| "truthy (JBool b) = b"
| "truthy (JNum n) = (n \<noteq> 0)"
| "truthy (JStr s) = (s \<noteq> [])"
| "truthy (JArr xs) = (xs \<noteq> [])"
| "truthy (JObj kvs) = (kvs \<noteq> [])"

definition small_reading_templates :: "string \<Rightarrow> string list" where
  "small_reading_templates job_title =
     [''Software development is a collaborative process that requires clear communication between team members. In '' @ job_title @ '' roles, professionals must effectively convey technical concepts to both technical and non-technical stakeholders. This includes writing clear documentation, participating in code reviews, and explaining complex algorithms in simple terms. Strong communication skills are essential for project success and team coordination.'',
      ''Modern '' @ job_title @ '' work involves continuous learning and adaptation to new technologies. Professionals in this field must stay updated with industry trends, programming languages, and development methodologies. They often participate in technical discussions, mentor junior developers, and contribute to architectural decisions. The ability to articulate technical solutions clearly is crucial for career advancement.'',
      ''Quality assurance and testing are integral parts of the '' @ job_title @ '' workflow. Developers must communicate effectively with QA teams, document bug reports clearly, and explain technical solutions to stakeholders. This requires strong verbal and written communication skills, as well as the ability to present complex technical information in an accessible manner.'',
      ''Project management in '' @ job_title @ '' roles requires excellent communication skills to coordinate with cross-functional teams. Developers must participate in daily standups, sprint planning meetings, and retrospectives. They need to clearly communicate progress, blockers, and technical challenges to ensure project success and maintain team alignment.'',
      ''Code review processes in '' @ job_title @ '' positions demand constructive communication and feedback skills. Developers must provide clear, actionable comments on code quality, suggest improvements, and explain best practices to colleagues. This collaborative approach helps maintain code standards and promotes knowledge sharing within the development team.'',
      ''Effective debugging is a crucial skill for '' @ job_title @ '' professionals. It requires systematic thinking, clear communication with team members about issues, and the ability to document solutions for future reference. Developers must explain complex technical problems to stakeholders and collaborate with others to find efficient solutions.'',
      ''Version control and collaboration are fundamental aspects of '' @ job_title @ '' work. Professionals must communicate changes clearly through commit messages, participate in pull request reviews, and coordinate with team members on feature development. Clear communication prevents conflicts and ensures smooth project progression.'',
      ''Performance optimization requires '' @ job_title @ '' professionals to analyze system bottlenecks and communicate findings effectively. They must present technical solutions to both technical and business stakeholders, explaining the impact of optimizations on user experience and system reliability.'',
      ''Security considerations are paramount in '' @ job_title @ '' roles. Professionals must communicate security requirements clearly, document potential vulnerabilities, and collaborate with security teams to implement robust solutions. Clear communication about security practices protects both the application and user data.'',
      ''Continuous integration and deployment practices require '' @ job_title @ '' professionals to communicate effectively about build processes, testing strategies, and deployment procedures. They must document workflows clearly and coordinate with DevOps teams to ensure reliable software delivery.'']"

definition small_listening_templates :: "string \<Rightarrow> string list" where
  "small_listening_templates job_title =
     [''Effective '' @ job_title @ '' professionals collaborate closely with cross-functional teams to deliver high-quality software solutions.'',
      ''Modern '' @ job_title @ '' roles require continuous learning and adaptation to emerging technologies and industry best practices.'',
      ''Code review processes help '' @ job_title @ '' teams maintain consistent quality standards and share knowledge effectively.'',
      ''Agile methodologies enable '' @ job_title @ '' teams to respond quickly to changing requirements and deliver value iteratively.'',
      ''Technical documentation is essential for '' @ job_title @ '' professionals to communicate complex concepts clearly and accurately.'',
      ''Version control systems help '' @ job_title @ '' teams track changes and collaborate efficiently on software projects.'',
      ''Testing strategies ensure that '' @ job_title @ '' professionals deliver reliable and maintainable software applications.'',
      ''Performance optimization is a critical skill for '' @ job_title @ '' professionals working on large-scale applications.'',
      ''Database design and optimization require '' @ job_title @ '' professionals to understand complex relationships and performance implications.'',
      ''User experience considerations guide '' @ job_title @ '' professionals in creating intuitive and accessible software interfaces.'',
      ''Security best practices are fundamental knowledge for '' @ job_title @ '' professionals working with sensitive data systems.'',
      ''Microservices architecture enables '' @ job_title @ '' teams to build scalable and maintainable distributed systems effectively.'']"

definition reading_variations :: "string \<Rightarrow> string \<Rightarrow> string list" where
  "reading_variations job_title base_passage =
     [''In collaborative '' @ job_title @ '' environments, '' @ py_lower base_passage @ '' Team coordination and effective communication are essential for project success.'',
      ''Modern '' @ job_title @ '' practices emphasize that '' @ py_lower base_passage @ '' This approach ensures sustainable development and maintainable code quality.'',
      ''When facing complex challenges, '' @ job_title @ '' professionals find that '' @ py_lower base_passage @ '' These skills become increasingly important in dynamic work environments.'',
      ''For career advancement in '' @ job_title @ '' roles, it'' @ [CHR 0x27] @ ''s important to understand that '' @ py_lower base_passage @ '' Professional development requires continuous learning and adaptation.'',
      ''According to industry best practices, '' @ job_title @ '' professionals should recognize that '' @ py_lower base_passage @ '' These standards help maintain consistency across development teams.'']"

definition listening_variations :: "string \<Rightarrow> string \<Rightarrow> string list" where
  "listening_variations job_title base_sentence =
     [''In today'' @ [CHR 0x27] @ ''s market, '' @ py_lower base_sentence,
      ''According to recent studies, '' @ py_lower base_sentence,
      ''Industry experts agree that '' @ py_lower base_sentence,
      ''For successful '' @ job_title @ '' careers, '' @ py_lower base_sentence,
      ''Research shows that '' @ py_lower base_sentence]"


definition create_reading_variation :: "string \<Rightarrow> string \<Rightarrow> nat \<Rightarrow> string" where
  "create_reading_variation base_passage job_title variation_number =
     reading_variations job_title base_passage
       ! ((variation_number - 1) mod length (reading_variations job_title base_passage))"

definition create_listening_variation :: "string \<Rightarrow> string \<Rightarrow> nat \<Rightarrow> string" where
  "create_listening_variation base_sentence job_title variation_number =
     listening_variations job_title base_sentence
       ! ((variation_number - 1) mod length (listening_variations job_title base_sentence))"

text \<open>
  The texts of the already persisted questions of one skill, gathered before the template loop
  from the list \<^verbatim>\<open>existing_questions\<close> (an element that is not a dict has no \<^verbatim>\<open>get\<close>):
  \<^verbatim>\<open>if q.get('skill') == 'listening' and q.get('audio_text'): existing_sentences.add(q['audio_text'])\<close>
  for listening, the same with \<^verbatim>\<open>'grammar'\<close> and \<^verbatim>\<open>'content'\<close> for grammar, and
  \<^verbatim>\<open>existing_passages.add(q['passage'][:50])\<close> for reading. Only strings can equal a
  template text, so the set is kept as the list of the strings added. A truthy value that cannot
  be hashed (listening, grammar) or sliced and hashed (reading) raises, outside the
  \<^verbatim>\<open>try\<close> of the batch function; the model raises \<^verbatim>\<open>TypeError\<close> in each of these
  cases.
\<close>

fun existing_values_of :: "string \<Rightarrow> string \<Rightarrow> json list \<Rightarrow> exn + string list" where
  "existing_values_of skill field [] = Inr []"
| "existing_values_of skill field (JObj q # rest) =
     (if map_of q ''skill'' = Some (JStr skill)
      then (case map_of q field of
              None \<Rightarrow> existing_values_of skill field rest
            | Some v \<Rightarrow>
                if truthy v then
                  (case v of
                     JStr s \<Rightarrow>
                       (case existing_values_of skill field rest of
                          Inl ex \<Rightarrow> Inl ex
                        | Inr acc \<Rightarrow> Inr (s # acc))
                   | JArr xs \<Rightarrow> Inl TypeError
                   | JObj kvs \<Rightarrow> Inl TypeError
                   | _ \<Rightarrow> existing_values_of skill field rest)
                else existing_values_of skill field rest)
      else existing_values_of skill field rest)"
| "existing_values_of skill field (q # rest) = Inl AttributeError"

definition existing_sentences_of :: "json list \<Rightarrow> exn + string list" where
  "existing_sentences_of = existing_values_of ''listening'' ''audio_text''"

definition existing_question_texts_of :: "json list \<Rightarrow> exn + string list" where
  "existing_question_texts_of = existing_values_of ''grammar'' ''content''"

fun existing_passages_of :: "json list \<Rightarrow> exn + string list" where
  "existing_passages_of [] = Inr []"
| "existing_passages_of (JObj q # rest) =
     (if map_of q ''skill'' = Some (JStr ''reading'')
      then (case map_of q ''passage'' of
              None \<Rightarrow> existing_passages_of rest
            | Some v \<Rightarrow>
                if truthy v then
                  (case v of
                     JStr s \<Rightarrow>
                       (case existing_passages_of rest of
                          Inl ex \<Rightarrow> Inl ex
                        | Inr acc \<Rightarrow> Inr (str_take 50 s # acc))
                   | _ \<Rightarrow> Inl TypeError)
                else existing_passages_of rest)
      else existing_passages_of rest)"
| "existing_passages_of (q # rest) = Inl AttributeError"

text \<open>
  The AI attempt of a small batch: nothing when there is no credential, when the status is not
  200 or when anything raises; otherwise the first \<open>n\<close> items of the parsed array, each
  converted by \<open>mk\<close> from its position and value (\<^verbatim>\<open>enumerate\<close>).
\<close>

definition small_ai_attempt ::
  "env \<Rightarrow> prompt \<Rightarrow> int \<Rightarrow> (nat \<times> json \<Rightarrow> exn + json) \<Rightarrow> generator \<Rightarrow> world
   \<Rightarrow> json list option \<times> world" where
  "small_ai_attempt e p n mk g w =
     (if api_keys g = [] then (None, w)
      else
        (case get_current_api_key g of
           Inl ex \<Rightarrow> (None, w)
         | Inr key \<Rightarrow>
            (case post e key p w of
               (PostRaises msg, w') \<Rightarrow> (None, w')
             | (PostResponse status_code raw, w') \<Rightarrow>
                 if status_code = 200 then
                   (case raw of
                      Inl msg \<Rightarrow> (None, w')
                    | Inr text \<Rightarrow>
                       (case json_loads e (py_strip text) of
                          Inl msg \<Rightarrow> (None, w')
                        | Inr data \<Rightarrow>
                           (case py_slice_to data n of
                              Inl ex \<Rightarrow> (None, w')
                            | Inr sliced \<Rightarrow>
                               (case py_iter sliced of
                                  Inl ex \<Rightarrow> (None, w')
                                | Inr items \<Rightarrow>
                                    (case map_exn mk (zip [0..<length items] items) of
                                       Inl ex \<Rightarrow> (None, w')
                                     | Inr questions \<Rightarrow> (Some questions, w'))))))
                 else (None, w'))))"

text \<open>
  \<^verbatim>\<open>_generate_small_listening_batch\<close>, template part. The first loop
  \<^verbatim>\<open>while generated_count < questions_to_generate and template_index < len(listening_templates)\<close>
  runs over the remaining (index, template) pairs; its state is the question list, the existing
  sentences, the usage set and \<^verbatim>\<open>generated_count\<close> (\<^verbatim>\<open>skipped_count\<close> is only logged).
\<close>

fun listening_pass ::
  "int \<Rightarrow> (nat \<times> string) list \<Rightarrow> json list \<times> string list \<times> nat set \<times> nat
   \<Rightarrow> json list \<times> string list \<times> nat set \<times> nat" where
  "listening_pass n [] st = st"
| "listening_pass n ((template_index, sentence) # rest) (questions, existing, used, generated_count) =
     (if int generated_count < n then
        (if sentence \<notin> set existing \<and> template_index \<notin> used
         then listening_pass n rest
                (questions @ [listening_question
                                (''Sentence Repetition - Template '' @ str_nat (generated_count + 1))
                                (JStr sentence) ''medium'' 90
                                ''Listen carefully, then repeat exactly as you heard it.''],
                 existing @ [sentence], insert template_index used, generated_count + 1)
         else listening_pass n rest (questions, existing, used, generated_count))
      else (questions, existing, used, generated_count))"

definition listening_variation_questions :: "string \<Rightarrow> nat \<Rightarrow> int \<Rightarrow> json list" where
  "listening_variation_questions job_title generated_count remaining_needed =
     map (\<lambda>i. listening_question
                 (''Sentence Repetition - Variation '' @ str_nat (generated_count + i + 1))
                 (JStr (create_listening_variation
                          (small_listening_templates job_title
                             ! (i mod length (small_listening_templates job_title)))
                          job_title (i + 1)))
                 ''medium'' 90 ''Listen carefully, then repeat exactly as you heard it.'')
       [0..<nat remaining_needed]"

definition generate_small_listening_batch ::
  "env \<Rightarrow> listening_config \<Rightarrow> string \<Rightarrow> int \<Rightarrow> json list option
   \<Rightarrow> generator \<Rightarrow> world \<Rightarrow> (exn + json list) \<times> generator \<times> world" where
  "generate_small_listening_batch e lc job_title max_questions existing_questions g w =
     (let questions_to_generate = min max_questions 3
      in case small_ai_attempt e (SmallListeningPrompt questions_to_generate) questions_to_generate
                (\<lambda>(i, sentence). Inr (listening_question
                                        (''Sentence Repetition - Level '' @ str_nat (i + 1)) sentence
                                        ''medium'' 90
                                        ''Listen carefully, then repeat exactly as you heard it.''))
                g w of
           (Some questions, w') \<Rightarrow> (Inr questions, g, w')
         | (None, w') \<Rightarrow>
            (case existing_sentences_of (case existing_questions of None \<Rightarrow> [] | Some qs \<Rightarrow> qs) of
               Inl ex \<Rightarrow> (Inl ex, g, w')
             | Inr existing \<Rightarrow>
                (case listening_pass questions_to_generate
                        (zip [0..<length (small_listening_templates job_title)]
                             (small_listening_templates job_title))
                        ([], existing, used_listening_templates g, 0) of
                   (questions, existing', used, generated_count) \<Rightarrow>
                     (Inr (questions
                           @ (if int generated_count < questions_to_generate
                              then listening_variation_questions job_title generated_count
                                     (questions_to_generate - int generated_count)
                              else [])),
                      g\<lparr>used_listening_templates := used\<rparr>, w'))))"

text \<open>
  \<^verbatim>\<open>_generate_small_reading_batch\<close>, template part. The state of the first loop also carries
  \<^verbatim>\<open>template_index\<close>, which the second pass continues from: when every index is in the usage
  set and the count is not met, the set is cleared and
  \<^verbatim>\<open>while generated_count < questions_to_generate and template_index < len(reading_templates) * 2\<close>
  runs with \<^verbatim>\<open>actual_index = template_index % len(reading_templates)\<close>.
\<close>

definition small_reading_question :: "string \<Rightarrow> nat \<Rightarrow> json \<Rightarrow> json" where
  "small_reading_question kind k passage =
     reading_question (''Reading Assessment - '' @ kind @ '' '' @ str_nat k) passage ''medium'' 180
       ''Read the paragraph aloud at a natural pace.''"

fun reading_pass ::
  "int \<Rightarrow> string list \<Rightarrow> nat list \<Rightarrow> json list \<times> string list \<times> nat set \<times> nat \<times> nat
   \<Rightarrow> json list \<times> string list \<times> nat set \<times> nat \<times> nat" where
  "reading_pass n templates [] st = st"
| "reading_pass n templates (i # rest) (questions, existing, used, generated_count, template_index) =
     (if int generated_count < n then
        (let actual_index = i mod length templates;
             passage = templates ! actual_index;
             passage_key = str_take 50 passage
         in if passage_key \<notin> set existing \<and> actual_index \<notin> used
            then reading_pass n templates rest
                   (questions @ [small_reading_question ''Template'' (generated_count + 1) (JStr passage)],
                    existing @ [passage_key], insert actual_index used, generated_count + 1, i + 1)
            else reading_pass n templates rest (questions, existing, used, generated_count, i + 1))
      else (questions, existing, used, generated_count, template_index))"

definition reading_variation_questions :: "string \<Rightarrow> nat \<Rightarrow> int \<Rightarrow> json list" where
  "reading_variation_questions job_title generated_count remaining_needed =
     map (\<lambda>i. small_reading_question ''Variation'' (generated_count + i + 1)
                 (JStr (create_reading_variation
                          (small_reading_templates job_title
                             ! (i mod length (small_reading_templates job_title)))
                          job_title (i + 1))))
       [0..<nat remaining_needed]"

definition generate_small_reading_batch ::
  "env \<Rightarrow> counts_config \<Rightarrow> string \<Rightarrow> int \<Rightarrow> json list option
   \<Rightarrow> generator \<Rightarrow> world \<Rightarrow> (exn + json list) \<times> generator \<times> world" where
  "generate_small_reading_batch e reading_config job_title max_questions existing_questions g w =
     (let questions_to_generate = min max_questions 3;
          templates = small_reading_templates job_title
      in case small_ai_attempt e (SmallReadingPrompt questions_to_generate) questions_to_generate
                (\<lambda>(i, passage). Inr (small_reading_question ''Level'' (i + 1) passage)) g w of
           (Some questions, w') \<Rightarrow> (Inr questions, g, w')
         | (None, w') \<Rightarrow>
            (case existing_passages_of (case existing_questions of None \<Rightarrow> [] | Some qs \<Rightarrow> qs) of
               Inl ex \<Rightarrow> (Inl ex, g, w')
             | Inr existing \<Rightarrow>
                (case reading_pass questions_to_generate templates [0..<length templates]
                        ([], existing, used_reading_templates g, 0, 0) of
                   (questions1, existing1, used1, generated1, template_index1) \<Rightarrow>
                     (case (if int generated1 < questions_to_generate
                               \<and> card used1 \<ge> length templates
                            then reading_pass questions_to_generate templates
                                   [template_index1..<length templates * 2]
                                   (questions1, existing1, {}, generated1, template_index1)
                            else (questions1, existing1, used1, generated1, template_index1)) of
                        (questions2, existing2, used2, generated2, template_index2) \<Rightarrow>
                          (Inr (questions2
                                @ (if int generated2 < questions_to_generate
                                   then reading_variation_questions job_title generated2
                                          (questions_to_generate - int generated2)
                                   else [])),
                           g\<lparr>used_reading_templates := used2\<rparr>, w')))))"

text \<open>
  \<^verbatim>\<open>_generate_small_grammar_batch\<close>. Its template table, and the two tables of
  \<^verbatim>\<open>_create_grammar_variation\<close>; the \<^verbatim>\<open>'options'\<close> of a template are copied unchanged
  into the question and are left out here, as in the aptitude bank.
\<close>

definition small_grammar_templates :: "template list" where
  "small_grammar_templates = [
     \<lparr>t_question = ''Which sentence uses the correct present perfect tense?'',
      t_correct_answer = ''C''\<rparr>,
     \<lparr>t_question = ''Choose the correct article for the sentence: '' @ [CHR 0x27] @ ''She is ___ software developer.'' @ [CHR 0x27],
      t_correct_answer = ''A''\<rparr>,
     \<lparr>t_question = ''Which preposition correctly completes: '' @ [CHR 0x27] @ ''The team worked ___ the deadline.'' @ [CHR 0x27],
      t_correct_answer = ''D''\<rparr>,
     \<lparr>t_question = ''Select the sentence with correct subject-verb agreement:'',
      t_correct_answer = ''A''\<rparr>,
     \<lparr>t_question = ''Which sentence uses the past perfect tense correctly?'',
      t_correct_answer = ''A''\<rparr>,
     \<lparr>t_question = ''Identify the correct use of conditional sentences:'',
      t_correct_answer = ''B''\<rparr>,
     \<lparr>t_question = ''Which sentence correctly uses passive voice?'',
      t_correct_answer = ''A''\<rparr>,
     \<lparr>t_question = ''Choose the correct pronoun: '' @ [CHR 0x27] @ ''The manager gave the task to John and ___.'' @ [CHR 0x27],
      t_correct_answer = ''B''\<rparr>]"

definition question_variations :: "(string \<times> string list) list" where
  "question_variations =
     [(''Which sentence uses the correct present perfect tense?'',
       [''Select the sentence with proper present perfect tense usage:'',
        ''Identify the correct present perfect tense construction:'',
        ''Choose the grammatically correct present perfect sentence:'']),
      (''Choose the correct article for the sentence:'',
       [''Select the appropriate article:'',
        ''Pick the correct article usage:'',
        ''Identify the proper article:'']),
      (''Which preposition correctly completes:'',
       [''Select the appropriate preposition for:'',
        ''Choose the correct preposition to complete:'',
        ''Pick the right preposition for:''])]"

definition prefixes :: "string list" where
  "prefixes = [''In professional contexts, '', ''For workplace communication, '', ''In business settings, '']"

text \<open>
  \<^verbatim>\<open>s.replace(old, new)\<close>: every occurrence of \<open>old\<close>, left to right and without overlap;
  an empty \<open>old\<close> matches before every character and at the end.
\<close>

fun py_replace :: "string \<Rightarrow> string \<Rightarrow> string \<Rightarrow> string" where
  "py_replace s old new =
     (if old = [] then new @ concat (map (\<lambda>c. c # new) s)
      else if s = [] then []
      else if startswith s old then new @ py_replace (drop (length old) s) old new
      else hd s # py_replace (tl s) old new)"

declare py_replace.simps [simp del]

text \<open>
  \<^verbatim>\<open>_create_grammar_variation\<close>. The first key of \<^verbatim>\<open>question_variations\<close> that occurs in
  the question selects the list of variations; the text that is then replaced is always the
  first key of the dict, \<^verbatim>\<open>list(question_variations.keys())[0]\<close>. The caller passes
  \<^verbatim>\<open>i + 1\<close>, so \<^verbatim>\<open>variation_number - 1\<close> is not negative.
\<close>

definition create_grammar_variation :: "template \<Rightarrow> nat \<Rightarrow> template" where
  "create_grammar_variation base_question variation_number =
     (let original_question = t_question base_question;
          variations = (case filter (\<lambda>(key, var_list). str_contains original_question key)
                               question_variations of
                          [] \<Rightarrow> []
                        | (key, var_list) # rest \<Rightarrow> var_list)
      in if variations \<noteq> []
         then base_question
                \<lparr>t_question := py_replace original_question (fst (hd question_variations))
                                 (variations ! ((variation_number - 1) mod length variations))\<rparr>
         else base_question
                \<lparr>t_question := prefixes ! ((variation_number - 1) mod length prefixes)
                                 @ py_lower original_question\<rparr>)"

definition small_grammar_question ::
  "string \<Rightarrow> json \<Rightarrow> (string \<times> json) list \<Rightarrow> json \<Rightarrow> json" where
  "small_grammar_question title content options correct_answer =
     JObj ([(''title'', JStr title), (''content'', content)] @ options
           @ [(''correct_answer'', correct_answer),
              (''skill'', JStr ''grammar''),
              (''type'', JStr ''grammar''),
              (''topic'', JStr ''mixed''),
              (''difficulty'', JStr ''medium''),
              (''time_limit'', JNum 90),
              (''evaluation_criteria'', JArr [JStr ''grammatical_accuracy'', JStr ''language_knowledge'']),
              (''instructions'', JStr ''Select the most grammatically correct option.'')])"

text \<open>
  The conversion of one item of the provider's array:
  \<^verbatim>\<open>q_data['question']\<close>, \<^verbatim>\<open>q_data['options']\<close>, \<^verbatim>\<open>q_data['correct_answer']\<close>, in
  this order. Subscripting a dict raises \<^verbatim>\<open>KeyError\<close> for a missing key; subscripting a list
  or a string with a string, or a value that cannot be subscripted, raises \<^verbatim>\<open>TypeError\<close>.
\<close>

fun small_grammar_item :: "nat \<times> json \<Rightarrow> exn + json" where
  "small_grammar_item (i, JObj kvs) =
     (case map_of kvs ''question'' of
        None \<Rightarrow> Inl (KeyError ''question'')
      | Some q \<Rightarrow>
         (case map_of kvs ''options'' of
            None \<Rightarrow> Inl (KeyError ''options'')
          | Some opts \<Rightarrow>
             (case map_of kvs ''correct_answer'' of
                None \<Rightarrow> Inl (KeyError ''correct_answer'')
              | Some ans \<Rightarrow>
                  Inr (small_grammar_question (''Grammar Assessment - Question '' @ str_nat (i + 1))
                         q [(''options'', opts)] ans))))"
| "small_grammar_item (i, _) = Inl TypeError"

fun grammar_pass ::
  "int \<Rightarrow> (nat \<times> template) list \<Rightarrow> json list \<times> string list \<times> nat set \<times> nat
   \<Rightarrow> json list \<times> string list \<times> nat set \<times> nat" where
  "grammar_pass n [] st = st"
| "grammar_pass n ((template_index, template) # rest) (questions, existing, used, generated_count) =
     (if int generated_count < n then
        (let question_text = t_question template
         in if question_text \<notin> set existing \<and> template_index \<notin> used
            then grammar_pass n rest
                   (questions @ [small_grammar_question
                                   (''Grammar Assessment - Template '' @ str_nat (generated_count + 1))
                                   (JStr question_text) [] (JStr (t_correct_answer template))],
                    existing @ [question_text], insert template_index used, generated_count + 1)
            else grammar_pass n rest (questions, existing, used, generated_count))
      else (questions, existing, used, generated_count))"

definition grammar_variation_questions :: "nat \<Rightarrow> int \<Rightarrow> json list" where
  "grammar_variation_questions generated_count remaining_needed =
     map (\<lambda>i. let variation_question =
                     create_grammar_variation
                       (small_grammar_templates ! (i mod length small_grammar_templates)) (i + 1)
               in small_grammar_question
                    (''Grammar Assessment - Variation '' @ str_nat (generated_count + i + 1))
                    (JStr (t_question variation_question)) []
                    (JStr (t_correct_answer variation_question)))
       [0..<nat remaining_needed]"

definition generate_small_grammar_batch ::
  "env \<Rightarrow> grammar_config \<Rightarrow> string \<Rightarrow> int \<Rightarrow> json list option
   \<Rightarrow> generator \<Rightarrow> world \<Rightarrow> (exn + json list) \<times> generator \<times> world" where
  "generate_small_grammar_batch e gc job_title max_questions existing_questions g w =
     (let questions_to_generate = min max_questions 5
      in case small_ai_attempt e (SmallGrammarPrompt questions_to_generate) questions_to_generate
                small_grammar_item g w of
           (Some questions, w') \<Rightarrow> (Inr questions, g, w')
         | (None, w') \<Rightarrow>
            (case existing_question_texts_of
                    (case existing_questions of None \<Rightarrow> [] | Some qs \<Rightarrow> qs) of
               Inl ex \<Rightarrow> (Inl ex, g, w')
             | Inr existing \<Rightarrow>
                (case grammar_pass questions_to_generate
                        (zip [0..<length small_grammar_templates] small_grammar_templates)
                        ([], existing, used_grammar_templates g, 0) of
                   (questions, existing', used, generated_count) \<Rightarrow>
                     (Inr (questions
                           @ (if int generated_count < questions_to_generate
                              then grammar_variation_questions generated_count
                                     (questions_to_generate - int generated_count)
                              else [])),
                      g\<lparr>used_grammar_templates := used\<rparr>, w'))))"

section \<open>Incremental communication generation\<close>












section \<open>Concrete scenarios\<close>

text \<open>
  Generators, worlds and collaborators used to run the model on concrete inputs: a generator
  with no, one and two credentials, a fresh world, a provider that answers every request with
  status 429, and the 45-question missing-work list over three topics.
\<close>

definition no_keys :: generator where
  "no_keys = \<lparr>api_keys = [], current_key_index = 0,
       used_reading_templates = {}, used_listening_templates = {}, used_grammar_templates = {}\<rparr>"

definition one_key :: generator where
  "one_key = \<lparr>api_keys = [''gsk_a''], current_key_index = 0,
       used_reading_templates = {}, used_listening_templates = {}, used_grammar_templates = {}\<rparr>"

definition two_keys :: generator where
  "two_keys = \<lparr>api_keys = [''gsk_a'', ''gsk_b''], current_key_index = 0,
       used_reading_templates = {}, used_listening_templates = {}, used_grammar_templates = {}\<rparr>"

definition fresh :: world where
  "fresh = \<lparr>calls = 0, trace = []\<rparr>"

definition always_429 :: env where
  "always_429 = \<lparr>provider = (\<lambda>n. PostResponse 429 (Inr [])),
                  json_loads = (\<lambda>s. Inl ''Expecting value''),
                  check_existing_questions = (\<lambda>tcs. Map.empty)\<rparr>"

definition three_easy :: "topic_config list" where
  "three_easy =
     [\<lparr>topic = ''logical_reasoning'', easy = Some 3, medium = Some 0, hard = Some 0, total = Some 3\<rparr>]"

definition three_topics_45 :: "topic_config list" where
  "three_topics_45 =
     [\<lparr>topic = ''logical_reasoning'', easy = Some 5, medium = Some 5, hard = Some 5, total = Some 15\<rparr>,
      \<lparr>topic = ''quantitative_aptitude'', easy = Some 5, medium = Some 5, hard = Some 5, total = Some 15\<rparr>,
      \<lparr>topic = ''verbal_reasoning'', easy = Some 5, medium = Some 5, hard = Some 5, total = Some 15\<rparr>]"

text \<open>
  A provider whose first answer is a server error and whose later answers are status 200 with a
  payload that parses to two questions.
\<close>

definition first_fails_env :: env where
  "first_fails_env =
     \<lparr>provider = (\<lambda>n. if n = 0 then PostResponse 500 (Inr []) else PostResponse 200 (Inr ''{}'')),
      json_loads = (\<lambda>s. Inr (JObj [(''questions'', JArr [JStr ''q1'', JStr ''q2''])])),
      check_existing_questions = (\<lambda>tcs. Map.empty)\<rparr>"

text \<open>
  A provider that cannot be reached; one whose 200 responses carry a payload cut off in the
  middle; one whose payload parses to two aptitude questions, and one whose payload parses to two
  reading passages, whatever was asked for.
\<close>

definition refusing_env :: env where
  "refusing_env =
     \<lparr>provider = (\<lambda>n. PostRaises ''Connection refused''),
      json_loads = (\<lambda>s. Inl ''Expecting value''),
      check_existing_questions = (\<lambda>tcs. Map.empty)\<rparr>"

definition garbage_env :: env where
  "garbage_env =
     \<lparr>provider = (\<lambda>n. PostResponse 200 (Inr ''{ questions: [ { topic: logic'')),
      json_loads = (\<lambda>s. Inl ''Unterminated string starting at: line 1 column 28 (char 27)''),
      check_existing_questions = (\<lambda>tcs. Map.empty)\<rparr>"

definition two_questions_env :: env where
  "two_questions_env =
     \<lparr>provider = (\<lambda>n. PostResponse 200 (Inr ''{}'')),
      json_loads = (\<lambda>s. Inr (JObj [(''questions'', JArr [JStr ''q1'', JStr ''q2''])])),
      check_existing_questions = (\<lambda>tcs. Map.empty)\<rparr>"

definition two_passages_env :: env where
  "two_passages_env =
     \<lparr>provider = (\<lambda>n. PostResponse 200 (Inr ''[]'')),
      json_loads = (\<lambda>s. Inr (JArr [JObj [(''difficulty'', JStr ''easy''), (''passage'', JStr ''p1'')],
                                     JObj [(''difficulty'', JStr ''easy''), (''passage'', JStr ''p2'')]])),
      check_existing_questions = (\<lambda>tcs. Map.empty)\<rparr>"

definition one_easy :: counts_config where
  "one_easy = \<lparr>cfg_easy = Some 1, cfg_medium = None, cfg_hard = None\<rparr>"

definition one_sentence :: listening_config where
  "one_sentence = \<lparr>sentences = Some (Some one_easy)\<rparr>"

definition one_tense :: grammar_config where
  "one_tense = \<lparr>gc_topics = Some [''tenses''], gc_topicQuestions = Some [(''tenses'', one_easy)]\<rparr>"

text \<open>A generator without credentials whose twelve listening templates have all been used.\<close>

definition listening_exhausted :: generator where
  "listening_exhausted =
     \<lparr>api_keys = [], current_key_index = 0,
      used_reading_templates = {},
      used_listening_templates = {0, 1, 2, 3, 4, 5, 6, 7, 8, 9, 10, 11},
      used_grammar_templates = {}\<rparr>"

text \<open>The same for the ten reading templates.\<close>

definition reading_exhausted :: generator where
  "reading_exhausted =
     \<lparr>api_keys = [], current_key_index = 0,
      used_reading_templates = {0, 1, 2, 3, 4, 5, 6, 7, 8, 9},
      used_listening_templates = {},
      used_grammar_templates = {}\<rparr>"

text \<open>The same for the eight grammar templates.\<close>

definition grammar_exhausted :: generator where
  "grammar_exhausted =
     \<lparr>api_keys = [], current_key_index = 0,
      used_reading_templates = {},
      used_listening_templates = {},
      used_grammar_templates = {0, 1, 2, 3, 4, 5, 6, 7}\<rparr>"




text \<open>The requests among the events of a trace.\<close>

fun is_post :: "event \<Rightarrow> bool" where
  "is_post (Post k p) = True"
| "is_post (Sleep n) = False"
| "is_post (Get a) = False"

text \<open>
  What the composer relies on: every stored pool is non-empty and every topic has an
  \<^verbatim>\<open>'easy'\<close> pool to fall back on.
\<close>

definition pools_ok :: "pools \<Rightarrow> bool" where
  "pools_ok topic_templates =
     (topic_templates ''easy'' \<noteq> None \<and> (\<forall>k p. topic_templates k = Some p \<longrightarrow> p \<noteq> []))"

definition bank_ok :: "bank \<Rightarrow> bool" where
  "bank_ok templates = (\<forall>t p. templates t = Some p \<longrightarrow> pools_ok p)"

section \<open>Properties of the credential rotator\<close>

lemma rotate_api_key_keys: "api_keys (snd (rotate_api_key g)) = api_keys g"
  by (simp add: rotate_api_key_def)

lemma rotate_times_keys: "api_keys (rotate_times n g) = api_keys g"
  by (induction n arbitrary: g) (simp_all add: rotate_api_key_keys)

lemma rotate_times_index:
  "2 \<le> length (api_keys g) \<Longrightarrow>
   rotate_times n g =
     g\<lparr>current_key_index :=
         (if n = 0 then current_key_index g
          else (current_key_index g + n) mod length (api_keys g))\<rparr>"
proof (induction n arbitrary: g)
  case 0
  then show ?case by simp
next
  case (Suc n)
  let ?g' = "snd (rotate_api_key g)"
  have keys: "api_keys ?g' = api_keys g" by (rule rotate_api_key_keys)
  have g': "?g' = g\<lparr>current_key_index := (current_key_index g + 1) mod length (api_keys g)\<rparr>"
    using Suc.prems by (simp add: rotate_api_key_def)
  have "rotate_times (Suc n) g = rotate_times n ?g'" by simp
  also have "\<dots> = ?g'\<lparr>current_key_index :=
         (if n = 0 then current_key_index ?g'
          else (current_key_index ?g' + n) mod length (api_keys ?g'))\<rparr>"
    using Suc.IH [of ?g'] Suc.prems keys by simp
  also have "\<dots> = g\<lparr>current_key_index := (current_key_index g + Suc n) mod length (api_keys g)\<rparr>"
    by (simp add: g' mod_add_left_eq add.assoc)
  finally show ?case by simp
qed

text \<open>
  C7. For a credential list of \<open>N \<ge> 2\<close> credentials whose index points into the list, \<open>N\<close>
  consecutive \<^verbatim>\<open>rotate_api_key()\<close> calls give back the generator they started from (so the index
  is restored). With zero or one credential a call returns \<open>False\<close> and changes nothing. Every call
  leaves the credential list as it was and returns a generator that differs from the old one at most
  in \<open>current_key_index\<close>; \<^verbatim>\<open>get_current_api_key\<close> has no effect on the generator at all (it is a
  function of it) and returns a member of the list or \<open>None\<close>.
\<close>

theorem rotate_api_key_circular:
  "(2 \<le> length (api_keys g) \<and> current_key_index g < length (api_keys g) \<longrightarrow>
      rotate_times (length (api_keys g)) g = g
      \<and> current_key_index (rotate_times (length (api_keys g)) g) = current_key_index g)
   \<and> (length (api_keys g) \<le> 1 \<longrightarrow> rotate_api_key g = (False, g))
   \<and> api_keys (snd (rotate_api_key g)) = api_keys g
   \<and> (\<exists>i. snd (rotate_api_key g) = g\<lparr>current_key_index := i\<rparr>)
   \<and> (\<forall>k. get_current_api_key g = Inr (Some k) \<longrightarrow> k \<in> set (api_keys g))"
proof -
  have a: "rotate_times (length (api_keys g)) g = g"
    if "2 \<le> length (api_keys g)" "current_key_index g < length (api_keys g)"
    using that rotate_times_index [of g "length (api_keys g)"] by simp
  have b: "rotate_api_key g = (False, g)" if "length (api_keys g) \<le> 1"
    using that by (simp add: rotate_api_key_def)
  have c: "\<exists>i. snd (rotate_api_key g) = g\<lparr>current_key_index := i\<rparr>"
  proof (cases "length (api_keys g) \<le> 1")
    case True
    then have "snd (rotate_api_key g) = g\<lparr>current_key_index := current_key_index g\<rparr>"
      by (simp add: rotate_api_key_def)
    then show ?thesis ..
  next
    case False
    then have "snd (rotate_api_key g)
        = g\<lparr>current_key_index := (current_key_index g + 1) mod length (api_keys g)\<rparr>"
      by (simp add: rotate_api_key_def)
    then show ?thesis ..
  qed
  have d: "k \<in> set (api_keys g)" if "get_current_api_key g = Inr (Some k)" for k
    using that by (auto simp: get_current_api_key_def split: if_splits)
  show ?thesis
    using a b c d rotate_api_key_keys [of g] by auto
qed

theorem rotate_api_key_circular_witness:
  "rotate_times 3
      \<lparr>api_keys = [''gsk_a'', ''gsk_b'', ''gsk_c''], current_key_index = 1,
       used_reading_templates = {}, used_listening_templates = {}, used_grammar_templates = {}\<rparr>
    = \<lparr>api_keys = [''gsk_a'', ''gsk_b'', ''gsk_c''], current_key_index = 1,
       used_reading_templates = {}, used_listening_templates = {}, used_grammar_templates = {}\<rparr>
   \<and> rotate_api_key
      \<lparr>api_keys = [''gsk_a''], current_key_index = 0,
       used_reading_templates = {}, used_listening_templates = {}, used_grammar_templates = {}\<rparr>
    = (False,
       \<lparr>api_keys = [''gsk_a''], current_key_index = 0,
        used_reading_templates = {}, used_listening_templates = {}, used_grammar_templates = {}\<rparr>)
   \<and> ''gsk_b'' \<in> set [''gsk_a'', ''gsk_b'', ''gsk_c'']"
proof -
  let ?g = "\<lparr>api_keys = [''gsk_a'', ''gsk_b'', ''gsk_c''], current_key_index = 1,
       used_reading_templates = {}, used_listening_templates = {}, used_grammar_templates = {}\<rparr>"
  let ?h = "\<lparr>api_keys = [''gsk_a''], current_key_index = 0,
       used_reading_templates = {}, used_listening_templates = {}, used_grammar_templates = {}\<rparr>"
  have len: "length (api_keys ?g) = 3" by simp
  have pre: "2 \<le> length (api_keys ?g) \<and> current_key_index ?g < length (api_keys ?g)" by simp
  have cur: "get_current_api_key ?g = Inr (Some ''gsk_b'')"
    by (simp add: get_current_api_key_def)
  have "rotate_times (length (api_keys ?g)) ?g = ?g"
    using rotate_api_key_circular [of ?g] pre by blast
  then have a: "rotate_times 3 ?g = ?g" by (simp only: len)
  have one: "length (api_keys ?h) \<le> 1" by simp
  have b: "rotate_api_key ?h = (False, ?h)"
    using rotate_api_key_circular [of ?h] one by blast
  have "''gsk_b'' \<in> set (api_keys ?g)"
    using rotate_api_key_circular [of ?g] cur by blast
  then have c: "''gsk_b'' \<in> set [''gsk_a'', ''gsk_b'', ''gsk_c'']" by simp
  show ?thesis using a b c by blast
qed

section \<open>Properties of the batch planner\<close>

lemma calculate_missing_loop_eq:
  "calculate_missing_loop existing tcs acc =
     acc @ filter (\<lambda>m. 0 < get0 (total m)) (map (missing_config_of existing) tcs)"
  by (induction tcs arbitrary: acc) (simp_all add: Let_def)

text \<open>
  C1. For every list of topic configurations and every existing-count map,
  \<^verbatim>\<open>_calculate_missing_questions\<close> returns, in the order of the input, one entry for each topic
  configuration whose missing total is positive and none for the others; the entry carries the
  topic, for each of easy, medium and hard the count \<open>max 0 (requested - existing)\<close> (an absent
  requested count and an unknown topic count as 0), and under \<^verbatim>\<open>'total'\<close> the sum of the three.
\<close>

theorem calculate_missing_questions_spec:
  "calculate_missing_questions topic_configs existing =
     filter (\<lambda>m. 0 < get0 (total m))
       (map (\<lambda>tc.
              \<lparr>topic = topic tc,
               easy = Some (max 0 (get0 (easy tc) - c_easy (existing_for existing (topic tc)))),
               medium = Some (max 0 (get0 (medium tc) - c_medium (existing_for existing (topic tc)))),
               hard = Some (max 0 (get0 (hard tc) - c_hard (existing_for existing (topic tc)))),
               total = Some (max 0 (get0 (easy tc) - c_easy (existing_for existing (topic tc)))
                           + max 0 (get0 (medium tc) - c_medium (existing_for existing (topic tc)))
                           + max 0 (get0 (hard tc) - c_hard (existing_for existing (topic tc))))\<rparr>)
            topic_configs)
   \<and> (\<forall>m \<in> set (calculate_missing_questions topic_configs existing).
         0 < get0 (total m)
         \<and> get0 (total m) = get0 (easy m) + get0 (medium m) + get0 (hard m)
         \<and> 0 \<le> get0 (easy m) \<and> 0 \<le> get0 (medium m) \<and> 0 \<le> get0 (hard m))"
proof -
  have eq: "calculate_missing_questions topic_configs existing =
      filter (\<lambda>m. 0 < get0 (total m)) (map (missing_config_of existing) topic_configs)"
    by (simp add: calculate_missing_questions_def calculate_missing_loop_eq)
  have fields: "get0 (total (missing_config_of existing tc))
        = get0 (easy (missing_config_of existing tc)) + get0 (medium (missing_config_of existing tc))
          + get0 (hard (missing_config_of existing tc))
      \<and> 0 \<le> get0 (easy (missing_config_of existing tc))
      \<and> 0 \<le> get0 (medium (missing_config_of existing tc))
      \<and> 0 \<le> get0 (hard (missing_config_of existing tc))" for tc
    by (simp add: missing_config_of_def Let_def get0_def)
  have m: "missing_config_of existing =
      (\<lambda>tc.
              \<lparr>topic = topic tc,
               easy = Some (max 0 (get0 (easy tc) - c_easy (existing_for existing (topic tc)))),
               medium = Some (max 0 (get0 (medium tc) - c_medium (existing_for existing (topic tc)))),
               hard = Some (max 0 (get0 (hard tc) - c_hard (existing_for existing (topic tc)))),
               total = Some (max 0 (get0 (easy tc) - c_easy (existing_for existing (topic tc)))
                           + max 0 (get0 (medium tc) - c_medium (existing_for existing (topic tc)))
                           + max 0 (get0 (hard tc) - c_hard (existing_for existing (topic tc))))\<rparr>)"
    by (rule ext) (simp add: missing_config_of_def Let_def)
  have first: "calculate_missing_questions topic_configs existing =
     filter (\<lambda>m. 0 < get0 (total m))
       (map (\<lambda>tc.
              \<lparr>topic = topic tc,
               easy = Some (max 0 (get0 (easy tc) - c_easy (existing_for existing (topic tc)))),
               medium = Some (max 0 (get0 (medium tc) - c_medium (existing_for existing (topic tc)))),
               hard = Some (max 0 (get0 (hard tc) - c_hard (existing_for existing (topic tc)))),
               total = Some (max 0 (get0 (easy tc) - c_easy (existing_for existing (topic tc)))
                           + max 0 (get0 (medium tc) - c_medium (existing_for existing (topic tc)))
                           + max 0 (get0 (hard tc) - c_hard (existing_for existing (topic tc))))\<rparr>)
            topic_configs)"
    using eq unfolding m .
  have second: "\<forall>m \<in> set (calculate_missing_questions topic_configs existing).
         0 < get0 (total m)
         \<and> get0 (total m) = get0 (easy m) + get0 (medium m) + get0 (hard m)
         \<and> 0 \<le> get0 (easy m) \<and> 0 \<le> get0 (medium m) \<and> 0 \<le> get0 (hard m)"
    unfolding eq using fields by auto
  show ?thesis using first second by (rule conjI)
qed

theorem calculate_missing_questions_spec_witness:
  "calculate_missing_questions
     [\<lparr>topic = ''logical_reasoning'', easy = Some 5, medium = Some 2, hard = None, total = Some 7\<rparr>,
      \<lparr>topic = ''verbal_reasoning'', easy = Some 1, medium = None, hard = None, total = Some 1\<rparr>,
      \<lparr>topic = ''data_interpretation'', easy = None, medium = None, hard = Some 4, total = Some 4\<rparr>]
     [''logical_reasoning'' \<mapsto> \<lparr>c_easy = 2, c_medium = 3, c_hard = 0\<rparr>,
      ''verbal_reasoning'' \<mapsto> \<lparr>c_easy = 1, c_medium = 0, c_hard = 9\<rparr>]
   = [\<lparr>topic = ''logical_reasoning'', easy = Some 3, medium = Some 0, hard = Some 0, total = Some 3\<rparr>,
      \<lparr>topic = ''data_interpretation'', easy = Some 0, medium = Some 0, hard = Some 4, total = Some 4\<rparr>]"
  using calculate_missing_questions_spec
    [of "[\<lparr>topic = ''logical_reasoning'', easy = Some 5, medium = Some 2, hard = None, total = Some 7\<rparr>,
      \<lparr>topic = ''verbal_reasoning'', easy = Some 1, medium = None, hard = None, total = Some 1\<rparr>,
      \<lparr>topic = ''data_interpretation'', easy = None, medium = None, hard = Some 4, total = Some 4\<rparr>]"
     "[''logical_reasoning'' \<mapsto> \<lparr>c_easy = 2, c_medium = 3, c_hard = 0\<rparr>,
      ''verbal_reasoning'' \<mapsto> \<lparr>c_easy = 1, c_medium = 0, c_hard = 9\<rparr>]"]
  by (simp add: get0_def existing_for_def)

section \<open>Properties of the aptitude fallback composer\<close>

lemma extend_templates_total:
  "a \<noteq> [] \<Longrightarrow> \<exists>a'. extend_templates a cnt = Some a' \<and> a' \<noteq> [] \<and> cnt \<le> int (length a')"
proof (induction "nat (cnt - int (length a))" arbitrary: a rule: less_induct)
  case less
  show ?case
  proof (cases "int (length a) < cnt")
    case False
    then show ?thesis using less.prems by (subst extend_templates.simps) simp
  next
    case True
    have pos: "0 < length a" using less.prems by simp
    have "nat (cnt - int (length (a @ a))) < nat (cnt - int (length a))"
      using True pos by simp
    from less.hyps [OF this] less.prems
    obtain a' where "extend_templates (a @ a) cnt = Some a'" "a' \<noteq> []" "cnt \<le> int (length a')"
      by auto
    then show ?thesis using True by (subst extend_templates.simps) simp
  qed
qed

lemma pool_get_nonempty: "pools_ok tt \<Longrightarrow> pool_get tt d \<noteq> []"
  by (auto simp: pools_ok_def pool_get_def split: option.splits)

lemma pool_key_some: "pools_ok tt \<Longrightarrow> \<exists>k. pool_key tt d = Some k"
  by (auto simp: pools_ok_def pool_key_def split: option.splits)

lemma difficulty_step_total:
  assumes "pools_ok tt" "0 \<le> cnt"
  shows "\<exists>tt' qs'. difficulty_step t tpq d cnt (tt, qs) = Some (tt', qs')
           \<and> pools_ok tt' \<and> int (length qs') = int (length qs) + cnt"
proof (cases "cnt > 0")
  case False
  then show ?thesis using assms by (simp add: difficulty_step_def)
next
  case True
  obtain a' where a': "extend_templates (pool_get tt d) cnt = Some a'" "a' \<noteq> []"
    using extend_templates_total [OF pool_get_nonempty [OF assms(1)]] by blast
  obtain k where k: "pool_key tt d = Some k" using pool_key_some [OF assms(1)] by blast
  have "pools_ok (tt(k \<mapsto> a'))" using assms(1) a'(2) by (auto simp: pools_ok_def)
  then show ?thesis using True a' k by (simp add: difficulty_step_def)
qed

lemma base_templates_ok: "pools_ok (base_templates t)"
  by (auto simp: pools_ok_def base_templates_def split: if_splits)

lemma topic_step_total:
  assumes "bank_ok b" "0 \<le> get0 (easy tc)" "0 \<le> get0 (medium tc)" "0 \<le> get0 (hard tc)"
  shows "\<exists>b' qs'. topic_step tpq tc (b, qs) = Some (b', qs') \<and> bank_ok b'
           \<and> int (length qs') = int (length qs) + (get0 (easy tc) + get0 (medium tc) + get0 (hard tc))"
proof -
  define tt where "tt = (case b (topic tc) of None \<Rightarrow> base_templates (topic tc) | Some p \<Rightarrow> p)"
  have ok: "pools_ok tt"
    using assms(1) base_templates_ok by (auto simp: tt_def bank_ok_def split: option.splits)
  obtain tt1 qs1 where s1: "difficulty_step (topic tc) tpq ''easy'' (get0 (easy tc)) (tt, qs) = Some (tt1, qs1)"
      "pools_ok tt1" "int (length qs1) = int (length qs) + get0 (easy tc)"
    using difficulty_step_total [OF ok assms(2)] by blast
  obtain tt2 qs2 where s2: "difficulty_step (topic tc) tpq ''medium'' (get0 (medium tc)) (tt1, qs1) = Some (tt2, qs2)"
      "pools_ok tt2" "int (length qs2) = int (length qs1) + get0 (medium tc)"
    using difficulty_step_total [OF s1(2) assms(3)] by blast
  obtain tt3 qs3 where s3: "difficulty_step (topic tc) tpq ''hard'' (get0 (hard tc)) (tt2, qs2) = Some (tt3, qs3)"
      "pools_ok tt3" "int (length qs3) = int (length qs2) + get0 (hard tc)"
    using difficulty_step_total [OF s2(2) assms(4)] by blast
  have "bank_ok (case b (topic tc) of None \<Rightarrow> b | Some _ \<Rightarrow> b(topic tc \<mapsto> tt3))"
    using assms(1) s3(2) by (auto simp: bank_ok_def split: option.splits)
  then show ?thesis
    using s1 s2 s3 by (simp add: topic_step_def tt_def [symmetric])
qed

lemma topics_loop_total:
  assumes "bank_ok b"
    "\<forall>tc \<in> set tcs. 0 \<le> get0 (easy tc) \<and> 0 \<le> get0 (medium tc) \<and> 0 \<le> get0 (hard tc)"
  shows "\<exists>b' qs'. topics_loop tpq tcs (b, qs) = Some (b', qs')
           \<and> int (length qs') = int (length qs) + requested_total tcs"
  using assms
proof (induction tcs arbitrary: b qs)
  case Nil
  then show ?case by (simp add: requested_total_def)
next
  case (Cons tc tcs)
  obtain b1 qs1 where s: "topic_step tpq tc (b, qs) = Some (b1, qs1)" "bank_ok b1"
      "int (length qs1) = int (length qs) + (get0 (easy tc) + get0 (medium tc) + get0 (hard tc))"
    using topic_step_total [of b tc tpq qs] Cons.prems by auto
  obtain b' qs' where r: "topics_loop tpq tcs (b1, qs1) = Some (b', qs')"
      "int (length qs') = int (length qs1) + requested_total tcs"
    using Cons.IH [OF s(2), of qs1] Cons.prems(2) by auto
  show ?case using s r by (simp add: requested_total_def)
qed

lemma bank_pools_nonempty:
  "bank_logical_reasoning_easy \<noteq> []"
  "bank_logical_reasoning_medium \<noteq> []"
  "bank_logical_reasoning_hard \<noteq> []"
  "bank_quantitative_aptitude_easy \<noteq> []"
  "bank_quantitative_aptitude_medium \<noteq> []"
  "bank_quantitative_aptitude_hard \<noteq> []"
  "bank_verbal_reasoning_easy \<noteq> []"
  "bank_verbal_reasoning_medium \<noteq> []"
  "bank_verbal_reasoning_hard \<noteq> []"
  by (simp_all add: bank_logical_reasoning_easy_def
      bank_logical_reasoning_medium_def
      bank_logical_reasoning_hard_def
      bank_quantitative_aptitude_easy_def
      bank_quantitative_aptitude_medium_def
      bank_quantitative_aptitude_hard_def
      bank_verbal_reasoning_easy_def
      bank_verbal_reasoning_medium_def
      bank_verbal_reasoning_hard_def)

lemma fallback_templates_ok: "bank_ok fallback_templates"
  unfolding bank_ok_def pools_ok_def fallback_templates_def
  by (auto simp: bank_pools_nonempty split: if_splits)

lemma module_bank_pools_nonempty:
  "module_bank_logical_reasoning_easy \<noteq> []"
  "module_bank_logical_reasoning_medium \<noteq> []"
  "module_bank_logical_reasoning_hard \<noteq> []"
  "module_bank_quantitative_aptitude_easy \<noteq> []"
  "module_bank_quantitative_aptitude_medium \<noteq> []"
  "module_bank_quantitative_aptitude_hard \<noteq> []"
  "module_bank_verbal_reasoning_easy \<noteq> []"
  "module_bank_verbal_reasoning_medium \<noteq> []"
  "module_bank_verbal_reasoning_hard \<noteq> []"
  by (simp_all add: module_bank_logical_reasoning_easy_def
      module_bank_logical_reasoning_medium_def
      module_bank_logical_reasoning_hard_def
      module_bank_quantitative_aptitude_easy_def
      module_bank_quantitative_aptitude_medium_def
      module_bank_quantitative_aptitude_hard_def
      module_bank_verbal_reasoning_easy_def
      module_bank_verbal_reasoning_medium_def
      module_bank_verbal_reasoning_hard_def)

lemma module_fallback_templates_ok: "bank_ok module_fallback_templates"
  unfolding bank_ok_def pools_ok_def module_fallback_templates_def
  by (auto simp: module_bank_pools_nonempty split: if_splits)

lemma compose_fallback_total:
  assumes "bank_ok b"
    "\<forall>tc \<in> set tcs. 0 \<le> get0 (easy tc) \<and> 0 \<le> get0 (medium tc) \<and> 0 \<le> get0 (hard tc)"
  shows "\<exists>qs. compose_fallback b tcs tpq job =
           Some (JObj [(''success'', JBool True),
                       (''questions'', JArr qs),
                       (''total_questions'', JNum (int (length qs))),
                       (''metadata'', JObj [(''generated_by'', JStr ''fallback_templates''),
                                            (''type'', JStr ''aptitude_fallback'')])])
         \<and> int (length qs) = requested_total tcs"
proof -
  obtain b' qs where "topics_loop tpq tcs (b, []) = Some (b', qs)"
      "int (length qs) = int (length ([] :: json list)) + requested_total tcs"
    using topics_loop_total [OF assms, of tpq "[]"] by blast
  then show ?thesis by (simp add: compose_fallback_def)
qed

text \<open>
  C3. For every list of topic configurations whose easy, medium and hard counts are non-negative
  (an absent cnt is 0), \<^verbatim>\<open>_get_fallback_aptitude_questions\<close> returns (its extension loop
  ends), the result has \<^verbatim>\<open>success = True\<close>, and its question list has exactly as many entries
  as the sum of all requested counts; \<^verbatim>\<open>total_questions\<close> is that number. This holds for
  the method of the class and for the copy in \<^verbatim>\<open>aptitude_fallback.py\<close>, for topics the table
  does not know and for counts larger than the pool.
\<close>

theorem fallback_exact_count:
  assumes "\<forall>tc \<in> set topic_configs.
             0 \<le> get0 (easy tc) \<and> 0 \<le> get0 (medium tc) \<and> 0 \<le> get0 (hard tc)"
  shows "(\<exists>qs. get_fallback_aptitude_questions topic_configs time_per_question job_title =
             Some (JObj [(''success'', JBool True),
                         (''questions'', JArr qs),
                         (''total_questions'', JNum (int (length qs))),
                         (''metadata'', JObj [(''generated_by'', JStr ''fallback_templates''),
                                              (''type'', JStr ''aptitude_fallback'')])])
           \<and> int (length qs) = requested_total topic_configs)
       \<and> (\<exists>qs. module_get_fallback_aptitude_questions topic_configs time_per_question job_title =
             Some (JObj [(''success'', JBool True),
                         (''questions'', JArr qs),
                         (''total_questions'', JNum (int (length qs))),
                         (''metadata'', JObj [(''generated_by'', JStr ''fallback_templates''),
                                              (''type'', JStr ''aptitude_fallback'')])])
           \<and> int (length qs) = requested_total topic_configs)"
  unfolding get_fallback_aptitude_questions_def module_get_fallback_aptitude_questions_def
  using compose_fallback_total [OF fallback_templates_ok assms]
    compose_fallback_total [OF module_fallback_templates_ok assms]
  by simp

theorem fallback_exact_count_witness:
  "(\<exists>qs. get_fallback_aptitude_questions
            [\<lparr>topic = ''logical_reasoning'', easy = None, medium = None, hard = Some 5, total = None\<rparr>,
             \<lparr>topic = ''astro_logy'', easy = Some 0, medium = Some 3, hard = None, total = None\<rparr>]
            60 ''Software Developer'' =
          Some (JObj [(''success'', JBool True),
                      (''questions'', JArr qs),
                      (''total_questions'', JNum (int (length qs))),
                      (''metadata'', JObj [(''generated_by'', JStr ''fallback_templates''),
                                           (''type'', JStr ''aptitude_fallback'')])])
        \<and> int (length qs) = 8)
   \<and> (\<exists>qs. module_get_fallback_aptitude_questions
            [\<lparr>topic = ''logical_reasoning'', easy = None, medium = None, hard = Some 5, total = None\<rparr>,
             \<lparr>topic = ''astro_logy'', easy = Some 0, medium = Some 3, hard = None, total = None\<rparr>]
            60 ''Software Developer'' =
          Some (JObj [(''success'', JBool True),
                      (''questions'', JArr qs),
                      (''total_questions'', JNum (int (length qs))),
                      (''metadata'', JObj [(''generated_by'', JStr ''fallback_templates''),
                                           (''type'', JStr ''aptitude_fallback'')])])
        \<and> int (length qs) = 8)"
  using fallback_exact_count
    [of "[\<lparr>topic = ''logical_reasoning'', easy = None, medium = None, hard = Some 5, total = None\<rparr>,
          \<lparr>topic = ''astro_logy'', easy = Some 0, medium = Some 3, hard = None, total = None\<rparr>]"
        60 "''Software Developer''"]
  by (simp add: get0_def requested_total_def)

section \<open>Properties of the rate-limit handling\<close>

lemma upt_0_2: "[0..<2] = [0, Suc 0]"
  by (simp add: upt_rec numeral_2_eq_2)

lemma rotate_api_key_index:
  assumes "current_key_index g < length (api_keys g)"
  shows "current_key_index (snd (rotate_api_key g)) < length (api_keys g)"
proof (cases "length (api_keys g) \<le> 1")
  case True
  then show ?thesis using assms by (simp add: rotate_api_key_def)
next
  case False
  then have "0 < length (api_keys g)" by linarith
  then have "Suc (current_key_index g) mod length (api_keys g) < length (api_keys g)"
    by (rule mod_less_divisor)
  then show ?thesis using False by (simp add: rotate_api_key_def)
qed

lemma rotate_times_full:
  assumes "current_key_index g < length (api_keys g)"
  shows "rotate_times (length (api_keys g)) g = g"
proof (cases "2 \<le> length (api_keys g)")
  case True
  then show ?thesis using assms rotate_times_index [of g "length (api_keys g)"] by simp
next
  case False
  then have "length (api_keys g) = 1" using assms by simp
  then show ?thesis by (simp add: rotate_api_key_def)
qed

lemma retry_loop_all_429:
  assumes "\<And>n. \<exists>c. provider e n = PostResponse 429 c"
  shows "\<exists>c. retry_loop e p key 2 [0..<2] resp g w =
           (Inr (Some (429, c)), snd (rotate_api_key g),
            w\<lparr>calls := calls w + 2, trace := trace w @ [Post key p, Sleep 5, Post key p]\<rparr>)"
proof -
  obtain c1 where c1: "provider e (calls w) = PostResponse 429 c1" using assms by blast
  obtain c2 where c2: "provider e (Suc (calls w)) = PostResponse 429 c2" using assms by blast
  show ?thesis by (simp add: upt_0_2 post_def sleep_def c1 c2)
qed

lemma key_loop_all_429:
  assumes "\<And>n. \<exists>c. provider e n = PostResponse 429 c"
    and "current_key_index g < length (api_keys g)"
    and "ks \<noteq> [] \<or> (\<exists>c. resp = Some (429, c))"
  shows "\<exists>c w'. key_loop e p ks resp g w = (Inr (Some (429, c)), rotate_times (length ks) g, w')
           \<and> calls w' = calls w + 2 * length ks
           \<and> filter (\<lambda>ev. \<not> is_post ev) (trace w')
               = filter (\<lambda>ev. \<not> is_post ev) (trace w) @ replicate (length ks) (Sleep 5)"
  using assms(2,3)
proof (induction ks arbitrary: resp g w)
  case Nil
  then show ?case by auto
next
  case (Cons k ks)
  let ?g' = "snd (rotate_api_key g)"
  let ?key = "Some (api_keys g ! current_key_index g)"
  let ?w' = "w\<lparr>calls := calls w + 2, trace := trace w @ [Post ?key p, Sleep 5, Post ?key p]\<rparr>"
  have key: "get_current_api_key g = Inr ?key"
    using Cons.prems(1) by (auto simp: get_current_api_key_def)
  obtain c where r: "retry_loop e p ?key 2 [0..<2] resp g w = (Inr (Some (429, c)), ?g', ?w')"
    using retry_loop_all_429 [OF assms(1)] by blast
  have idx: "current_key_index ?g' < length (api_keys ?g')"
    using Cons.prems(1) by (simp add: rotate_api_key_index rotate_api_key_keys)
  from Cons.IH [OF idx, of "Some (429, c)" ?w']
  obtain c' w' where
    k: "key_loop e p ks (Some (429, c)) ?g' ?w' = (Inr (Some (429, c')), rotate_times (length ks) ?g', w')"
    and n: "calls w' = calls ?w' + 2 * length ks"
    and t: "filter (\<lambda>ev. \<not> is_post ev) (trace w')
              = filter (\<lambda>ev. \<not> is_post ev) (trace ?w') @ replicate (length ks) (Sleep 5)"
    by blast
  have "key_loop e p (k # ks) resp g w = key_loop e p ks (Some (429, c)) ?g' ?w'"
    by (simp add: key r)
  also have "\<dots> = (Inr (Some (429, c')), rotate_times (length ks) ?g', w')"
    by (rule k)
  finally have "key_loop e p (k # ks) resp g w
      = (Inr (Some (429, c')), rotate_times (length (k # ks)) g, w')"
    by simp
  moreover have "calls w' = calls w + 2 * length (k # ks)" using n by simp
  moreover have "filter (\<lambda>ev. \<not> is_post ev) (trace w')
      = filter (\<lambda>ev. \<not> is_post ev) (trace w) @ replicate (length (k # ks)) (Sleep 5)"
    using t by simp
  ultimately show ?case by blast
qed

lemma missing_questions_nonneg:
  "\<forall>tc \<in> set (calculate_missing_questions tcs existing).
     0 \<le> get0 (easy tc) \<and> 0 \<le> get0 (medium tc) \<and> 0 \<le> get0 (hard tc)"
  by (auto simp: calculate_missing_questions_def calculate_missing_loop_eq missing_config_of_def
      Let_def get0_def)

lemma sum_totals_missing:
  "\<exists>n. sum_totals (calculate_missing_questions tcs existing) = Inr n"
proof -
  have "\<exists>n. sum_totals (filter P (map (missing_config_of existing) tcs)) = Inr n" for P
    by (induction tcs) (auto simp: missing_config_of_def Let_def)
  then show ?thesis by (simp add: calculate_missing_questions_def calculate_missing_loop_eq)
qed

text \<open>
  A provider that answers every request with status 429, any number of credentials: the single
  call of \<^verbatim>\<open>generate_aptitude_questions_by_topic\<close> sends two requests per credential, sleeps
  5 seconds once per credential and at no other time, leaves the generator as it found it, and
  returns the template fallback for the missing work.
\<close>

lemma all_rate_limited_falls_back:
  assumes "\<And>n. \<exists>c. provider e n = PostResponse 429 c"
    and "api_keys g \<noteq> []"
    and "current_key_index g < length (api_keys g)"
    and "sum_totals tcs = Inr total_questions"
    and "calculate_missing_questions tcs (check_existing_questions e tcs) \<noteq> []"
    and "sum_totals (calculate_missing_questions tcs (check_existing_questions e tcs)) = Inr n"
    and "n \<le> 30"
  shows "\<exists>qs w'. generate_aptitude_questions_by_topic e tcs t j g w =
           Some (Inr (JObj [(''success'', JBool True),
                            (''questions'', JArr qs),
                            (''total_questions'', JNum (int (length qs))),
                            (''metadata'', JObj [(''generated_by'', JStr ''fallback_templates''),
                                                 (''type'', JStr ''aptitude_fallback'')])]),
                 g, w')
         \<and> calls w' = calls w + 2 * length (api_keys g)
         \<and> filter (\<lambda>ev. \<not> is_post ev) (trace w')
             = filter (\<lambda>ev. \<not> is_post ev) (trace w) @ replicate (length (api_keys g)) (Sleep 5)"
proof -
  let ?m = "calculate_missing_questions tcs (check_existing_questions e tcs)"
  have ks: "[0..<length (api_keys g)] \<noteq> [] \<or> (\<exists>c. None = Some (429, c))"
    using assms(2) by simp
  from key_loop_all_429 [OF assms(1) assms(3) ks, of "TopicPrompt ?m n" w]
  obtain c w' where
    k: "key_loop e (TopicPrompt ?m n) [0..<length (api_keys g)] None g w
          = (Inr (Some (429, c)), rotate_times (length (api_keys g)) g, w')"
    and c: "calls w' = calls w + 2 * length (api_keys g)"
    and tr: "filter (\<lambda>ev. \<not> is_post ev) (trace w')
             = filter (\<lambda>ev. \<not> is_post ev) (trace w) @ replicate (length (api_keys g)) (Sleep 5)"
    by auto
  from compose_fallback_total [OF fallback_templates_ok missing_questions_nonneg, of tcs "check_existing_questions e tcs" t j]
  obtain qs where f: "get_fallback_aptitude_questions ?m t j =
      Some (JObj [(''success'', JBool True),
                  (''questions'', JArr qs),
                  (''total_questions'', JNum (int (length qs))),
                  (''metadata'', JObj [(''generated_by'', JStr ''fallback_templates''),
                                       (''type'', JStr ''aptitude_fallback'')])])"
    unfolding get_fallback_aptitude_questions_def by blast
  have "generate_aptitude_questions_by_topic e tcs t j g w =
          Some (Inr (JObj [(''success'', JBool True),
                            (''questions'', JArr qs),
                            (''total_questions'', JNum (int (length qs))),
                            (''metadata'', JObj [(''generated_by'', JStr ''fallback_templates''),
                                                 (''type'', JStr ''aptitude_fallback'')])]),
                 g, w')"
    using assms(2,4,5,6,7)
    by (simp add: generate_aptitude_questions_by_topic_def Let_def single_call_def k f
        rotate_times_full [OF assms(3)])
  then show ?thesis using c tr by blast
qed

lemma by_topic_all_429_one_key:
  "generate_aptitude_questions_by_topic always_429 three_easy 60 ''Software Developer'' one_key fresh
   = map_option
       (\<lambda>r. (Inr r, one_key,
             \<lparr>calls = 2,
              trace = [Post (Some ''gsk_a'') (TopicPrompt three_easy 3),
                       Sleep 5,
                       Post (Some ''gsk_a'') (TopicPrompt three_easy 3)]\<rparr>))
       (get_fallback_aptitude_questions three_easy 60 ''Software Developer'')"
  by (simp add: generate_aptitude_questions_by_topic_def always_429_def calculate_missing_questions_def
      missing_config_of_def existing_for_def get0_def Let_def single_call_def upt_0_2 three_easy_def
      one_key_def fresh_def get_current_api_key_def post_def sleep_def rotate_api_key_def
      eval_nat_numeral)

lemma by_topic_all_429_two_keys:
  "generate_aptitude_questions_by_topic always_429 three_easy 60 ''Software Developer'' two_keys fresh
   = map_option
       (\<lambda>r. (Inr r, two_keys,
             \<lparr>calls = 4,
              trace = [Post (Some ''gsk_a'') (TopicPrompt three_easy 3),
                       Sleep 5,
                       Post (Some ''gsk_a'') (TopicPrompt three_easy 3),
                       Post (Some ''gsk_b'') (TopicPrompt three_easy 3),
                       Sleep 5,
                       Post (Some ''gsk_b'') (TopicPrompt three_easy 3)]\<rparr>))
       (get_fallback_aptitude_questions three_easy 60 ''Software Developer'')"
  by (simp add: generate_aptitude_questions_by_topic_def always_429_def calculate_missing_questions_def
      missing_config_of_def existing_for_def get0_def Let_def single_call_def upt_0_2 three_easy_def
      two_keys_def fresh_def get_current_api_key_def post_def sleep_def rotate_api_key_def
      eval_nat_numeral)

lemma fallback_three_easy:
  "\<exists>qs. get_fallback_aptitude_questions three_easy 60 ''Software Developer'' =
          Some (JObj [(''success'', JBool True),
                      (''questions'', JArr qs),
                      (''total_questions'', JNum (int (length qs))),
                      (''metadata'', JObj [(''generated_by'', JStr ''fallback_templates''),
                                           (''type'', JStr ''aptitude_fallback'')])])"
proof -
  have "\<forall>tc \<in> set three_easy. 0 \<le> get0 (easy tc) \<and> 0 \<le> get0 (medium tc) \<and> 0 \<le> get0 (hard tc)"
    by (simp add: three_easy_def get0_def)
  from compose_fallback_total [OF fallback_templates_ok this, of 60 "''Software Developer''"]
  show ?thesis unfolding get_fallback_aptitude_questions_def by blast
qed

text \<open>
  C4, at the input where the code and the claim part. The provider answers every request with
  status 429. With one credential the function sends two requests with that credential, sleeps
  once, for 5 seconds, between them, and returns the template fallback; with two credentials it
  does the same for each credential in turn (the index ends where it started). The result carries
  the generator tag \<^verbatim>\<open>fallback_templates\<close>. A credential is tried twice, not three times, and
  no sleep of 10 seconds occurs.
\<close>

theorem rate_limited_on_every_credential:
  "(\<exists>qs. generate_aptitude_questions_by_topic always_429 three_easy 60 ''Software Developer''
            one_key fresh
          = Some (Inr (JObj [(''success'', JBool True),
                             (''questions'', JArr qs),
                             (''total_questions'', JNum (int (length qs))),
                             (''metadata'', JObj [(''generated_by'', JStr ''fallback_templates''),
                                                  (''type'', JStr ''aptitude_fallback'')])]),
                  one_key,
                  \<lparr>calls = 2,
                   trace = [Post (Some ''gsk_a'') (TopicPrompt three_easy 3),
                            Sleep 5,
                            Post (Some ''gsk_a'') (TopicPrompt three_easy 3)]\<rparr>))
   \<and> (\<exists>qs. generate_aptitude_questions_by_topic always_429 three_easy 60 ''Software Developer''
            two_keys fresh
          = Some (Inr (JObj [(''success'', JBool True),
                             (''questions'', JArr qs),
                             (''total_questions'', JNum (int (length qs))),
                             (''metadata'', JObj [(''generated_by'', JStr ''fallback_templates''),
                                                  (''type'', JStr ''aptitude_fallback'')])]),
                  two_keys,
                  \<lparr>calls = 4,
                   trace = [Post (Some ''gsk_a'') (TopicPrompt three_easy 3),
                            Sleep 5,
                            Post (Some ''gsk_a'') (TopicPrompt three_easy 3),
                            Post (Some ''gsk_b'') (TopicPrompt three_easy 3),
                            Sleep 5,
                            Post (Some ''gsk_b'') (TopicPrompt three_easy 3)]\<rparr>))"
  using fallback_three_easy
  by (auto simp: by_topic_all_429_one_key by_topic_all_429_two_keys)

section \<open>Properties of the sub-batch planner\<close>

lemma range_step_3: "range_step 3 2 = [0, 2]"
  by (simp add: range_step_def upt_rec)

lemma in_batches_three:
  assumes "length tcs = 3"
  shows "generate_aptitude_in_batches e tcs t j g w =
     (case generate_single_batch e (take 2 tcs) t j g w of
        (Inl ex, g1, w1) \<Rightarrow> (Inl ex, g1, w1)
      | (Inr r1, g1, w1) \<Rightarrow>
         (case generate_single_batch e (drop 2 tcs) t j g1 (sleep 3 w1) of
            (Inl ex, g2, w2) \<Rightarrow> (Inl ex, g2, w2)
          | (Inr r2, g2, w2) \<Rightarrow>
              if batch_contribution r1 @ batch_contribution r2 \<noteq> []
              then (Inr (ai_result (JArr (batch_contribution r1 @ batch_contribution r2))
                           (length (batch_contribution r1 @ batch_contribution r2)) ''groq_ai_batched''),
                    g2, w2)
              else (Inr all_batches_failed_result, g2, w2)))"
proof -
  have d: "take 2 (drop 2 tcs) = drop 2 tcs" using assms by simp
  have r: "range_step (length tcs) 2 = [0, 2]" using assms by (simp add: range_step_3)
  show ?thesis
    unfolding generate_aptitude_in_batches_def r
    using assms by (simp add: Let_def d split: prod.splits sum.splits)
qed

lemma first_batch_fails:
  "generate_single_batch first_fails_env (take 2 three_topics_45) 60 ''Software Developer'' one_key fresh
   = (Inr failed_batch, one_key,
      \<lparr>calls = Suc 0, trace = [Post (Some ''gsk_a'') (BatchPrompt (take 2 three_topics_45) 30)]\<rparr>)"
  by (simp add: three_topics_45_def generate_single_batch_def first_fails_env_def one_key_def fresh_def
      get_current_api_key_def post_def)

lemma second_batch_succeeds:
  "generate_single_batch first_fails_env (drop 2 three_topics_45) 60 ''Software Developer'' one_key
     (sleep 3 \<lparr>calls = Suc 0, trace = [Post (Some ''gsk_a'') (BatchPrompt (take 2 three_topics_45) 30)]\<rparr>)
   = (Inr (JObj [(''success'', JBool True), (''questions'', JArr [JStr ''q1'', JStr ''q2'']),
                 (''total_questions'', JNum 2)]),
      one_key,
      \<lparr>calls = 2, trace = [Post (Some ''gsk_a'') (BatchPrompt (take 2 three_topics_45) 30), Sleep 3,
                            Post (Some ''gsk_a'') (BatchPrompt (drop 2 three_topics_45) 15)]\<rparr>)"
  by (simp add: three_topics_45_def generate_single_batch_def first_fails_env_def one_key_def
      get_current_api_key_def post_def sleep_def validate_count_def)

lemma batch_contribution_failed: "batch_contribution failed_batch = []"
  by (simp add: batch_contribution_def failed_batch_def dict_get_def)

lemma batch_contribution_success:
  "batch_contribution (JObj [(''success'', JBool True), (''questions'', JArr xs), (''total_questions'', n)]) = xs"
  by (simp add: batch_contribution_def dict_get_def)

lemma in_batches_45:
  "generate_aptitude_in_batches first_fails_env three_topics_45 60 ''Software Developer'' one_key fresh
   = (Inr (ai_result (JArr [JStr ''q1'', JStr ''q2'']) 2 ''groq_ai_batched''), one_key,
      \<lparr>calls = 2, trace = [Post (Some ''gsk_a'') (BatchPrompt (take 2 three_topics_45) 30), Sleep 3,
                            Post (Some ''gsk_a'') (BatchPrompt (drop 2 three_topics_45) 15)]\<rparr>)"
proof -
  have len: "length three_topics_45 = 3" by (simp add: three_topics_45_def)
  show ?thesis
    apply (subst in_batches_three [OF len])
    apply (simp only: first_batch_fails prod.case sum.case)
    apply (simp only: second_batch_succeeds prod.case sum.case batch_contribution_failed
        batch_contribution_success)
    apply (simp add: numeral_2_eq_2)
    done
qed

text \<open>
  C6 as stated fails: on a missing-work list of 45 questions over three topics the planner sends
  two sub-batch requests, not three.
\<close>

theorem three_sub_batches_counterexample:
  "\<not> length (filter is_post (trace (snd (snd
        (generate_aptitude_in_batches first_fails_env three_topics_45 60 ''Software Developer''
           one_key fresh))))) = 3"
  by (simp add: in_batches_45)

text \<open>
  C6, amended. A missing-work list of three topics is processed in exactly two sub-batches, the
  first two topics and then the third (so at most two topics each, together the whole list, in
  order); \<^verbatim>\<open>time.sleep(3)\<close> runs once, between them; the output is built from the questions of
  the first sub-batch followed by those of the second, where a failed sub-batch contributes none
  and stops nothing, and the output is the successful batched result exactly when at least one
  question was contributed (the all-batches-failed error otherwise).
\<close>

theorem two_sub_batches_for_three_topics:
  assumes "length topic_configs = 3"
  shows "generate_aptitude_in_batches e topic_configs time_per_question job_title g w =
     (case generate_single_batch e (take 2 topic_configs) time_per_question job_title g w of
        (Inl ex, g1, w1) \<Rightarrow> (Inl ex, g1, w1)
      | (Inr r1, g1, w1) \<Rightarrow>
         (case generate_single_batch e (drop 2 topic_configs) time_per_question job_title g1
                 (sleep 3 w1) of
            (Inl ex, g2, w2) \<Rightarrow> (Inl ex, g2, w2)
          | (Inr r2, g2, w2) \<Rightarrow>
              if batch_contribution r1 @ batch_contribution r2 \<noteq> []
              then (Inr (ai_result (JArr (batch_contribution r1 @ batch_contribution r2))
                           (length (batch_contribution r1 @ batch_contribution r2))
                           ''groq_ai_batched''),
                    g2, w2)
              else (Inr all_batches_failed_result, g2, w2)))
     \<and> length (take 2 topic_configs) = 2 \<and> length (drop 2 topic_configs) = 1
     \<and> take 2 topic_configs @ drop 2 topic_configs = topic_configs
     \<and> batch_contribution failed_batch = []"
  using in_batches_three [OF assms] assms batch_contribution_failed by simp

theorem two_sub_batches_for_three_topics_witness:
  "generate_aptitude_in_batches first_fails_env three_topics_45 60 ''Software Developer'' one_key fresh
   = (Inr (ai_result (JArr [JStr ''q1'', JStr ''q2'']) 2 ''groq_ai_batched''), one_key,
      \<lparr>calls = 2, trace = [Post (Some ''gsk_a'') (BatchPrompt (take 2 three_topics_45) 30), Sleep 3,
                            Post (Some ''gsk_a'') (BatchPrompt (drop 2 three_topics_45) 15)]\<rparr>)
   \<and> sum_totals three_topics_45 = Inr 45"
proof -
  have len: "length three_topics_45 = 3" by (simp add: three_topics_45_def)
  have tot: "sum_totals three_topics_45 = Inr 45" by (simp add: three_topics_45_def)
  show ?thesis
    apply (subst conjunct1 [OF two_sub_batches_for_three_topics [OF len]])
    apply (simp only: first_batch_fails prod.case sum.case)
    apply (simp only: second_batch_succeeds prod.case sum.case batch_contribution_failed
        batch_contribution_success)
    apply (simp add: numeral_2_eq_2 tot)
    done
qed

section \<open>Properties of the cardinality validation\<close>

lemma slice_to_take: "0 \<le> n \<Longrightarrow> slice_to xs n = take (nat n) xs"
  by (simp add: slice_to_def)

text \<open>
  The single call and the sub-batch of the by-topic path do trim: a list under
  \<^verbatim>\<open>'questions'\<close> comes back as its first \<open>n\<close> items, in order, and is never made longer.
\<close>

lemma validate_count_trims:
  assumes "map_of kvs ''questions'' = Some (JArr xs)" "0 \<le> n"
  shows "validate_count (JObj kvs) n = Inr (JArr (take (nat n) xs), min (length xs) (nat n))"
proof (cases "int (length xs) > n")
  case True
  then show ?thesis using assms by (simp add: validate_count_def slice_to_take min_def)
next
  case False
  then have le: "length xs \<le> nat n" using assms(2) by linarith
  then have "take (nat n) xs = xs" by simp
  then show ?thesis using assms False le by (simp add: validate_count_def min_def)
qed

lemma handle_ok_response_trims:
  assumes "py_strip text \<noteq> []"
    and "json_loads e (py_strip (clean_code_fences (py_strip text))) = Inr (JObj kvs)"
    and "map_of kvs ''questions'' = Some (JArr xs)"
    and "0 \<le> n"
  shows "handle_ok_response e (Inr text) n
           = ai_result (JArr (take (nat n) xs)) (min (length xs) (nat n)) ''groq_ai_single''"
  using assms(1,2)
  by (simp add: handle_ok_response_def Let_def validate_count_trims [OF assms(3,4)])

lemma generate_single_batch_trims:
  assumes "sum_totals tcs = Inr n" "0 \<le> n"
    and "get_current_api_key g = Inr key"
    and "provider e (calls w) = PostResponse 200 (Inr text)"
    and "json_loads e (py_strip (clean_code_fences (py_strip text))) = Inr (JObj kvs)"
    and "map_of kvs ''questions'' = Some (JArr xs)"
  shows "fst (generate_single_batch e tcs t j g w)
           = Inr (JObj [(''success'', JBool True),
                        (''questions'', JArr (take (nat n) xs)),
                        (''total_questions'', JNum (int (min (length xs) (nat n))))])"
  using assms(1,3,4,5)
  by (simp add: generate_single_batch_def post_def validate_count_trims [OF assms(6,2)])

text \<open>
  C2, at the inputs where the code and the claim part. One question is requested and the
  provider's payload holds two. \<^verbatim>\<open>generate_aptitude_questions_by_difficulty\<close> returns
  \<^verbatim>\<open>success = True\<close> with both questions, and \<^verbatim>\<open>_batch_generate_reading_questions\<close>
  returns both passages: neither trims to the requested total.
\<close>

theorem untrimmed_generation_paths:
  "generate_aptitude_questions_by_difficulty two_questions_env [''logical_reasoning'']
       [\<lparr>level = Some ''easy'', count = Some 1\<rparr>] 60 ''Software Developer'' one_key fresh
     = Some (Inr (JObj [(''success'', JBool True), (''questions'', JArr [JStr ''q1'', JStr ''q2''])]),
             \<lparr>calls = 1, trace = [Post (Some ''gsk_a'') (DifficultyPrompt 1)]\<rparr>)
   \<and> batch_generate_reading_questions two_passages_env one_easy ''Software Developer'' one_key fresh
     = ([reading_question ''Reading Assessment - Easy Level'' (JStr ''p1'') ''easy'' 120
           ''Read the paragraph aloud at a natural pace. Focus on clear pronunciation and proper intonation.'',
         reading_question ''Reading Assessment - Easy Level'' (JStr ''p2'') ''easy'' 120
           ''Read the paragraph aloud at a natural pace. Focus on clear pronunciation and proper intonation.''],
        \<lparr>calls = 1, trace = [Post (Some ''gsk_a'') (ReadingBatchPrompt 1)]\<rparr>)"
proof -
  have t: "py_title ''easy'' = ''Easy''"
    by code_simp
  have a: "generate_aptitude_questions_by_difficulty two_questions_env [''logical_reasoning'']
       [\<lparr>level = Some ''easy'', count = Some 1\<rparr>] 60 ''Software Developer'' one_key fresh
     = Some (Inr (JObj [(''success'', JBool True), (''questions'', JArr [JStr ''q1'', JStr ''q2''])]),
             \<lparr>calls = 1, trace = [Post (Some ''gsk_a'') (DifficultyPrompt 1)]\<rparr>)"
    by (simp add: generate_aptitude_questions_by_difficulty_def two_questions_env_def one_key_def
        fresh_def get_current_api_key_def post_def untrimmed_success_def dict_merge_def dict_set_def
        Let_def)
  have b: "batch_generate_reading_questions two_passages_env one_easy ''Software Developer'' one_key fresh
     = ([reading_question ''Reading Assessment - Easy Level'' (JStr ''p1'') ''easy'' 120
           ''Read the paragraph aloud at a natural pace. Focus on clear pronunciation and proper intonation.'',
         reading_question ''Reading Assessment - Easy Level'' (JStr ''p2'') ''easy'' 120
           ''Read the paragraph aloud at a natural pace. Focus on clear pronunciation and proper intonation.''],
        \<lparr>calls = 1, trace = [Post (Some ''gsk_a'') (ReadingBatchPrompt 1)]\<rparr>)"
    by (simp add: batch_generate_reading_questions_def batch_request_def two_passages_env_def
        one_easy_def one_key_def fresh_def cfg_total_def get0_def get_current_api_key_def post_def
        time_limit_long_def t)
  show ?thesis using a b by (rule conjI)
qed

section \<open>Properties of the handling of malformed responses\<close>

lemma error_result_success: "dict_get (error_result q b c d ty) ''success'' = Some (JBool False)"
  by (simp add: error_result_def dict_get_def)


lemma compose_fallback_success:
  "compose_fallback b tcs t j = Some r \<Longrightarrow> dict_get r ''success'' = Some (JBool True)"
  by (auto simp: compose_fallback_def dict_get_def split: option.splits)

lemma fallback_success:
  "get_fallback_aptitude_questions tcs t j = Some r \<Longrightarrow> dict_get r ''success'' = Some (JBool True)"
  unfolding get_fallback_aptitude_questions_def by (rule compose_fallback_success)

lemma batch_request_falls_back:
  assumes "get_current_api_key g = Inr key"
    "provider e (calls w) = PostRaises m
     \<or> (provider e (calls w) = PostRaises m
            \<or> provider e (calls w) = PostResponse status raw
               \<and> (status \<noteq> 200
                   \<or> (\<exists>text msg. raw = Inr text \<and> json_loads e (py_strip text) = Inl msg)))"
  shows "batch_request e p item templates g w
         = (templates, w\<lparr>calls := calls w + 1, trace := trace w @ [Post key p]\<rparr>)"
  using assms by (auto simp: batch_request_def post_def)

text \<open>
  Whitespace outside ASCII is stripped like the rest: a payload that ends in U+2028 after its
  closing brace is a parse error and not a truncation, a payload of U+00A0 alone is an empty
  response, and a payload wrapped in U+00A0 and U+2028 reaches the parser without them.
\<close>

lemma strip_unicode_whitespace:
  "py_strip ([CHR 0xC2, CHR 0xA0] @ ''{}'' @ [CHR 0xE2, CHR 0x80, CHR 0xA8]) = ''{}''"
  "py_strip [CHR 0xC2, CHR 0xA0] = []"
  "handle_ok_response always_429 (Inr (''{a: }'' @ [CHR 0xE2, CHR 0x80, CHR 0xA8])) 3
     = parse_error_result ''Expecting value''"
  "handle_ok_response always_429 (Inr [CHR 0xC2, CHR 0xA0]) 3 = empty_response_result"
proof -
  show a: "py_strip ([CHR 0xC2, CHR 0xA0] @ ''{}'' @ [CHR 0xE2, CHR 0x80, CHR 0xA8]) = ''{}''"
    by code_simp
  show b: "py_strip [CHR 0xC2, CHR 0xA0] = []"
    by code_simp
  have c: "py_strip (''{a: }'' @ [CHR 0xE2, CHR 0x80, CHR 0xA8]) = ''{a: }''"
    "clean_code_fences ''{a: }'' = ''{a: }''" "py_strip ''{a: }'' = ''{a: }''"
    "endswith ''{a: }'' ''}''" "\<not> str_contains ''Expecting value'' ''Unterminated string''"
    by code_simp+
  show "handle_ok_response always_429 (Inr (''{a: }'' @ [CHR 0xE2, CHR 0x80, CHR 0xA8])) 3
     = parse_error_result ''Expecting value''"
    by (simp add: handle_ok_response_def Let_def c always_429_def del: append.simps)
  show "handle_ok_response always_429 (Inr [CHR 0xC2, CHR 0xA0]) 3 = empty_response_result"
    by (simp add: handle_ok_response_def Let_def b)
qed

text \<open>
  C5. In the single call of \<^verbatim>\<open>generate_aptitude_questions_by_topic\<close> (credentials present,
  missing work of at most 30 questions), when the request phase ends with a 200 response whose
  cleaned payload \<^verbatim>\<open>json.loads\<close> rejects, the function returns an error result of its own:
  the empty-response error when the payload is blank, the truncation error when the message
  mentions an unterminated string or the payload does not end in a closing brace, the parse error
  otherwise. The result has \<^verbatim>\<open>success = False\<close> and is not the template fallback. In the
  reading, listening and grammar batch functions a 200 response whose payload does not parse gives
  exactly what a request that raises and what any other status give: the template fallback of
  that category. The payload is
  stripped of all whitespace that \<^verbatim>\<open>str.strip\<close> knows, the code points outside ASCII
  included.
\<close>

theorem parse_failure_is_reported_or_degraded:
  "(api_keys g \<noteq> [] \<and> sum_totals topic_configs = Inr t
      \<and> calculate_missing_questions topic_configs (check_existing_questions e topic_configs) = missing
      \<and> missing \<noteq> [] \<and> sum_totals missing = Inr mt \<and> mt \<le> 30
      \<and> key_loop e (TopicPrompt missing mt) [0..<length (api_keys g)] None g w
          = (Inr (Some (200, Inr payload)), g', w')
      \<and> json_loads e (py_strip (clean_code_fences (py_strip payload))) = Inl msg
    \<longrightarrow> (\<exists>r. generate_aptitude_questions_by_topic e topic_configs time_per_question job_title g w
                 = Some (Inr r, g', w')
             \<and> r = (if py_strip payload = [] then empty_response_result
                    else if str_contains msg ''Unterminated string''
                            \<or> \<not> endswith (py_strip (clean_code_fences (py_strip payload))) ''}''
                         then truncated_result
                         else parse_error_result msg)
             \<and> dict_get r ''success'' = Some (JBool False)
             \<and> get_fallback_aptitude_questions missing time_per_question job_title \<noteq> Some r))
   \<and> (api_keys g \<noteq> [] \<and> get_current_api_key g = Inr key
        \<and> (provider e (calls w) = PostRaises m
            \<or> provider e (calls w) = PostResponse status raw
               \<and> (status \<noteq> 200
                   \<or> (\<exists>text msg. raw = Inr text \<and> json_loads e (py_strip text) = Inl msg)))
      \<longrightarrow> (cfg_total reading_config \<noteq> 0 \<longrightarrow>
             batch_generate_reading_questions e reading_config job_title g w
             = (generate_reading_from_templates reading_config job_title,
                w\<lparr>calls := calls w + 1,
                  trace := trace w @ [Post key (ReadingBatchPrompt (cfg_total reading_config))]\<rparr>))
          \<and> (sentences_of lc = Inr sentences_config \<and> cfg_total sentences_config \<noteq> 0 \<longrightarrow>
             batch_generate_listening_questions e lc job_title g w
             = (generate_listening_from_templates lc job_title,
                w\<lparr>calls := calls w + 1,
                  trace := trace w @ [Post key (ListeningBatchPrompt (cfg_total sentences_config))]\<rparr>))
          \<and> (topics_of gc \<noteq> [] \<and> grammar_total gc \<noteq> 0 \<longrightarrow>
             batch_generate_grammar_questions e gc job_title g w
             = (generate_grammar_from_templates gc job_title,
                w\<lparr>calls := calls w + 1,
                  trace := trace w @ [Post key (GrammarBatchPrompt (grammar_total gc))]\<rparr>)))"
proof (intro conjI impI)
  assume h: "api_keys g \<noteq> [] \<and> sum_totals topic_configs = Inr t
      \<and> calculate_missing_questions topic_configs (check_existing_questions e topic_configs) = missing
      \<and> missing \<noteq> [] \<and> sum_totals missing = Inr mt \<and> mt \<le> 30
      \<and> key_loop e (TopicPrompt missing mt) [0..<length (api_keys g)] None g w
          = (Inr (Some (200, Inr payload)), g', w')
      \<and> json_loads e (py_strip (clean_code_fences (py_strip payload))) = Inl msg"
  let ?r = "if py_strip payload = [] then empty_response_result
            else if str_contains msg ''Unterminated string''
                    \<or> \<not> endswith (py_strip (clean_code_fences (py_strip payload))) ''}''
                 then truncated_result
                 else parse_error_result msg"
  have one: "generate_aptitude_questions_by_topic e topic_configs time_per_question job_title g w
      = single_call e missing mt time_per_question job_title g w"
    using h by (simp add: generate_aptitude_questions_by_topic_def Let_def)
  have two: "single_call e missing mt time_per_question job_title g w
      = Some (Inr (handle_ok_response e (Inr payload) mt), g', w')"
    using h by (simp add: single_call_def)
  have three: "handle_ok_response e (Inr payload) mt = ?r"
    using h by (simp add: handle_ok_response_def Let_def)
  have four: "dict_get ?r ''success'' = Some (JBool False)"
    by (simp add: empty_response_result_def truncated_result_def parse_error_result_def
        error_result_success)
  have five: "get_fallback_aptitude_questions missing time_per_question job_title \<noteq> Some ?r"
  proof
    assume "get_fallback_aptitude_questions missing time_per_question job_title = Some ?r"
    from fallback_success [OF this] four show False by simp
  qed
  show "\<exists>r. generate_aptitude_questions_by_topic e topic_configs time_per_question job_title g w
                 = Some (Inr r, g', w')
             \<and> r = ?r
             \<and> dict_get r ''success'' = Some (JBool False)
             \<and> get_fallback_aptitude_questions missing time_per_question job_title \<noteq> Some r"
    using one two three four five by simp
next
  assume h: "api_keys g \<noteq> [] \<and> get_current_api_key g = Inr key
        \<and> (provider e (calls w) = PostRaises m
            \<or> provider e (calls w) = PostResponse status raw
               \<and> (status \<noteq> 200
                   \<or> (\<exists>text msg. raw = Inr text \<and> json_loads e (py_strip text) = Inl msg)))"
    and c: "cfg_total reading_config \<noteq> 0"
  from h have fb: "batch_request e p item templates g w
         = (templates, w\<lparr>calls := calls w + 1, trace := trace w @ [Post key p]\<rparr>)"
    for p item templates
    using batch_request_falls_back [of g key e w m status raw] by blast
  from h c show "batch_generate_reading_questions e reading_config job_title g w
             = (generate_reading_from_templates reading_config job_title,
                w\<lparr>calls := calls w + 1,
                  trace := trace w @ [Post key (ReadingBatchPrompt (cfg_total reading_config))]\<rparr>)"
    by (simp add: batch_generate_reading_questions_def fb)
next
  assume h: "api_keys g \<noteq> [] \<and> get_current_api_key g = Inr key
        \<and> (provider e (calls w) = PostRaises m
            \<or> provider e (calls w) = PostResponse status raw
               \<and> (status \<noteq> 200
                   \<or> (\<exists>text msg. raw = Inr text \<and> json_loads e (py_strip text) = Inl msg)))"
    and c: "sentences_of lc = Inr sentences_config \<and> cfg_total sentences_config \<noteq> 0"
  from h have fb: "batch_request e p item templates g w
         = (templates, w\<lparr>calls := calls w + 1, trace := trace w @ [Post key p]\<rparr>)"
    for p item templates
    using batch_request_falls_back [of g key e w m status raw] by blast
  from h c show "batch_generate_listening_questions e lc job_title g w
             = (generate_listening_from_templates lc job_title,
                w\<lparr>calls := calls w + 1,
                  trace := trace w @ [Post key (ListeningBatchPrompt (cfg_total sentences_config))]\<rparr>)"
    by (simp add: batch_generate_listening_questions_def generate_listening_from_templates_def fb)
next
  assume h: "api_keys g \<noteq> [] \<and> get_current_api_key g = Inr key
        \<and> (provider e (calls w) = PostRaises m
            \<or> provider e (calls w) = PostResponse status raw
               \<and> (status \<noteq> 200
                   \<or> (\<exists>text msg. raw = Inr text \<and> json_loads e (py_strip text) = Inl msg)))"
    and c: "topics_of gc \<noteq> [] \<and> grammar_total gc \<noteq> 0"
  from h have fb: "batch_request e p item templates g w
         = (templates, w\<lparr>calls := calls w + 1, trace := trace w @ [Post key p]\<rparr>)"
    for p item templates
    using batch_request_falls_back [of g key e w m status raw] by blast
  from h c show "batch_generate_grammar_questions e gc job_title g w
             = (generate_grammar_from_templates gc job_title,
                w\<lparr>calls := calls w + 1,
                  trace := trace w @ [Post key (GrammarBatchPrompt (grammar_total gc))]\<rparr>)"
    by (simp add: batch_generate_grammar_questions_def fb)
qed

lemma upt_0_1: "[0..<length (api_keys one_key)] = [0]"
  by (simp add: one_key_def)

theorem parse_failure_is_reported_or_degraded_witness:
  "generate_aptitude_questions_by_topic garbage_env three_easy 60 ''Software Developer'' one_key fresh
     = Some (Inr truncated_result, one_key,
             \<lparr>calls = 1, trace = [Post (Some ''gsk_a'') (TopicPrompt three_easy 3)]\<rparr>)
   \<and> batch_generate_reading_questions garbage_env one_easy ''Software Developer'' one_key fresh
     = (generate_reading_from_templates one_easy ''Software Developer'',
        \<lparr>calls = 1, trace = [Post (Some ''gsk_a'') (ReadingBatchPrompt 1)]\<rparr>)
   \<and> batch_generate_listening_questions garbage_env one_sentence ''Software Developer'' one_key fresh
     = (generate_listening_from_templates one_sentence ''Software Developer'',
        \<lparr>calls = 1, trace = [Post (Some ''gsk_a'') (ListeningBatchPrompt 1)]\<rparr>)
   \<and> batch_generate_grammar_questions garbage_env one_tense ''Software Developer'' one_key fresh
     = (generate_grammar_from_templates one_tense ''Software Developer'',
        \<lparr>calls = 1, trace = [Post (Some ''gsk_a'') (GrammarBatchPrompt 1)]\<rparr>)
   \<and> batch_generate_reading_questions refusing_env one_easy ''Software Developer'' one_key fresh
     = (generate_reading_from_templates one_easy ''Software Developer'',
        \<lparr>calls = 1, trace = [Post (Some ''gsk_a'') (ReadingBatchPrompt 1)]\<rparr>)"
proof -
  let ?w1 = "\<lambda>p. \<lparr>calls = 1, trace = [Post (Some ''gsk_a'') p]\<rparr>"
  let ?text = "''{ questions: [ { topic: logic''"
  let ?msg = "''Unterminated string starting at: line 1 column 28 (char 27)''"
  note inst = parse_failure_is_reported_or_degraded
      [where g = "one_key" and e = "garbage_env" and w = "fresh" and topic_configs = "three_easy"
         and t = "3" and missing = "three_easy" and mt = "3" and payload = "?text" and msg = "?msg"
         and g' = "one_key" and w' = "?w1 (TopicPrompt three_easy 3)"
         and time_per_question = "60" and job_title = "''Software Developer''"
         and key = "Some ''gsk_a''" and status = "200" and raw = "Inr ?text" and m = "[]"
         and reading_config = "one_easy" and lc = "one_sentence" and gc = "one_tense"
         and sentences_config = "one_easy"]
  have k: "api_keys one_key \<noteq> []" by (simp add: one_key_def)
  have s: "sum_totals three_easy = Inr 3" by (simp add: three_easy_def)
  have m: "calculate_missing_questions three_easy (check_existing_questions garbage_env three_easy)
           = three_easy"
    by (simp add: calculate_missing_questions_def three_easy_def garbage_env_def
        missing_config_of_def existing_for_def get0_def Let_def)
  have ne: "three_easy \<noteq> []" by (simp add: three_easy_def)
  have kl: "key_loop garbage_env (TopicPrompt three_easy 3) [0..<length (api_keys one_key)] None
              one_key fresh
            = (Inr (Some (200, Inr ?text)), one_key, ?w1 (TopicPrompt three_easy 3))"
    unfolding upt_0_1
    by (simp add: garbage_env_def one_key_def fresh_def get_current_api_key_def post_def upt_0_2)
  have jl: "json_loads garbage_env (py_strip (clean_code_fences (py_strip ?text))) = Inl ?msg"
    by (simp add: garbage_env_def)
  have st: "py_strip ?text \<noteq> []"
    by code_simp
  have uc: "str_contains ?msg ''Unterminated string''"
    by code_simp
  have key: "get_current_api_key one_key = Inr (Some ''gsk_a'')"
    by (simp add: one_key_def get_current_api_key_def)
  have pr: "provider garbage_env (calls fresh) = PostResponse 200 (Inr ?text)"
    by (simp add: garbage_env_def)
  have pf: "provider garbage_env (calls fresh) = PostRaises []
            \<or> provider garbage_env (calls fresh) = PostResponse 200 (Inr ?text)
               \<and> ((200::int) \<noteq> 200
                   \<or> (\<exists>text msg. (Inr ?text :: string + string) = Inr text
                         \<and> json_loads garbage_env (py_strip text) = Inl msg))"
    by (simp add: garbage_env_def)
  have c1: "cfg_total one_easy \<noteq> 0" "cfg_total one_easy = 1"
    by (simp_all add: cfg_total_def one_easy_def get0_def)
  have c2: "sentences_of one_sentence = Inr one_easy \<and> cfg_total one_easy \<noteq> 0"
    by (simp add: cfg_total_def one_easy_def get0_def sentences_of_def one_sentence_def)
  have c3: "topics_of one_tense \<noteq> [] \<and> grammar_total one_tense \<noteq> 0" "grammar_total one_tense = 1"
    by (simp_all add: topics_of_def grammar_total_def one_tense_def topic_questions_of_def
        cfg_total_def one_easy_def get0_def)
  have fw: "fresh\<lparr>calls := calls fresh + 1, trace := trace fresh @ [Post (Some ''gsk_a'') p]\<rparr> = ?w1 p"
    for p by (simp add: fresh_def)
  from inst k s m ne kl jl
  have a: "generate_aptitude_questions_by_topic garbage_env three_easy 60 ''Software Developer''
             one_key fresh
           = Some (Inr truncated_result, one_key, ?w1 (TopicPrompt three_easy 3))"
    using st uc by auto
  from inst k key pf c1(1)
  have b: "batch_generate_reading_questions garbage_env one_easy ''Software Developer'' one_key fresh
           = (generate_reading_from_templates one_easy ''Software Developer'',
              ?w1 (ReadingBatchPrompt 1))"
    unfolding c1(2) fw by blast
  from inst k key pf c2
  have c: "batch_generate_listening_questions garbage_env one_sentence ''Software Developer'' one_key fresh
           = (generate_listening_from_templates one_sentence ''Software Developer'',
              ?w1 (ListeningBatchPrompt 1))"
    unfolding c1(2) fw by blast
  from inst k key pf c3(1)
  have d: "batch_generate_grammar_questions garbage_env one_tense ''Software Developer'' one_key fresh
           = (generate_grammar_from_templates one_tense ''Software Developer'',
              ?w1 (GrammarBatchPrompt 1))"
    unfolding c3(2) fw by blast
  note refused = parse_failure_is_reported_or_degraded
      [where g = "one_key" and e = "refusing_env" and w = "fresh" and key = "Some ''gsk_a''"
         and m = "''Connection refused''" and reading_config = "one_easy"
         and job_title = "''Software Developer''", THEN conjunct2]
  have rf: "provider refusing_env (calls fresh) = PostRaises ''Connection refused''"
    by (simp add: refusing_env_def)
  from refused k key rf c1(1)
  have e: "batch_generate_reading_questions refusing_env one_easy ''Software Developer'' one_key fresh
           = (generate_reading_from_templates one_easy ''Software Developer'',
              ?w1 (ReadingBatchPrompt 1))"
    unfolding c1(2) fw by blast
  show ?thesis using a b c d e by blast
qed

section \<open>Properties of the two older aptitude entry points\<close>

lemma call_fallback_by_difficulty:
  "call_fallback_from (by_difficulty_scope topics difficulty_levels time_per_question job_title)
   = Some (Inl (NameError ''topic_configs''))"
  by (simp add: call_fallback_from_def lookup_name_def by_difficulty_scope_def module_globals_def)

lemma call_fallback_aptitude:
  "call_fallback_from (aptitude_scope topics questions_per_topic difficulty job_title twd)
   = Some (Inl (NameError ''topic_configs''))"
  by (simp add: call_fallback_from_def lookup_name_def aptitude_scope_def module_globals_def)

text \<open>
  C10. With an empty credential list, \<^verbatim>\<open>generate_aptitude_questions_by_difficulty\<close> and
  \<^verbatim>\<open>generate_aptitude_questions\<close> return no result: the fallback call raises
  \<^verbatim>\<open>NameError\<close> for \<^verbatim>\<open>topic_configs\<close>, the first argument it evaluates, and nothing
  catches it. The same happens when the handler of the outer \<^verbatim>\<open>try\<close> runs, for instance
  when the request raises or, in the by-difficulty function, when the payload of a 200 response
  does not parse.
\<close>

theorem older_entry_points_raise_name_error:
  "(api_keys g = [] \<longrightarrow>
      generate_aptitude_questions_by_difficulty e topics difficulty_levels time_per_question
          job_title g w
        = Some (Inl (NameError ''topic_configs''), w)
      \<and> generate_aptitude_questions e topics_opt questions_per_topic difficulty job_title
          topics_with_difficulty g w
        = Some (Inl (NameError ''topic_configs''), w))
   \<and> (api_keys g \<noteq> [] \<and> sum_counts difficulty_levels = Inr n
        \<and> difficulty_details difficulty_levels = Inr ()
        \<and> get_current_api_key g = Inr key
        \<and> (provider e (calls w) = PostRaises msg
            \<or> (\<exists>text. provider e (calls w) = PostResponse 200 (Inr text)
                      \<and> json_loads e (py_strip text) = Inl msg)) \<longrightarrow>
      generate_aptitude_questions_by_difficulty e topics difficulty_levels time_per_question
          job_title g w
        = Some (Inl (NameError ''topic_configs''),
                w\<lparr>calls := calls w + 1, trace := trace w @ [Post key (DifficultyPrompt n)]\<rparr>))
   \<and> (api_keys g \<noteq> []
        \<and> aptitude_total topics_opt questions_per_topic topics_with_difficulty = Inr n
        \<and> get_current_api_key g = Inr key
        \<and> provider e (calls w) = PostRaises msg \<longrightarrow>
      generate_aptitude_questions e topics_opt questions_per_topic difficulty job_title
          topics_with_difficulty g w
        = Some (Inl (NameError ''topic_configs''),
                w\<lparr>calls := calls w + 1, trace := trace w @ [Post key (AptitudePrompt n)]\<rparr>))"
proof -
  have a: "generate_aptitude_questions_by_difficulty e topics difficulty_levels time_per_question
          job_title g w = Some (Inl (NameError ''topic_configs''), w)" if "api_keys g = []"
    using that
    by (simp add: generate_aptitude_questions_by_difficulty_def call_fallback_by_difficulty Let_def)
  have b: "generate_aptitude_questions e topics_opt questions_per_topic difficulty job_title
          topics_with_difficulty g w = Some (Inl (NameError ''topic_configs''), w)"
    if "api_keys g = []"
    using that by (simp add: generate_aptitude_questions_def call_fallback_aptitude Let_def)
  have c: "generate_aptitude_questions_by_difficulty e topics difficulty_levels time_per_question
          job_title g w
        = Some (Inl (NameError ''topic_configs''),
                w\<lparr>calls := calls w + 1, trace := trace w @ [Post key (DifficultyPrompt n)]\<rparr>)"
    if "api_keys g \<noteq> []" "sum_counts difficulty_levels = Inr n"
       "difficulty_details difficulty_levels = Inr ()" "get_current_api_key g = Inr key"
       "provider e (calls w) = PostRaises msg
            \<or> (\<exists>text. provider e (calls w) = PostResponse 200 (Inr text)
                      \<and> json_loads e (py_strip text) = Inl msg)"
    using that
    by (auto simp: generate_aptitude_questions_by_difficulty_def call_fallback_by_difficulty Let_def
        post_def)
  have d: "generate_aptitude_questions e topics_opt questions_per_topic difficulty job_title
          topics_with_difficulty g w
        = Some (Inl (NameError ''topic_configs''),
                w\<lparr>calls := calls w + 1, trace := trace w @ [Post key (AptitudePrompt n)]\<rparr>)"
    if "api_keys g \<noteq> []"
       "aptitude_total topics_opt questions_per_topic topics_with_difficulty = Inr n"
       "get_current_api_key g = Inr key" "provider e (calls w) = PostRaises msg"
    using that
    by (simp add: generate_aptitude_questions_def call_fallback_aptitude Let_def post_def)
  show ?thesis using a b c d by blast
qed

theorem older_entry_points_raise_name_error_witness:
  "generate_aptitude_questions_by_difficulty always_429 [''logical_reasoning'']
       [\<lparr>level = Some ''easy'', count = Some 2\<rparr>] 60 ''Software Developer'' no_keys fresh
     = Some (Inl (NameError ''topic_configs''), fresh)
   \<and> generate_aptitude_questions always_429 None 10 ''medium'' ''Software Developer'' None
       no_keys fresh
     = Some (Inl (NameError ''topic_configs''), fresh)
   \<and> generate_aptitude_questions_by_difficulty refusing_env [''logical_reasoning'']
       [\<lparr>level = Some ''easy'', count = Some 2\<rparr>] 60 ''Software Developer'' one_key fresh
     = Some (Inl (NameError ''topic_configs''),
             \<lparr>calls = 1, trace = [Post (Some ''gsk_a'') (DifficultyPrompt 2)]\<rparr>)
   \<and> generate_aptitude_questions_by_difficulty garbage_env [''logical_reasoning'']
       [\<lparr>level = Some ''easy'', count = Some 2\<rparr>] 60 ''Software Developer'' one_key fresh
     = Some (Inl (NameError ''topic_configs''),
             \<lparr>calls = 1, trace = [Post (Some ''gsk_a'') (DifficultyPrompt 2)]\<rparr>)
   \<and> generate_aptitude_questions refusing_env None 10 ''medium'' ''Software Developer'' None
       one_key fresh
     = Some (Inl (NameError ''topic_configs''),
             \<lparr>calls = 1, trace = [Post (Some ''gsk_a'') (AptitudePrompt 30)]\<rparr>)"
proof -
  let ?levels = "[\<lparr>level = Some ''easy'', count = Some 2\<rparr>]"
  let ?j = "''Software Developer''"
  let ?payload = "''{ questions: [ { topic: logic''"
  let ?msg = "''Unterminated string starting at: line 1 column 28 (char 27)''"
  note none = older_entry_points_raise_name_error
      [where g = "no_keys" and e = "always_429" and topics = "[''logical_reasoning'']"
         and difficulty_levels = "?levels" and time_per_question = "60" and job_title = "?j"
         and w = "fresh" and topics_opt = "None" and questions_per_topic = "10"
         and difficulty = "''medium''" and topics_with_difficulty = "None"]
  note refused = older_entry_points_raise_name_error
      [where g = "one_key" and e = "refusing_env" and topics = "[''logical_reasoning'']"
         and difficulty_levels = "?levels" and time_per_question = "60" and job_title = "?j"
         and w = "fresh" and topics_opt = "None" and questions_per_topic = "10"
         and difficulty = "''medium''" and topics_with_difficulty = "None"
         and key = "Some ''gsk_a''" and msg = "''Connection refused''"]
  note garbled = older_entry_points_raise_name_error
      [where g = "one_key" and e = "garbage_env" and topics = "[''logical_reasoning'']"
         and difficulty_levels = "?levels" and time_per_question = "60" and job_title = "?j"
         and w = "fresh" and n = "2" and key = "Some ''gsk_a''" and msg = "?msg"]
  have k0: "api_keys no_keys = []" by (simp add: no_keys_def)
  have k1: "api_keys one_key \<noteq> []" by (simp add: one_key_def)
  have key: "get_current_api_key one_key = Inr (Some ''gsk_a'')"
    by (simp add: one_key_def get_current_api_key_def)
  have sc: "sum_counts ?levels = Inr 2" "difficulty_details ?levels = Inr ()" by simp_all
  have at: "aptitude_total None 10 None = Inr 30" by (simp add: aptitude_total_def)
  have r: "provider refusing_env (calls fresh) = PostRaises ''Connection refused''"
    by (simp add: refusing_env_def)
  have gp: "provider garbage_env (calls fresh) = PostResponse 200 (Inr ?payload)"
    "json_loads garbage_env (py_strip ?payload) = Inl ?msg"
    by (simp_all add: garbage_env_def)
  have fw: "fresh\<lparr>calls := calls fresh + 1, trace := trace fresh @ [Post (Some ''gsk_a'') p]\<rparr>
            = \<lparr>calls = 1, trace = [Post (Some ''gsk_a'') p]\<rparr>" for p
    by (simp add: fresh_def)
  from none k0
  have a: "generate_aptitude_questions_by_difficulty always_429 [''logical_reasoning''] ?levels 60 ?j
             no_keys fresh = Some (Inl (NameError ''topic_configs''), fresh)"
    and b: "generate_aptitude_questions always_429 None 10 ''medium'' ?j None no_keys fresh
            = Some (Inl (NameError ''topic_configs''), fresh)"
    by blast+
  from refused [where n = "2"] k1 key sc r
  have c: "generate_aptitude_questions_by_difficulty refusing_env [''logical_reasoning''] ?levels 60 ?j
             one_key fresh
           = Some (Inl (NameError ''topic_configs''),
                   \<lparr>calls = 1, trace = [Post (Some ''gsk_a'') (DifficultyPrompt 2)]\<rparr>)"
    unfolding fw by blast
  from garbled k1 key sc gp
  have d: "generate_aptitude_questions_by_difficulty garbage_env [''logical_reasoning''] ?levels 60 ?j
             one_key fresh
           = Some (Inl (NameError ''topic_configs''),
                   \<lparr>calls = 1, trace = [Post (Some ''gsk_a'') (DifficultyPrompt 2)]\<rparr>)"
    unfolding fw by blast
  from refused [where n = "30"] k1 key at r
  have e: "generate_aptitude_questions refusing_env None 10 ''medium'' ?j None one_key fresh
           = Some (Inl (NameError ''topic_configs''),
                   \<lparr>calls = 1, trace = [Post (Some ''gsk_a'') (AptitudePrompt 30)]\<rparr>)"
    unfolding fw by blast
  show ?thesis using a b c d e by blast
qed

section \<open>Properties of the error results\<close>























section \<open>Properties of the template usage sets\<close>

lemma str_nat_1: "str_nat (Suc 0) = ''1''"
  by code_simp

lemma small_listening_templates_length: "length (small_listening_templates j) = 12"
  by (simp add: small_listening_templates_def)

lemma small_reading_templates_length: "length (small_reading_templates j) = 10"
  by (simp add: small_reading_templates_def)

lemma small_grammar_templates_length: "length small_grammar_templates = 8"
  by (simp add: small_grammar_templates_def)

lemma create_grammar_variation_first:
  "create_grammar_variation (small_grammar_templates ! 0) (Suc 0)
     = \<lparr>t_question = ''Select the sentence with proper present perfect tense usage:'',
        t_correct_answer = ''C''\<rparr>"
  by code_simp

lemma grammar_pass_all_used:
  assumes "\<forall>p \<in> set ps. fst p \<in> used"
  shows "grammar_pass n ps (qs, ex, used, k) = (qs, ex, used, k)"
  using assms by (induction ps) (auto simp: Let_def)

lemma listening_pass_all_used:
  assumes "\<forall>p \<in> set ps. fst p \<in> used"
  shows "listening_pass n ps (qs, ex, used, k) = (qs, ex, used, k)"
  using assms by (induction ps) auto

lemma reading_pass_all_used:
  assumes "\<forall>i \<in> set is. i mod length ts \<in> used" "int k < n"
  shows "reading_pass n ts is (qs, ex, used, k, ti) = (qs, ex, used, k, (if is = [] then ti else last is + 1))"
  using assms by (induction "is" arbitrary: ti) (auto simp: Let_def)

text \<open>
  C8, at the input where the code and the claim part. No credential is configured, all twelve
  listening templates are in \<^verbatim>\<open>used_listening_templates\<close>, nothing is persisted, and one
  question is asked for. \<^verbatim>\<open>_generate_small_listening_batch\<close> returns a synthetic variation
  of the first template and leaves the usage set full: it neither clears the set nor makes a
  second pass over the pool. \<^verbatim>\<open>_generate_small_grammar_batch\<close> does the same with its eight
  templates. The reading function in the corresponding state clears its set and hands out the
  first template again.
\<close>

theorem listening_pool_exhausted_no_reset:
  "generate_small_listening_batch refusing_env one_sentence ''Software Developer'' 1 None
       listening_exhausted fresh
     = (Inr [listening_question ''Sentence Repetition - Variation 1''
               (JStr (create_listening_variation
                        (small_listening_templates ''Software Developer'' ! 0)
                        ''Software Developer'' 1))
               ''medium'' 90 ''Listen carefully, then repeat exactly as you heard it.''],
        listening_exhausted, fresh)
   \<and> generate_small_grammar_batch refusing_env one_tense ''Software Developer'' 1 None
       grammar_exhausted fresh
     = (Inr [small_grammar_question ''Grammar Assessment - Variation 1''
               (JStr ''Select the sentence with proper present perfect tense usage:'') []
               (JStr ''C'')],
        grammar_exhausted, fresh)
   \<and> generate_small_reading_batch refusing_env one_easy ''Software Developer'' 1 None
       reading_exhausted fresh
     = (Inr [small_reading_question ''Template'' 1
               (JStr (small_reading_templates ''Software Developer'' ! 0))],
        reading_exhausted\<lparr>used_reading_templates := {0}\<rparr>, fresh)"
proof -
  let ?j = "''Software Developer''"
  have ai: "small_ai_attempt refusing_env p n mk listening_exhausted fresh = (None, fresh)"
    "small_ai_attempt refusing_env p n mk grammar_exhausted fresh = (None, fresh)"
    "small_ai_attempt refusing_env p n mk reading_exhausted fresh = (None, fresh)" for p n mk
    by (simp_all add: small_ai_attempt_def listening_exhausted_def grammar_exhausted_def
        reading_exhausted_def)
  have lused: "\<forall>p \<in> set (zip [0..<length (small_listening_templates ?j)] (small_listening_templates ?j)).
                 fst p \<in> used_listening_templates listening_exhausted"
  proof
    fix p assume "p \<in> set (zip [0..<length (small_listening_templates ?j)] (small_listening_templates ?j))"
    then have "fst p \<in> set [0..<length (small_listening_templates ?j)]"
      by (metis in_set_zipE prod.collapse)
    then have "fst p < 12" by (simp add: small_listening_templates_length)
    then show "fst p \<in> used_listening_templates listening_exhausted"
      unfolding listening_exhausted_def by simp arith
  qed
  have lp: "listening_pass 1 (zip [0..<12] (small_listening_templates ?j))
              ([], [], used_listening_templates listening_exhausted, 0)
            = ([], [], used_listening_templates listening_exhausted, 0)"
    using listening_pass_all_used [OF lused, of 1 "[]" "[]" 0]
    by (simp add: small_listening_templates_length)
  have a: "generate_small_listening_batch refusing_env one_sentence ?j 1 None listening_exhausted fresh
     = (Inr [listening_question ''Sentence Repetition - Variation 1''
               (JStr (create_listening_variation (small_listening_templates ?j ! 0) ?j 1))
               ''medium'' 90 ''Listen carefully, then repeat exactly as you heard it.''],
        listening_exhausted, fresh)"
    unfolding generate_small_listening_batch_def
    by (simp add: ai Let_def lp listening_variation_questions_def existing_sentences_of_def
        small_listening_templates_length str_nat_1)
  have gused: "\<forall>p \<in> set (zip [0..<length small_grammar_templates] small_grammar_templates).
                 fst p \<in> used_grammar_templates grammar_exhausted"
  proof
    fix p assume "p \<in> set (zip [0..<length small_grammar_templates] small_grammar_templates)"
    then have "fst p \<in> set [0..<length small_grammar_templates]"
      by (metis in_set_zipE prod.collapse)
    then have "fst p < 8" by (simp add: small_grammar_templates_length)
    then show "fst p \<in> used_grammar_templates grammar_exhausted"
      unfolding grammar_exhausted_def by simp arith
  qed
  have gp: "grammar_pass 1 (zip [0..<8] small_grammar_templates)
              ([], [], used_grammar_templates grammar_exhausted, 0)
            = ([], [], used_grammar_templates grammar_exhausted, 0)"
    using grammar_pass_all_used [OF gused, of 1 "[]" "[]" 0]
    by (simp add: small_grammar_templates_length)
  have g: "generate_small_grammar_batch refusing_env one_tense ?j 1 None grammar_exhausted fresh
     = (Inr [small_grammar_question ''Grammar Assessment - Variation 1''
               (JStr ''Select the sentence with proper present perfect tense usage:'') []
               (JStr ''C'')],
        grammar_exhausted, fresh)"
    unfolding generate_small_grammar_batch_def
    by (simp add: ai Let_def gp grammar_variation_questions_def existing_question_texts_of_def
        small_grammar_templates_length str_nat_1 create_grammar_variation_first)
  have mem10: "i \<in> used_reading_templates reading_exhausted" if "i < 10" for i
    using that unfolding reading_exhausted_def by simp arith
  have rused: "\<forall>i \<in> set [0..<length (small_reading_templates ?j)].
                 i mod length (small_reading_templates ?j) \<in> used_reading_templates reading_exhausted"
    by (simp add: small_reading_templates_length mem10)
  have first: "reading_pass 1 (small_reading_templates ?j) [0..<10]
                 ([], [], used_reading_templates reading_exhausted, 0, 0)
               = ([], [], used_reading_templates reading_exhausted, 0, 10)"
    using reading_pass_all_used [OF rused, of 0 1 "[]" "[]" 0]
    by (simp add: small_reading_templates_length)
  have c: "card (used_reading_templates reading_exhausted) = 10"
    by (simp add: reading_exhausted_def)
  have up: "[10..<20] = 10 # [11..<20]" by (simp add: upt_rec)
  have second: "reading_pass 1 (small_reading_templates ?j) [10..<20] ([], [], {}, 0, 10)
                = ([small_reading_question ''Template'' 1 (JStr (small_reading_templates ?j ! 0))],
                   [str_take 50 (small_reading_templates ?j ! 0)], {0}, 1, 11)"
    by (simp add: small_reading_templates_length up Let_def str_nat_1)
  have b: "generate_small_reading_batch refusing_env one_easy ?j 1 None reading_exhausted fresh
     = (Inr [small_reading_question ''Template'' 1 (JStr (small_reading_templates ?j ! 0))],
        reading_exhausted\<lparr>used_reading_templates := {0}\<rparr>, fresh)"
    unfolding generate_small_reading_batch_def
    by (simp add: ai Let_def first c second small_reading_templates_length)
  show ?thesis using a g b by simp
qed

end
